theory Spec2Isabelle
  imports Complex_Main
begin

section \<open>JavaScript values as the services read them\<close>

text \<open>
  The backfill services (\<^verbatim>\<open>src/services/completeDataBackfillService.ts\<close>, the
  production version, and \<^verbatim>\<open>src/services/dataBackfillService.ts\<close>, the earlier
  complete version of the same class) read upstream JSON through \<^verbatim>\<open>any\<close>. A
  field that the code defaults with \<^verbatim>\<open>||\<close> is a \<open>jsval\<close>: a missing field is
  \<open>JUndefined\<close>. Numbers are the integers and \<open>JNaN\<close>; fractional numbers and the
  infinities are outside the model.
\<close>

datatype jsval = JUndefined | JNull | JBool bool | JNum int | JNaN | JStr string

datatype exn = JsError string | NonError

text \<open>\<^verbatim>\<open>error instanceof Error ? error.message : 'Unknown error occurred'\<close>\<close>

fun errorMessage :: "exn \<Rightarrow> string" where
  "errorMessage (JsError m) = m"
| "errorMessage NonError = ''Unknown error occurred''"

fun truthy :: "jsval \<Rightarrow> bool" where
  "truthy JUndefined = False"
| "truthy JNull = False"
| "truthy (JBool b) = b"
| "truthy (JNum n) = (n \<noteq> 0)"
| "truthy JNaN = False"
| "truthy (JStr s) = (s \<noteq> [])"

text \<open>\<^verbatim>\<open>a || b\<close>\<close>

definition js_or :: "jsval \<Rightarrow> jsval \<Rightarrow> jsval" where
  "js_or a b = (if truthy a then a else b)"

text \<open>\<^verbatim>\<open>a || b\<close> on a text field that is missing (\<open>None\<close>) or empty.\<close>

fun str_or :: "string option \<Rightarrow> string \<Rightarrow> string" where
  "str_or None d = d"
| "str_or (Some s) d = (if s = [] then d else s)"

text \<open>\<^verbatim>\<open>a || b\<close> on a numeric field that is missing (\<open>None\<close>) or zero.\<close>

fun int_or :: "int option \<Rightarrow> int \<Rightarrow> int" where
  "int_or None d = d"
| "int_or (Some n) d = (if n = 0 then d else n)"

text \<open>Decimal digits of a natural number (\<^verbatim>\<open>Number.prototype.toString\<close>).\<close>

fun digits_of :: "nat \<Rightarrow> string" where
  "digits_of n = (if n < 10 then [''0123456789'' ! n]
                  else digits_of (n div 10) @ [''0123456789'' ! (n mod 10)])"

definition show_int :: "int \<Rightarrow> string" where
  "show_int i = (if i < 0 then CHR ''-'' # digits_of (nat (- i)) else digits_of (nat i))"

fun to_string :: "jsval \<Rightarrow> string" where
  "to_string JUndefined = ''undefined''"
| "to_string JNull = ''null''"
| "to_string (JBool b) = (if b then ''true'' else ''false'')"
| "to_string (JNum n) = show_int n"
| "to_string JNaN = ''NaN''"
| "to_string (JStr s) = s"

text \<open>
  The value of a digit in a radix: \<^verbatim>\<open>0-9\<close>, \<^verbatim>\<open>a-z\<close>, \<^verbatim>\<open>A-Z\<close>, when below
  the radix.
\<close>

definition digit_of :: "nat \<Rightarrow> char \<Rightarrow> nat option" where
  "digit_of radix c =
     (let n = (of_char c :: nat);
          d = (if 48 \<le> n \<and> n \<le> 57 then Some (n - 48)
               else if 97 \<le> n \<and> n \<le> 122 then Some (n - 87)
               else if 65 \<le> n \<and> n \<le> 90 then Some (n - 55)
               else None)
      in case d of None \<Rightarrow> None | Some v \<Rightarrow> if v < radix then Some v else None)"

text \<open>The longest prefix of digits, as a number; \<open>None\<close> when there is no digit.\<close>

fun parse_digits :: "nat \<Rightarrow> string \<Rightarrow> nat option \<Rightarrow> nat option" where
  "parse_digits r [] acc = acc"
| "parse_digits r (c # cs) acc =
     (case digit_of r c of
        None \<Rightarrow> acc
      | Some d \<Rightarrow>
          parse_digits r cs (Some ((case acc of None \<Rightarrow> 0 | Some a \<Rightarrow> a) * r + d)))"

text \<open>White space of the ASCII range (the Unicode spaces are not modelled).\<close>

definition is_ws :: "char \<Rightarrow> bool" where
  "is_ws c = (c \<in> set [CHR '' '', CHR 0x09, CHR 0x0A, CHR 0x0B, CHR 0x0C, CHR 0x0D])"

text \<open>
  \<^verbatim>\<open>parseInt(s)\<close> with no radix: leading white space is skipped, a sign is read, a
  \<^verbatim>\<open>0x\<close> prefix selects radix 16, and the longest prefix of digits is the result;
  \<open>NaN\<close> when there is no digit.
\<close>

definition parseInt :: "string \<Rightarrow> jsval" where
  "parseInt s =
     (let t = dropWhile is_ws s;
          neg = (take 1 t = ''-'');
          u = (if take 1 t = ''-'' \<or> take 1 t = ''+'' then drop 1 t else t);
          hex = (take 2 u = ''0x'' \<or> take 2 u = ''0X'');
          r = (if hex then 16 else 10);
          v = (if hex then drop 2 u else u)
      in case parse_digits r v None of
           None \<Rightarrow> JNaN
         | Some n \<Rightarrow> JNum (if neg then - int n else int n))"

text \<open>
  \<^verbatim>\<open>Number(s)\<close> on a string, for integer literals: the trimmed string is empty
  (zero), a hexadecimal literal, or an optionally signed run of decimal digits; every
  other string is \<open>NaN\<close> (\<open>None\<close>). Literals with a fraction or an exponent denote
  numbers outside the model.
\<close>

definition string_to_number :: "string \<Rightarrow> int option" where
  "string_to_number s =
     (let t = rev (dropWhile is_ws (rev (dropWhile is_ws s)));
          hex = (take 2 t = ''0x'' \<or> take 2 t = ''0X'');
          neg = (take 1 t = ''-'');
          u = (if hex then drop 2 t
               else if take 1 t = ''-'' \<or> take 1 t = ''+'' then drop 1 t else t);
          r = (if hex then 16 else 10)
      in if t = [] then Some 0
         else if u \<noteq> [] \<and> list_all (\<lambda>c. digit_of r c \<noteq> None) u
         then map_option (\<lambda>n. if neg then - int n else int n) (parse_digits r u None)
         else None)"

text \<open>\<^verbatim>\<open>ToNumber\<close>; \<open>None\<close> is \<open>NaN\<close>.\<close>

fun to_number :: "jsval \<Rightarrow> int option" where
  "to_number JUndefined = None"
| "to_number JNull = Some 0"
| "to_number (JBool b) = Some (if b then 1 else 0)"
| "to_number (JNum n) = Some n"
| "to_number JNaN = None"
| "to_number (JStr s) = string_to_number s"

fun is_str :: "jsval \<Rightarrow> bool" where
  "is_str (JStr s) = True"
| "is_str v = False"

text \<open>\<^verbatim>\<open>a + b\<close>: concatenation when either operand is a string, else addition.\<close>

definition js_add :: "jsval \<Rightarrow> jsval \<Rightarrow> jsval" where
  "js_add a b =
     (if is_str a \<or> is_str b then JStr (to_string a @ to_string b)
      else (case (to_number a, to_number b) of
              (Some x, Some y) \<Rightarrow> JNum (x + y)
            | _ \<Rightarrow> JNaN))"

text \<open>\<^verbatim>\<open>a * b\<close>\<close>

definition js_mul :: "jsval \<Rightarrow> jsval \<Rightarrow> jsval" where
  "js_mul a b =
     (case (to_number a, to_number b) of
        (Some x, Some y) \<Rightarrow> JNum (x * y)
      | _ \<Rightarrow> JNaN)"

text \<open>\<^verbatim>\<open>a - b\<close>\<close>

definition js_sub :: "jsval \<Rightarrow> jsval \<Rightarrow> jsval" where
  "js_sub a b =
     (case (to_number a, to_number b) of
        (Some x, Some y) \<Rightarrow> JNum (x - y)
      | _ \<Rightarrow> JNaN)"

text \<open>\<^verbatim>\<open>a > 0\<close> (a comparison with \<open>NaN\<close> is false).\<close>

definition js_gt_zero :: "jsval \<Rightarrow> bool" where
  "js_gt_zero a = (case to_number a of Some x \<Rightarrow> x > 0 | None \<Rightarrow> False)"

text \<open>\<^verbatim>\<open>s.split(sep)\<close> for a one-character separator.\<close>

fun split_on :: "char \<Rightarrow> string \<Rightarrow> string list" where
  "split_on sep [] = [[]]"
| "split_on sep (c # cs) =
     (if c = sep then [] # split_on sep cs
      else (case split_on sep cs of [] \<Rightarrow> [[c]] | p # ps \<Rightarrow> (c # p) # ps))"

text \<open>
  \<^verbatim>\<open>parseTimeToSeconds(timeString)\<close>, the same text in both services. A truthy
  value that is not a string has no \<^verbatim>\<open>split\<close>: the call throws a TypeError.
\<close>

definition parseTimeToSeconds :: "jsval \<Rightarrow> exn + jsval" where
  "parseTimeToSeconds timeString =
     (if \<not> truthy timeString then Inr (JNum 0)
      else (case timeString of
              JStr s \<Rightarrow>
                (let parts = split_on (CHR '':'') s
                 in if length parts = 2
                    then Inr (js_add (js_mul (parseInt (parts ! 0)) (JNum 60))
                                     (parseInt (parts ! 1)))
                    else Inr (JNum 0))
            | _ \<Rightarrow> Inl (JsError ''timeString.split is not a function'')))"


section \<open>Tables and the statements that write them\<close>

text \<open>
  A table is the list of its rows, in insertion order. The relational store is reached
  through \<^verbatim>\<open>executeQuery\<close> only; each statement the services send is one function
  on tables. \<^verbatim>\<open>INSERT ... ON CONFLICT (key) DO UPDATE SET ...\<close> rewrites the rows
  that carry the new row's key when there is one (\<open>do_update old excluded\<close> is the row
  after the \<^verbatim>\<open>SET\<close> list has been applied), and appends the new row otherwise.
\<close>

definition insert_on_conflict ::
  "('r \<Rightarrow> 'k) \<Rightarrow> ('r \<Rightarrow> 'r \<Rightarrow> 'r) \<Rightarrow> 'r \<Rightarrow> 'r list \<Rightarrow> 'r list" where
  "insert_on_conflict key do_update new tbl =
     (if key new \<in> set (map key tbl)
      then map (\<lambda>old. if key old = key new then do_update old new else old) tbl
      else tbl @ [new])"

text \<open>\<^verbatim>\<open>ON CONFLICT (key) DO NOTHING\<close>\<close>

definition do_nothing :: "'r \<Rightarrow> 'r \<Rightarrow> 'r" where
  "do_nothing old excluded = old"

text \<open>\<^verbatim>\<open>SELECT COUNT(*) FROM t WHERE p\<close>\<close>

definition select_count :: "('r \<Rightarrow> bool) \<Rightarrow> 'r list \<Rightarrow> nat" where
  "select_count p tbl = length (filter p tbl)"

text \<open>
  The schema is not part of the sources. Where a statement binds a \<open>jsval\<close> to a
  numeric column, the store's reading of the parameter is the function \<open>int_column\<close>,
  a parameter of the model: \<open>None\<close> when the store rejects the value, and then the
  statement throws and writes nothing. The ids of games, players and teams are numbers by
  their declared types and are stored as they are.
\<close>

definition bind_ints :: "(jsval \<Rightarrow> int option) \<Rightarrow> jsval list \<Rightarrow> int list option" where
  "bind_ints int_column vs = those (map int_column vs)"

definition store_rejects :: exn where
  "store_rejects = JsError ''invalid input syntax for type integer''"

text \<open>A store that takes numbers for its numeric columns and nothing else.\<close>

fun number_column :: "jsval \<Rightarrow> int option" where
  "number_column (JNum n) = Some n"
| "number_column v = None"

subsection \<open>Teams\<close>

record team =
  tm_id :: int
  tm_name :: string
  tm_abbreviation :: string
  tm_city :: string
  tm_division :: string
  tm_conference :: string

text \<open>One entry of \<^verbatim>\<open>data.standings\<close>, as \<^verbatim>\<open>insertTeam\<close> reads it.\<close>

record standing =
  teamAbbrev_default :: "string option"
  teamName_default :: "string option"
  placeName_default :: "string option"
  divisionName :: "string option"
  conferenceName :: "string option"

text \<open>
  \<^verbatim>\<open>getTeamIdFromAbbrev\<close>: \<^verbatim>\<open>mapping[abbrev] || 999\<close> (property names that every
  object inherits are not modelled).
\<close>

definition team_id_mapping :: "(string \<times> int) list" where
  "team_id_mapping =
     [(''NJD'', 1), (''NYI'', 2), (''NYR'', 3), (''PHI'', 4), (''PIT'', 5), (''BOS'', 6),
      (''BUF'', 7), (''MTL'', 8), (''OTT'', 9), (''TOR'', 10), (''CAR'', 12), (''FLA'', 13),
      (''TBL'', 14), (''WSH'', 15), (''CHI'', 16), (''DET'', 17), (''NSH'', 18), (''STL'', 19),
      (''CGY'', 20), (''COL'', 21), (''EDM'', 22), (''VAN'', 23), (''ANA'', 24), (''DAL'', 25),
      (''LAK'', 26), (''SJS'', 27), (''CBJ'', 28), (''MIN'', 29), (''WPG'', 30), (''ARI'', 53),
      (''VGK'', 54), (''SEA'', 55)]"

definition getTeamIdFromAbbrev :: "string \<Rightarrow> int" where
  "getTeamIdFromAbbrev abbrev = int_or (map_of team_id_mapping abbrev) 999"

text \<open>
  \<^verbatim>\<open>insertTeam\<close> of the production service: on a conflict the name, the
  abbreviation, the division and the conference are overwritten; the city is not in the
  \<^verbatim>\<open>SET\<close> list.
\<close>

definition team_of_standing :: "standing \<Rightarrow> team" where
  "team_of_standing st =
     (let teamAbbrev = str_or (teamAbbrev_default st) ''UNK'';
          teamName = str_or (teamName_default st) ''Unknown'';
          teamId = getTeamIdFromAbbrev teamAbbrev
      in \<lparr> tm_id = teamId, tm_name = teamName, tm_abbreviation = teamAbbrev,
           tm_city = str_or (placeName_default st) ''Unknown'',
           tm_division = str_or (divisionName st) ''Unknown'',
           tm_conference = str_or (conferenceName st) ''Unknown'' \<rparr>)"

definition insertTeam_update :: "team \<Rightarrow> team \<Rightarrow> team" where
  "insertTeam_update old excluded =
     old\<lparr> tm_name := tm_name excluded, tm_abbreviation := tm_abbreviation excluded,
          tm_division := tm_division excluded, tm_conference := tm_conference excluded \<rparr>"

definition insertTeam :: "standing \<Rightarrow> team list \<Rightarrow> team list" where
  "insertTeam st tbl = insert_on_conflict tm_id insertTeam_update (team_of_standing st) tbl"

text \<open>
  \<^verbatim>\<open>insertFallbackTeams\<close> of the production service: the 32 hardcoded teams, each
  through \<^verbatim>\<open>ON CONFLICT (id) DO UPDATE SET name = EXCLUDED.name\<close>.
\<close>

definition mk_team :: "int \<Rightarrow> string \<Rightarrow> string \<Rightarrow> string \<Rightarrow> string \<Rightarrow> string \<Rightarrow> team" where
  "mk_team i n a c d cf =
     \<lparr> tm_id = i, tm_name = n, tm_abbreviation = a, tm_city = c, tm_division = d,
       tm_conference = cf \<rparr>"

definition fallback_teams :: "team list" where
  "fallback_teams =
     [mk_team 1 ''New Jersey Devils'' ''NJD'' ''New Jersey'' ''Metropolitan'' ''Eastern'',
      mk_team 2 ''New York Islanders'' ''NYI'' ''New York'' ''Metropolitan'' ''Eastern'',
      mk_team 3 ''New York Rangers'' ''NYR'' ''New York'' ''Metropolitan'' ''Eastern'',
      mk_team 4 ''Philadelphia Flyers'' ''PHI'' ''Philadelphia'' ''Metropolitan'' ''Eastern'',
      mk_team 5 ''Pittsburgh Penguins'' ''PIT'' ''Pittsburgh'' ''Metropolitan'' ''Eastern'',
      mk_team 6 ''Boston Bruins'' ''BOS'' ''Boston'' ''Atlantic'' ''Eastern'',
      mk_team 7 ''Buffalo Sabres'' ''BUF'' ''Buffalo'' ''Atlantic'' ''Eastern'',
      mk_team 8 ''Montreal Canadiens'' ''MTL'' ''Montreal'' ''Atlantic'' ''Eastern'',
      mk_team 9 ''Ottawa Senators'' ''OTT'' ''Ottawa'' ''Atlantic'' ''Eastern'',
      mk_team 10 ''Toronto Maple Leafs'' ''TOR'' ''Toronto'' ''Atlantic'' ''Eastern'',
      mk_team 12 ''Carolina Hurricanes'' ''CAR'' ''Carolina'' ''Metropolitan'' ''Eastern'',
      mk_team 13 ''Florida Panthers'' ''FLA'' ''Florida'' ''Atlantic'' ''Eastern'',
      mk_team 14 ''Tampa Bay Lightning'' ''TBL'' ''Tampa Bay'' ''Atlantic'' ''Eastern'',
      mk_team 15 ''Washington Capitals'' ''WSH'' ''Washington'' ''Metropolitan'' ''Eastern'',
      mk_team 16 ''Chicago Blackhawks'' ''CHI'' ''Chicago'' ''Central'' ''Western'',
      mk_team 17 ''Detroit Red Wings'' ''DET'' ''Detroit'' ''Atlantic'' ''Eastern'',
      mk_team 18 ''Nashville Predators'' ''NSH'' ''Nashville'' ''Central'' ''Western'',
      mk_team 19 ''St. Louis Blues'' ''STL'' ''St. Louis'' ''Central'' ''Western'',
      mk_team 20 ''Calgary Flames'' ''CGY'' ''Calgary'' ''Pacific'' ''Western'',
      mk_team 21 ''Colorado Avalanche'' ''COL'' ''Colorado'' ''Central'' ''Western'',
      mk_team 22 ''Edmonton Oilers'' ''EDM'' ''Edmonton'' ''Pacific'' ''Western'',
      mk_team 23 ''Vancouver Canucks'' ''VAN'' ''Vancouver'' ''Pacific'' ''Western'',
      mk_team 24 ''Anaheim Ducks'' ''ANA'' ''Anaheim'' ''Pacific'' ''Western'',
      mk_team 25 ''Dallas Stars'' ''DAL'' ''Dallas'' ''Central'' ''Western'',
      mk_team 26 ''Los Angeles Kings'' ''LAK'' ''Los Angeles'' ''Pacific'' ''Western'',
      mk_team 27 ''San Jose Sharks'' ''SJS'' ''San Jose'' ''Pacific'' ''Western'',
      mk_team 28 ''Columbus Blue Jackets'' ''CBJ'' ''Columbus'' ''Metropolitan'' ''Eastern'',
      mk_team 29 ''Minnesota Wild'' ''MIN'' ''Minnesota'' ''Central'' ''Western'',
      mk_team 30 ''Winnipeg Jets'' ''WPG'' ''Winnipeg'' ''Central'' ''Western'',
      mk_team 53 ''Arizona Coyotes'' ''ARI'' ''Arizona'' ''Central'' ''Western'',
      mk_team 54 ''Vegas Golden Knights'' ''VGK'' ''Las Vegas'' ''Pacific'' ''Western'',
      mk_team 55 ''Seattle Kraken'' ''SEA'' ''Seattle'' ''Pacific'' ''Western'']"

definition fallback_update :: "team \<Rightarrow> team \<Rightarrow> team" where
  "fallback_update old excluded = old\<lparr> tm_name := tm_name excluded \<rparr>"

definition insertFallbackTeams :: "team list \<Rightarrow> team list" where
  "insertFallbackTeams tbl =
     fold (insert_on_conflict tm_id fallback_update) fallback_teams tbl"


subsection \<open>Players\<close>

record player =
  pl_id :: int
  pl_team_id :: int
  pl_first_name :: string
  pl_last_name :: string
  pl_position :: string
  pl_jersey_number :: "int option"

text \<open>One entry of the skater or goalie summary, as \<^verbatim>\<open>insertPlayer\<close> reads it.\<close>

record api_player =
  ap_playerId :: int
  ap_teamId :: "int option"
  ap_firstName :: "string option"
  ap_lastName :: "string option"
  ap_position :: "string option"
  ap_sweaterNumber :: "int option"

text \<open>\<^verbatim>\<open>player.sweaterNumber || null\<close>\<close>

fun int_or_null :: "int option \<Rightarrow> int option" where
  "int_or_null None = None"
| "int_or_null (Some n) = (if n = 0 then None else Some n)"

definition player_of_api :: "api_player \<Rightarrow> player" where
  "player_of_api p =
     \<lparr> pl_id = ap_playerId p, pl_team_id = int_or (ap_teamId p) 1,
       pl_first_name = str_or (ap_firstName p) ''Unknown'',
       pl_last_name = str_or (ap_lastName p) ''Unknown'',
       pl_position = str_or (ap_position p) ''F'',
       pl_jersey_number = int_or_null (ap_sweaterNumber p) \<rparr>"

definition insertPlayer_update :: "player \<Rightarrow> player \<Rightarrow> player" where
  "insertPlayer_update old excluded =
     old\<lparr> pl_team_id := pl_team_id excluded, pl_position := pl_position excluded,
          pl_jersey_number := pl_jersey_number excluded \<rparr>"

text \<open>\<^verbatim>\<open>insertPlayer\<close> of the production service (the season argument is not used).\<close>

definition insertPlayer :: "api_player \<Rightarrow> string \<Rightarrow> player list \<Rightarrow> player list" where
  "insertPlayer p season tbl =
     insert_on_conflict pl_id insertPlayer_update (player_of_api p) tbl"

definition CAPITALS_TEAM_ID :: int where
  "CAPITALS_TEAM_ID = 15"

definition mk_player :: "int \<Rightarrow> string \<Rightarrow> string \<Rightarrow> string \<Rightarrow> int \<Rightarrow> player" where
  "mk_player i firstName lastName pos num =
     \<lparr> pl_id = i, pl_team_id = CAPITALS_TEAM_ID, pl_first_name = firstName,
       pl_last_name = lastName,
       pl_position = pos, pl_jersey_number = Some num \<rparr>"

text \<open>The ten players of \<^verbatim>\<open>insertFallbackCapitalsPlayers\<close> in the production service.\<close>

definition fallback_capitals_players :: "player list" where
  "fallback_capitals_players =
     [mk_player 8471214 ''Alexander'' ''Ovechkin'' ''LW'' 8,
      mk_player 8470638 ''Nicklas'' ''Backstrom'' ''C'' 19,
      mk_player 8476453 ''John'' ''Carlson'' ''D'' 74,
      mk_player 8476872 ''T.J.'' ''Oshie'' ''RW'' 77,
      mk_player 8477493 ''Evgeny'' ''Kuznetsov'' ''C'' 92,
      mk_player 8477998 ''Tom'' ''Wilson'' ''RW'' 43,
      mk_player 8478402 ''Charlie'' ''Lindgren'' ''G'' 79,
      mk_player 8480817 ''Dylan'' ''Strome'' ''C'' 17,
      mk_player 8481522 ''Anthony'' ''Mantha'' ''RW'' 39,
      mk_player 8482073 ''Connor'' ''McMichael'' ''C'' 24]"

definition insertFallbackCapitalsPlayers :: "player list \<Rightarrow> player list" where
  "insertFallbackCapitalsPlayers tbl =
     fold (insert_on_conflict pl_id insertPlayer_update) fallback_capitals_players tbl"

subsection \<open>Games\<close>

record game =
  gm_id :: int
  gm_season :: string
  gm_game_type :: string
  gm_date_time :: "string option"
  gm_home_team_id :: "int option"
  gm_away_team_id :: "int option"
  gm_home_score :: int
  gm_away_score :: int
  gm_period :: "int option"
  gm_game_state :: string
  gm_venue :: string

text \<open>
  One game of the schedule, as \<^verbatim>\<open>insertGame\<close> reads it: \<open>ag_homeTeam_id\<close> is
  \<^verbatim>\<open>game.homeTeam?.id\<close>, and so on.
\<close>

record api_game =
  ag_id :: int
  ag_gameType :: "string option"
  ag_gameDate :: "string option"
  ag_startTimeUTC :: "string option"
  ag_homeTeam_id :: "int option"
  ag_awayTeam_id :: "int option"
  ag_homeTeam_score :: "int option"
  ag_awayTeam_score :: "int option"
  ag_gameState :: jsval
  ag_venue_default :: "string option"

definition mapGameState :: "jsval \<Rightarrow> string" where
  "mapGameState gameState =
     (if gameState = JNum 3 \<or> gameState = JStr ''Final'' then ''Final''
      else if gameState = JNum 1 then ''Scheduled''
      else if gameState = JNum 2 then ''Live''
      else ''Unknown'')"

text \<open>\<^verbatim>\<open>game.gameDate || game.startTimeUTC\<close>\<close>

fun opt_str_or :: "string option \<Rightarrow> string option \<Rightarrow> string option" where
  "opt_str_or None b = b"
| "opt_str_or (Some s) b = (if s = [] then b else Some s)"

text \<open>
  \<^verbatim>\<open>insertGame\<close> of the production service: the statement names no
  \<^verbatim>\<open>period\<close> column, so a new row has none.
\<close>

definition game_of_api :: "api_game \<Rightarrow> string \<Rightarrow> game" where
  "game_of_api g season =
     \<lparr> gm_id = ag_id g, gm_season = season, gm_game_type = str_or (ag_gameType g) ''02'',
       gm_date_time = opt_str_or (ag_gameDate g) (ag_startTimeUTC g),
       gm_home_team_id = ag_homeTeam_id g, gm_away_team_id = ag_awayTeam_id g,
       gm_home_score = int_or (ag_homeTeam_score g) 0,
       gm_away_score = int_or (ag_awayTeam_score g) 0,
       gm_period = None,
       gm_game_state = mapGameState (ag_gameState g),
       gm_venue = str_or (ag_venue_default g) ''Unknown'' \<rparr>"

definition insertGame_update :: "game \<Rightarrow> game \<Rightarrow> game" where
  "insertGame_update old excluded =
     old\<lparr> gm_home_score := gm_home_score excluded, gm_away_score := gm_away_score excluded,
          gm_game_state := gm_game_state excluded \<rparr>"

definition insertGame :: "api_game \<Rightarrow> string \<Rightarrow> game list \<Rightarrow> game list" where
  "insertGame g season tbl =
     insert_on_conflict gm_id insertGame_update (game_of_api g season) tbl"

definition mk_game ::
  "int \<Rightarrow> string \<Rightarrow> int \<Rightarrow> int \<Rightarrow> int \<Rightarrow> int \<Rightarrow> string \<Rightarrow> string \<Rightarrow> game" where
  "mk_game i season home away hsc asc date venue =
     \<lparr> gm_id = i, gm_season = season, gm_game_type = ''02'', gm_date_time = Some date,
       gm_home_team_id = Some home, gm_away_team_id = Some away, gm_home_score = hsc,
       gm_away_score = asc, gm_period = None, gm_game_state = ''Final'', gm_venue = venue \<rparr>"

text \<open>
  The five games of \<^verbatim>\<open>insertSampleCapitalsGames\<close>, each through
  \<^verbatim>\<open>ON CONFLICT (id) DO NOTHING\<close>.
\<close>

definition sample_capitals_games :: "string \<Rightarrow> game list" where
  "sample_capitals_games season =
     [mk_game 2024020500 season 15 3 4 2 ''2024-12-20'' ''Capital One Arena'',
      mk_game 2024020501 season 6 15 3 1 ''2024-12-18'' ''TD Garden'',
      mk_game 2024020502 season 15 5 2 3 ''2024-12-15'' ''Capital One Arena'',
      mk_game 2024020503 season 13 15 1 4 ''2024-12-12'' ''FLA Live Arena'',
      mk_game 2024020504 season 15 14 5 2 ''2024-12-10'' ''Capital One Arena'']"

definition insertSampleCapitalsGames :: "string \<Rightarrow> game list \<Rightarrow> game list" where
  "insertSampleCapitalsGames season tbl =
     fold (insert_on_conflict gm_id do_nothing) (sample_capitals_games season) tbl"


subsection \<open>Statements that can throw, and loops over them\<close>

text \<open>
  A call that can throw returns what it threw, if anything, and the table it leaves:
  nothing is rolled back, so the writes made before the exception stay.
\<close>

type_synonym 't outcome = "exn option \<times> 't"

text \<open>\<^verbatim>\<open>for (const x of xs) { await f(x) }\<close>: the first exception ends the loop.\<close>

fun for_each :: "('a \<Rightarrow> 't \<Rightarrow> 't outcome) \<Rightarrow> 'a list \<Rightarrow> 't \<Rightarrow> 't outcome" where
  "for_each f [] t = (None, t)"
| "for_each f (x # xs) t =
     (case f x t of
        (Some e, t') \<Rightarrow> (Some e, t')
      | (None, t') \<Rightarrow> for_each f xs t')"

text \<open>\<^verbatim>\<open>for (const x of xs) { try { await f(x) } catch (error) { } }\<close>\<close>

fun for_each_caught :: "('a \<Rightarrow> 't \<Rightarrow> 't outcome) \<Rightarrow> 'a list \<Rightarrow> 't \<Rightarrow> 't" where
  "for_each_caught f [] t = t"
| "for_each_caught f (x # xs) t = for_each_caught f xs (snd (f x t))"

text \<open>The table after \<open>n\<close> calls of the same statement.\<close>

fun after_calls :: "nat \<Rightarrow> ('t \<Rightarrow> 't outcome) \<Rightarrow> 't \<Rightarrow> 't" where
  "after_calls 0 f t = t"
| "after_calls (Suc n) f t = after_calls n f (snd (f t))"

subsection \<open>Per-game player statistics\<close>

record player_game_stat =
  pgs_game_id :: int
  pgs_player_id :: int
  pgs_team_id :: int
  pgs_goals :: int
  pgs_assists :: int
  pgs_points :: int
  pgs_plus_minus :: int
  pgs_penalty_minutes :: int
  pgs_shots :: int
  pgs_hits :: int
  pgs_blocks :: int
  pgs_time_on_ice_seconds :: int
  pgs_powerplay_time_seconds :: "int option"
  pgs_shorthanded_time_seconds :: "int option"
  pgs_corsi_for :: "int option"
  pgs_corsi_against :: "int option"
  pgs_expected_goals :: "int option"
  pgs_expected_assists :: "int option"
  pgs_individual_corsi_for :: "int option"
  pgs_individual_fenwick_for :: "int option"

definition pgs_key :: "player_game_stat \<Rightarrow> int \<times> int" where
  "pgs_key r = (pgs_game_id r, pgs_player_id r)"

text \<open>
  The \<^verbatim>\<open>stats\<close> object of one skater. \<open>sk_powerPlay_timeOnIce\<close> is
  \<^verbatim>\<open>stats.powerPlayStats?.timeOnIce\<close> and \<open>sk_penaltyKill_timeOnIce\<close> is
  \<^verbatim>\<open>stats.penaltyKillStats?.timeOnIce\<close>.
\<close>

record skater_stats =
  sk_goals :: jsval
  sk_assists :: jsval
  sk_plusMinus :: jsval
  sk_penaltyMinutes :: jsval
  sk_shots :: jsval
  sk_hits :: jsval
  sk_blockedShots :: jsval
  sk_timeOnIce :: jsval
  sk_powerPlay_timeOnIce :: jsval
  sk_penaltyKill_timeOnIce :: jsval
  sk_corsiFor :: jsval
  sk_corsiAgainst :: jsval
  sk_expectedGoals :: jsval
  sk_expectedAssists :: jsval
  sk_individualCorsiFor :: jsval
  sk_individualFenwickFor :: jsval

text \<open>
  The \<^verbatim>\<open>values\<close> array of \<^verbatim>\<open>insertPlayerGameStat\<close> in the production service.
  Only \<^verbatim>\<open>parseTimeToSeconds\<close> can throw.
\<close>

definition insertPlayerGameStat_values ::
  "int \<Rightarrow> int \<Rightarrow> int \<Rightarrow> skater_stats \<Rightarrow> exn + jsval list" where
  "insertPlayerGameStat_values gameId playerId teamId stats =
     (case parseTimeToSeconds (sk_timeOnIce stats) of
        Inl e \<Rightarrow> Inl e
      | Inr toi \<Rightarrow>
          Inr [JNum gameId, JNum playerId, JNum teamId,
               js_or (sk_goals stats) (JNum 0),
               js_or (sk_assists stats) (JNum 0),
               js_add (js_or (sk_goals stats) (JNum 0)) (js_or (sk_assists stats) (JNum 0)),
               js_or (sk_plusMinus stats) (JNum 0),
               js_or (sk_penaltyMinutes stats) (JNum 0),
               js_or (sk_shots stats) (JNum 0),
               js_or (sk_hits stats) (JNum 0),
               js_or (sk_blockedShots stats) (JNum 0),
               toi])"

text \<open>
  The row of the twelve columns that the production statement names. The three ids are
  numbers by their declared types and are stored as they are; \<open>vs\<close> are the store's
  readings of the nine parameters after them.
\<close>

definition pgs_of_values :: "int \<Rightarrow> int \<Rightarrow> int \<Rightarrow> int list \<Rightarrow> player_game_stat" where
  "pgs_of_values gameId playerId teamId vs =
     \<lparr> pgs_game_id = gameId, pgs_player_id = playerId, pgs_team_id = teamId,
       pgs_goals = vs ! 0, pgs_assists = vs ! 1, pgs_points = vs ! 2,
       pgs_plus_minus = vs ! 3, pgs_penalty_minutes = vs ! 4, pgs_shots = vs ! 5,
       pgs_hits = vs ! 6, pgs_blocks = vs ! 7, pgs_time_on_ice_seconds = vs ! 8,
       pgs_powerplay_time_seconds = None, pgs_shorthanded_time_seconds = None,
       pgs_corsi_for = None, pgs_corsi_against = None, pgs_expected_goals = None,
       pgs_expected_assists = None, pgs_individual_corsi_for = None,
       pgs_individual_fenwick_for = None \<rparr>"

text \<open>
  \<^verbatim>\<open>insertPlayerGameStat\<close> of the production service: the row is counted first and
  inserted only when the count is zero; an existing row is left as it is.
\<close>

definition insertPlayerGameStat ::
  "(jsval \<Rightarrow> int option) \<Rightarrow> int \<Rightarrow> int \<Rightarrow> int \<Rightarrow> skater_stats \<Rightarrow>
   player_game_stat list \<Rightarrow> player_game_stat list outcome" where
  "insertPlayerGameStat int_column gameId playerId teamId stats tbl =
     (if select_count (\<lambda>r. pgs_game_id r = gameId \<and> pgs_player_id r = playerId) tbl = 0
      then (case insertPlayerGameStat_values gameId playerId teamId stats of
              Inl e \<Rightarrow> (Some e, tbl)
            | Inr vs \<Rightarrow>
                (case bind_ints int_column (drop 3 vs) of
                   None \<Rightarrow> (Some store_rejects, tbl)
                 | Some is \<Rightarrow>
                     (None, tbl @ [pgs_of_values gameId playerId teamId is])))
      else (None, tbl))"

text \<open>\<^verbatim>\<open>this.parseTimeToSeconds(x) || 0\<close>\<close>

definition parseTimeToSeconds_or_zero :: "jsval \<Rightarrow> exn + jsval" where
  "parseTimeToSeconds_or_zero x =
     (case parseTimeToSeconds x of Inl e \<Rightarrow> Inl e | Inr v \<Rightarrow> Inr (js_or v (JNum 0)))"

text \<open>
  The \<^verbatim>\<open>values\<close> array of \<^verbatim>\<open>insertPlayerGameStats\<close> in
  \<^verbatim>\<open>dataBackfillService.ts\<close>: twenty entries, the three times parsed in order.
\<close>

definition insertPlayerGameStats_values ::
  "int \<Rightarrow> int \<Rightarrow> int \<Rightarrow> skater_stats \<Rightarrow> exn + jsval list" where
  "insertPlayerGameStats_values gameId playerId teamId stats =
     (case parseTimeToSeconds (sk_timeOnIce stats) of
        Inl e \<Rightarrow> Inl e
      | Inr toi \<Rightarrow>
     (case parseTimeToSeconds_or_zero (sk_powerPlay_timeOnIce stats) of
        Inl e \<Rightarrow> Inl e
      | Inr pp \<Rightarrow>
     (case parseTimeToSeconds_or_zero (sk_penaltyKill_timeOnIce stats) of
        Inl e \<Rightarrow> Inl e
      | Inr pk \<Rightarrow>
          Inr [JNum gameId, JNum playerId, JNum teamId,
               js_or (sk_goals stats) (JNum 0),
               js_or (sk_assists stats) (JNum 0),
               js_add (js_or (sk_goals stats) (JNum 0)) (js_or (sk_assists stats) (JNum 0)),
               js_or (sk_plusMinus stats) (JNum 0),
               js_or (sk_penaltyMinutes stats) (JNum 0),
               js_or (sk_shots stats) (JNum 0),
               js_or (sk_hits stats) (JNum 0),
               js_or (sk_blockedShots stats) (JNum 0),
               toi, pp, pk,
               js_or (sk_corsiFor stats) (JNum 0),
               js_or (sk_corsiAgainst stats) (JNum 0),
               js_or (sk_expectedGoals stats) (JNum 0),
               js_or (sk_expectedAssists stats) (JNum 0),
               js_or (sk_individualCorsiFor stats) (JNum 0),
               js_or (sk_individualFenwickFor stats) (JNum 0)])))"

definition pgs_of_values20 :: "int \<Rightarrow> int \<Rightarrow> int \<Rightarrow> int list \<Rightarrow> player_game_stat" where
  "pgs_of_values20 gameId playerId teamId vs =
     \<lparr> pgs_game_id = gameId, pgs_player_id = playerId, pgs_team_id = teamId,
       pgs_goals = vs ! 0, pgs_assists = vs ! 1, pgs_points = vs ! 2,
       pgs_plus_minus = vs ! 3, pgs_penalty_minutes = vs ! 4, pgs_shots = vs ! 5,
       pgs_hits = vs ! 6, pgs_blocks = vs ! 7, pgs_time_on_ice_seconds = vs ! 8,
       pgs_powerplay_time_seconds = Some (vs ! 9),
       pgs_shorthanded_time_seconds = Some (vs ! 10),
       pgs_corsi_for = Some (vs ! 11), pgs_corsi_against = Some (vs ! 12),
       pgs_expected_goals = Some (vs ! 13), pgs_expected_assists = Some (vs ! 14),
       pgs_individual_corsi_for = Some (vs ! 15),
       pgs_individual_fenwick_for = Some (vs ! 16) \<rparr>"

text \<open>
  \<^verbatim>\<open>ON CONFLICT (game_id, player_id) DO UPDATE SET\<close> of
  \<^verbatim>\<open>insertPlayerGameStats\<close>: all eighteen columns outside the key.
\<close>

definition insertPlayerGameStats_update ::
  "player_game_stat \<Rightarrow> player_game_stat \<Rightarrow> player_game_stat" where
  "insertPlayerGameStats_update old excluded =
     old\<lparr> pgs_team_id := pgs_team_id excluded, pgs_goals := pgs_goals excluded,
          pgs_assists := pgs_assists excluded, pgs_points := pgs_points excluded,
          pgs_plus_minus := pgs_plus_minus excluded,
          pgs_penalty_minutes := pgs_penalty_minutes excluded,
          pgs_shots := pgs_shots excluded, pgs_hits := pgs_hits excluded,
          pgs_blocks := pgs_blocks excluded,
          pgs_time_on_ice_seconds := pgs_time_on_ice_seconds excluded,
          pgs_powerplay_time_seconds := pgs_powerplay_time_seconds excluded,
          pgs_shorthanded_time_seconds := pgs_shorthanded_time_seconds excluded,
          pgs_corsi_for := pgs_corsi_for excluded,
          pgs_corsi_against := pgs_corsi_against excluded,
          pgs_expected_goals := pgs_expected_goals excluded,
          pgs_expected_assists := pgs_expected_assists excluded,
          pgs_individual_corsi_for := pgs_individual_corsi_for excluded,
          pgs_individual_fenwick_for := pgs_individual_fenwick_for excluded \<rparr>"

definition insertPlayerGameStats ::
  "(jsval \<Rightarrow> int option) \<Rightarrow> int \<Rightarrow> int \<Rightarrow> int \<Rightarrow> skater_stats \<Rightarrow>
   player_game_stat list \<Rightarrow> player_game_stat list outcome" where
  "insertPlayerGameStats int_column gameId playerId teamId stats tbl =
     (case insertPlayerGameStats_values gameId playerId teamId stats of
        Inl e \<Rightarrow> (Some e, tbl)
      | Inr vs \<Rightarrow>
          (case bind_ints int_column (drop 3 vs) of
             None \<Rightarrow> (Some store_rejects, tbl)
           | Some is \<Rightarrow>
               (None, insert_on_conflict pgs_key insertPlayerGameStats_update
                        (pgs_of_values20 gameId playerId teamId is) tbl)))"

text \<open>A \<^verbatim>\<open>stats\<close> object with every field missing.\<close>

definition no_stats :: skater_stats where
  "no_stats =
     \<lparr> sk_goals = JUndefined, sk_assists = JUndefined, sk_plusMinus = JUndefined,
       sk_penaltyMinutes = JUndefined, sk_shots = JUndefined, sk_hits = JUndefined,
       sk_blockedShots = JUndefined, sk_timeOnIce = JUndefined,
       sk_powerPlay_timeOnIce = JUndefined, sk_penaltyKill_timeOnIce = JUndefined,
       sk_corsiFor = JUndefined, sk_corsiAgainst = JUndefined, sk_expectedGoals = JUndefined,
       sk_expectedAssists = JUndefined, sk_individualCorsiFor = JUndefined,
       sk_individualFenwickFor = JUndefined \<rparr>"

text \<open>
  The boxscore as the production service reads it: \<open>bp_skaterStats\<close> is
  \<^verbatim>\<open>player.statistics?.skaterStats\<close>; \<open>bt_score\<close>, \<open>bt_sog\<close> and \<open>bt_hits\<close> are the
  fields of the team object that \<^verbatim>\<open>insertTeamGameStat\<close> reads.
\<close>

record box_player =
  bp_playerId :: int
  bp_skaterStats :: "skater_stats option"

record box_team =
  bt_id :: int
  bt_players :: "box_player list option"
  bt_score :: jsval
  bt_sog :: jsval
  bt_hits :: jsval

record boxscore =
  bx_homeTeam :: "box_team option"
  bx_awayTeam :: "box_team option"

text \<open>\<^verbatim>\<open>processPlayerGameStats\<close> of the production service.\<close>

definition processPlayerGameStats ::
  "(jsval \<Rightarrow> int option) \<Rightarrow> int \<Rightarrow> boxscore \<Rightarrow> player_game_stat list \<Rightarrow>
   player_game_stat list outcome" where
  "processPlayerGameStats int_column gameId box tbl =
     for_each
       (\<lambda>team t.
          case team of
            None \<Rightarrow> (None, t)
          | Some tm \<Rightarrow>
              (case bt_players tm of
                 None \<Rightarrow> (None, t)
               | Some players \<Rightarrow>
                   for_each
                     (\<lambda>p t'.
                        case bp_skaterStats p of
                          None \<Rightarrow> (None, t')
                        | Some stats \<Rightarrow>
                            insertPlayerGameStat int_column gameId (bp_playerId p) (bt_id tm)
                              stats t')
                     players t))
       [bx_homeTeam box, bx_awayTeam box] tbl"

text \<open>
  The write loop of \<^verbatim>\<open>backfillPlayerGameStats\<close> in the production service, over the
  games whose boxscore was fetched: an exception inside one game is caught and the loop
  goes on with the next game.
\<close>

definition backfillPlayerGameStats_loop ::
  "(jsval \<Rightarrow> int option) \<Rightarrow> (int \<times> boxscore) list \<Rightarrow> player_game_stat list \<Rightarrow>
   player_game_stat list" where
  "backfillPlayerGameStats_loop int_column fetched tbl =
     for_each_caught (\<lambda>(gameId, box). processPlayerGameStats int_column gameId box)
       fetched tbl"

text \<open>
  The boxscore as \<^verbatim>\<open>dataBackfillService.ts\<close> reads it: \<^verbatim>\<open>player.statistics\<close> is
  an array of \<^verbatim>\<open>{category, stats}\<close>, searched with \<^verbatim>\<open>find\<close>.
\<close>

record box_player_c =
  bpc_playerId :: int
  bpc_statistics :: "(string \<times> skater_stats) list option"

record box_team_c =
  btc_id :: int
  btc_players :: "box_player_c list option"

record boxscore_c =
  bxc_homeTeam :: "box_team_c option"
  bxc_awayTeam :: "box_team_c option"

text \<open>\<^verbatim>\<open>{...skaterStats, powerPlayStats, penaltyKillStats}\<close>\<close>

definition spread_stats ::
  "skater_stats \<Rightarrow> skater_stats option \<Rightarrow> skater_stats option \<Rightarrow> skater_stats" where
  "spread_stats skaterStats powerPlayStats penaltyKillStats =
     skaterStats
       \<lparr> sk_powerPlay_timeOnIce :=
           (case powerPlayStats of None \<Rightarrow> JUndefined | Some s \<Rightarrow> sk_timeOnIce s),
         sk_penaltyKill_timeOnIce :=
           (case penaltyKillStats of None \<Rightarrow> JUndefined | Some s \<Rightarrow> sk_timeOnIce s) \<rparr>"

definition processCompletePlayerGameStats ::
  "(jsval \<Rightarrow> int option) \<Rightarrow> int \<Rightarrow> boxscore_c \<Rightarrow> player_game_stat list \<Rightarrow>
   player_game_stat list outcome" where
  "processCompletePlayerGameStats int_column gameId box tbl =
     for_each
       (\<lambda>team t.
          case team of
            None \<Rightarrow> (None, t)
          | Some tm \<Rightarrow>
              (case btc_players tm of
                 None \<Rightarrow> (None, t)
               | Some players \<Rightarrow>
                   for_each
                     (\<lambda>p t'.
                        case bpc_statistics p of
                          None \<Rightarrow> (None, t')
                        | Some stats \<Rightarrow>
                            (case map_of stats ''skaterStats'' of
                               None \<Rightarrow> (None, t')
                             | Some skaterStats \<Rightarrow>
                                 insertPlayerGameStats int_column gameId (bpc_playerId p)
                                   (btc_id tm)
                                   (spread_stats skaterStats (map_of stats ''powerPlay'')
                                      (map_of stats ''penaltyKill''))
                                   t'))
                     players t))
       [bxc_homeTeam box, bxc_awayTeam box] tbl"

text \<open>
  The write loop of \<^verbatim>\<open>backfillPlayerGameStats\<close> in \<^verbatim>\<open>dataBackfillService.ts\<close>:
  there is no \<^verbatim>\<open>try\<close> around one game, so the first exception ends the loop.
\<close>

definition backfillPlayerGameStats_loop_c ::
  "(jsval \<Rightarrow> int option) \<Rightarrow> (int \<times> boxscore_c) list \<Rightarrow> player_game_stat list \<Rightarrow>
   player_game_stat list outcome" where
  "backfillPlayerGameStats_loop_c int_column fetched tbl =
     for_each (\<lambda>(gameId, box). processCompletePlayerGameStats int_column gameId box)
       fetched tbl"

subsection \<open>Per-game team statistics\<close>

record team_game_stat =
  tgs_game_id :: int
  tgs_team_id :: int
  tgs_is_home :: bool
  tgs_goals :: int
  tgs_shots :: int
  tgs_hits :: int

definition tgs_key :: "team_game_stat \<Rightarrow> int \<times> int" where
  "tgs_key r = (tgs_game_id r, tgs_team_id r)"

text \<open>
  \<^verbatim>\<open>insertTeamGameStat\<close> of the production service: counted first, inserted only when
  the count is zero.
\<close>

definition insertTeamGameStat ::
  "(jsval \<Rightarrow> int option) \<Rightarrow> int \<Rightarrow> int \<Rightarrow> bool \<Rightarrow> box_team \<Rightarrow>
   team_game_stat list \<Rightarrow> team_game_stat list outcome" where
  "insertTeamGameStat int_column gameId teamId isHome teamData tbl =
     (if select_count (\<lambda>r. tgs_game_id r = gameId \<and> tgs_team_id r = teamId) tbl = 0
      then (case bind_ints int_column
                   [js_or (bt_score teamData) (JNum 0), js_or (bt_sog teamData) (JNum 0),
                    js_or (bt_hits teamData) (JNum 0)] of
              None \<Rightarrow> (Some store_rejects, tbl)
            | Some vs \<Rightarrow>
                (None, tbl @ [\<lparr> tgs_game_id = gameId, tgs_team_id = teamId,
                                tgs_is_home = isHome, tgs_goals = vs ! 0, tgs_shots = vs ! 1,
                                tgs_hits = vs ! 2 \<rparr>]))
      else (None, tbl))"

definition processTeamGameStats ::
  "(jsval \<Rightarrow> int option) \<Rightarrow> int \<Rightarrow> boxscore \<Rightarrow> team_game_stat list \<Rightarrow>
   team_game_stat list outcome" where
  "processTeamGameStats int_column gameId box tbl =
     for_each
       (\<lambda>(team, isHome) t.
          case team of
            None \<Rightarrow> (None, t)
          | Some tm \<Rightarrow> insertTeamGameStat int_column gameId (bt_id tm) isHome tm t)
       [(bx_homeTeam box, True), (bx_awayTeam box, False)] tbl"

text \<open>
  \<^verbatim>\<open>insertSampleTeamStats\<close> of the production service: the two rows of game
  2024020500, each inserted when no row has its key.
\<close>

definition sample_team_stats :: "team_game_stat list" where
  "sample_team_stats =
     [\<lparr> tgs_game_id = 2024020500, tgs_team_id = 15, tgs_is_home = True, tgs_goals = 4,
        tgs_shots = 32, tgs_hits = 18 \<rparr>,
      \<lparr> tgs_game_id = 2024020500, tgs_team_id = 3, tgs_is_home = False, tgs_goals = 2,
        tgs_shots = 28, tgs_hits = 22 \<rparr>]"

definition insertSampleTeamStats :: "team_game_stat list \<Rightarrow> team_game_stat list" where
  "insertSampleTeamStats tbl =
     fold (\<lambda>stat t.
             if select_count (\<lambda>r. tgs_game_id r = tgs_game_id stat
                                  \<and> tgs_team_id r = tgs_team_id stat) t = 0
             then t @ [stat] else t)
       sample_team_stats tbl"

section \<open>Season aggregation\<close>

subsection \<open>Player season statistics\<close>

text \<open>
  A row of \<^verbatim>\<open>player_season_stats\<close>. A column that an \<^verbatim>\<open>INSERT\<close> does not name
  is \<open>None\<close> in the new row: the statement wrote no value for it. \<^verbatim>\<open>NUMERIC\<close>
  values are rational numbers, and a \<^verbatim>\<open>NUMERIC\<close> column holds the value that the
  statement computes (the declared precision of the columns is not in the sources).
\<close>

record player_season_stat =
  pss_player_id :: int
  pss_season :: string
  pss_team_id :: int
  pss_games_played :: int
  pss_goals :: int
  pss_assists :: int
  pss_points :: int
  pss_plus_minus :: int
  pss_penalty_minutes :: int
  pss_shots :: int
  pss_shooting_percentage :: "rat option"
  pss_time_on_ice_total_seconds :: int
  pss_time_on_ice_avg_seconds :: "rat option"
  pss_powerplay_time_total_seconds :: "int option"
  pss_shorthanded_time_total_seconds :: "int option"

definition pss_key :: "player_season_stat \<Rightarrow> int \<times> string \<times> int" where
  "pss_key r = (pss_player_id r, pss_season r, pss_team_id r)"

text \<open>
  \<^verbatim>\<open>FROM player_game_stats pgs JOIN games g ON pgs.game_id = g.id WHERE g.season = $1\<close>:
  one row for every pair of a statistics row and a game of the season with its id.
\<close>

definition season_rows :: "string \<Rightarrow> game list \<Rightarrow> player_game_stat list \<Rightarrow> player_game_stat list"
  where
  "season_rows season games pgs =
     concat (map (\<lambda>r. map (\<lambda>g. r)
                         (filter (\<lambda>g. pgs_game_id r = gm_id g \<and> gm_season g = season) games))
                 pgs)"

text \<open>\<^verbatim>\<open>GROUP BY player_id, team_id\<close>: the groups, and the rows of one group.\<close>

definition player_groups :: "player_game_stat list \<Rightarrow> (int \<times> int) list" where
  "player_groups rows = remdups (map (\<lambda>r. (pgs_player_id r, pgs_team_id r)) rows)"

definition group_rows :: "int \<times> int \<Rightarrow> player_game_stat list \<Rightarrow> player_game_stat list" where
  "group_rows k rows = filter (\<lambda>r. (pgs_player_id r, pgs_team_id r) = k) rows"

text \<open>\<^verbatim>\<open>SUM\<close> over a nullable column: nulls are skipped, and the sum of no value is null.\<close>

definition sql_sum_nullable :: "int option list \<Rightarrow> int option" where
  "sql_sum_nullable xs =
     (if list_all (\<lambda>x. x = None) xs then None
      else Some (sum_list (map (\<lambda>x. case x of None \<Rightarrow> 0 | Some v \<Rightarrow> v) xs)))"

text \<open>
  \<^verbatim>\<open>a::NUMERIC / b\<close> on two integers, as PostgreSQL computes it. The quotient is not
  exact: it is rounded, half away from zero, to a number of decimal places chosen from
  the operands, so that the result has at least 16 significant digits. The store counts
  in digits of base 10000: with the weight of a number (the number of its base-10000
  digits, less one) and its first such digit, the weight of the quotient is estimated as
  the difference of the weights, less one when the first digit of the dividend is not
  greater than that of the divisor, and the scale is 16 less four times this estimate,
  kept between 0 and 1000. \<^verbatim>\<open>AVG\<close> over an integer column is this division of the
  sum by the count. Where the statements divide, the divisor is not zero.
\<close>

fun nbase_weight :: "nat \<Rightarrow> nat" where
  "nbase_weight n = (if n < 10000 then 0 else Suc (nbase_weight (n div 10000)))"

fun nbase_first_digit :: "nat \<Rightarrow> nat" where
  "nbase_first_digit n = (if n < 10000 then n else nbase_first_digit (n div 10000))"

definition select_div_scale :: "int \<Rightarrow> int \<Rightarrow> nat" where
  "select_div_scale a b =
     (let qweight = int (nbase_weight (nat \<bar>a\<bar>)) - int (nbase_weight (nat \<bar>b\<bar>))
                    - (if nbase_first_digit (nat \<bar>a\<bar>) \<le> nbase_first_digit (nat \<bar>b\<bar>)
                       then 1 else 0)
      in nat (min (max (16 - qweight * 4) 0) 1000))"

definition numeric_div :: "int \<Rightarrow> int \<Rightarrow> rat" where
  "numeric_div a b =
     (let rscale = select_div_scale a b;
          q = (2 * \<bar>a\<bar> * 10 ^ rscale + \<bar>b\<bar>) div (2 * \<bar>b\<bar>)
      in of_int (sgn a * sgn b * q) / 10 ^ rscale)"

text \<open>
  The \<^verbatim>\<open>SELECT\<close> list of \<^verbatim>\<open>calculatePlayerSeasonStats\<close> in
  \<^verbatim>\<open>dataBackfillService.ts\<close>, for one group:
  \<^verbatim>\<open>CASE WHEN SUM(shots) > 0 THEN (SUM(goals)::NUMERIC / SUM(shots) * 100) ELSE 0 END\<close>
  divides first and multiplies the rounded quotient.
\<close>

definition player_season_row_c ::
  "string \<Rightarrow> player_game_stat list \<Rightarrow> int \<times> int \<Rightarrow> player_season_stat" where
  "player_season_row_c season rows k =
     (let grp = group_rows k rows;
          goals = sum_list (map pgs_goals grp);
          shots = sum_list (map pgs_shots grp)
      in \<lparr> pss_player_id = fst k, pss_season = season, pss_team_id = snd k,
           pss_games_played = int (length grp),
           pss_goals = goals,
           pss_assists = sum_list (map pgs_assists grp),
           pss_points = sum_list (map pgs_points grp),
           pss_plus_minus = sum_list (map pgs_plus_minus grp),
           pss_penalty_minutes = sum_list (map pgs_penalty_minutes grp),
           pss_shots = shots,
           pss_shooting_percentage =
             Some (if shots > 0 then numeric_div goals shots * 100 else 0),
           pss_time_on_ice_total_seconds = sum_list (map pgs_time_on_ice_seconds grp),
           pss_time_on_ice_avg_seconds =
             Some (numeric_div (sum_list (map pgs_time_on_ice_seconds grp)) (int (length grp))),
           pss_powerplay_time_total_seconds =
             sql_sum_nullable (map pgs_powerplay_time_seconds grp),
           pss_shorthanded_time_total_seconds =
             sql_sum_nullable (map pgs_shorthanded_time_seconds grp) \<rparr>)"

text \<open>Its \<^verbatim>\<open>DO UPDATE SET\<close> list: every column outside the key.\<close>

definition player_season_update_c ::
  "player_season_stat \<Rightarrow> player_season_stat \<Rightarrow> player_season_stat" where
  "player_season_update_c old excluded =
     old\<lparr> pss_games_played := pss_games_played excluded,
          pss_goals := pss_goals excluded,
          pss_assists := pss_assists excluded,
          pss_points := pss_points excluded,
          pss_plus_minus := pss_plus_minus excluded,
          pss_penalty_minutes := pss_penalty_minutes excluded,
          pss_shots := pss_shots excluded,
          pss_shooting_percentage := pss_shooting_percentage excluded,
          pss_time_on_ice_total_seconds := pss_time_on_ice_total_seconds excluded,
          pss_time_on_ice_avg_seconds := pss_time_on_ice_avg_seconds excluded,
          pss_powerplay_time_total_seconds := pss_powerplay_time_total_seconds excluded,
          pss_shorthanded_time_total_seconds := pss_shorthanded_time_total_seconds excluded \<rparr>"

text \<open>
  The statement of \<^verbatim>\<open>calculatePlayerSeasonStats\<close> in \<^verbatim>\<open>dataBackfillService.ts\<close>:
  \<^verbatim>\<open>INSERT INTO player_season_stats (...) SELECT ... GROUP BY player_id, team_id
  ON CONFLICT (player_id, season, team_id) DO UPDATE SET ...\<close>.
\<close>

definition calculatePlayerSeasonStats ::
  "string \<Rightarrow> game list \<Rightarrow> player_game_stat list \<Rightarrow> player_season_stat list \<Rightarrow>
   player_season_stat list" where
  "calculatePlayerSeasonStats season games pgs pss =
     (let rows = season_rows season games pgs
      in fold (insert_on_conflict pss_key player_season_update_c)
              (map (player_season_row_c season rows) (player_groups rows)) pss)"

text \<open>
  The \<^verbatim>\<open>SELECT\<close> list of \<^verbatim>\<open>calculateSeasonStats\<close> in the production service: eleven
  columns; the shooting percentage, the average and the special-teams totals are not
  named.
\<close>

definition player_season_row ::
  "string \<Rightarrow> player_game_stat list \<Rightarrow> int \<times> int \<Rightarrow> player_season_stat" where
  "player_season_row season rows k =
     (let grp = group_rows k rows
      in \<lparr> pss_player_id = fst k, pss_season = season, pss_team_id = snd k,
           pss_games_played = int (length grp),
           pss_goals = sum_list (map pgs_goals grp),
           pss_assists = sum_list (map pgs_assists grp),
           pss_points = sum_list (map pgs_points grp),
           pss_plus_minus = sum_list (map pgs_plus_minus grp),
           pss_penalty_minutes = sum_list (map pgs_penalty_minutes grp),
           pss_shots = sum_list (map pgs_shots grp),
           pss_shooting_percentage = None,
           pss_time_on_ice_total_seconds = sum_list (map pgs_time_on_ice_seconds grp),
           pss_time_on_ice_avg_seconds = None,
           pss_powerplay_time_total_seconds = None,
           pss_shorthanded_time_total_seconds = None \<rparr>)"

text \<open>
  Its \<^verbatim>\<open>DO UPDATE SET\<close> list: \<^verbatim>\<open>games_played\<close>, \<^verbatim>\<open>goals\<close>, \<^verbatim>\<open>assists\<close> and
  \<^verbatim>\<open>points\<close> (and the timestamp).
\<close>

definition player_season_update ::
  "player_season_stat \<Rightarrow> player_season_stat \<Rightarrow> player_season_stat" where
  "player_season_update old excluded =
     old\<lparr> pss_games_played := pss_games_played excluded,
          pss_goals := pss_goals excluded,
          pss_assists := pss_assists excluded,
          pss_points := pss_points excluded \<rparr>"

text \<open>The player statement of \<^verbatim>\<open>calculateSeasonStats\<close> in the production service.\<close>

definition calculateSeasonStats_players ::
  "string \<Rightarrow> game list \<Rightarrow> player_game_stat list \<Rightarrow> player_season_stat list \<Rightarrow>
   player_season_stat list" where
  "calculateSeasonStats_players season games pgs pss =
     (let rows = season_rows season games pgs
      in fold (insert_on_conflict pss_key player_season_update)
              (map (player_season_row season rows) (player_groups rows)) pss)"

subsection \<open>Team season statistics\<close>

record team_season_stat =
  tss_team_id :: int
  tss_season :: string
  tss_games_played :: int
  tss_wins :: int
  tss_losses :: int
  tss_overtime_losses :: "int option"
  tss_points :: int
  tss_goals_for :: int
  tss_goals_against :: int
  tss_goal_differential :: int

definition tss_key :: "team_season_stat \<Rightarrow> int \<times> string" where
  "tss_key r = (tss_team_id r, tss_season r)"

text \<open>
  \<^verbatim>\<open>FROM team_game_stats tgs JOIN games g ON tgs.game_id = g.id
  WHERE tgs.team_id = $1 AND g.season = $2 AND g.game_state = 'Final'\<close>
\<close>

definition team_final_games ::
  "int \<Rightarrow> string \<Rightarrow> game list \<Rightarrow> team_game_stat list \<Rightarrow> (team_game_stat \<times> game) list" where
  "team_final_games teamId season games tgs =
     concat (map (\<lambda>s. map (\<lambda>g. (s, g))
                         (filter (\<lambda>g. tgs_game_id s = gm_id g \<and> gm_season g = season
                                      \<and> gm_game_state g = ''Final'') games))
                 (filter (\<lambda>s. tgs_team_id s = teamId) tgs))"

text \<open>
  \<^verbatim>\<open>(is_home AND home_score > away_score) OR (NOT is_home AND away_score > home_score)\<close>,
  and the same with \<^verbatim>\<open><\<close>.
\<close>

definition own_win :: "team_game_stat \<times> game \<Rightarrow> bool" where
  "own_win x =
     (case x of (s, g) \<Rightarrow>
        (tgs_is_home s \<and> gm_home_score g > gm_away_score g)
        \<or> (\<not> tgs_is_home s \<and> gm_away_score g > gm_home_score g))"

definition own_loss :: "team_game_stat \<times> game \<Rightarrow> bool" where
  "own_loss x =
     (case x of (s, g) \<Rightarrow>
        (tgs_is_home s \<and> gm_home_score g < gm_away_score g)
        \<or> (\<not> tgs_is_home s \<and> gm_away_score g < gm_home_score g))"

text \<open>
  The two conditions of \<^verbatim>\<open>dataBackfillService.ts\<close> as SQL parses them (\<^verbatim>\<open>AND\<close> binds
  tighter than \<^verbatim>\<open>OR\<close>):
  \<^verbatim>\<open>(is_home AND home_score < away_score) OR ((NOT is_home AND away_score < home_score)
  AND period <= 3)\<close>, and the same with \<^verbatim>\<open>period > 3\<close>. A comparison with a null
  period is not true.
\<close>

definition loss_condition_c :: "team_game_stat \<times> game \<Rightarrow> bool" where
  "loss_condition_c x =
     (case x of (s, g) \<Rightarrow>
        (tgs_is_home s \<and> gm_home_score g < gm_away_score g)
        \<or> ((\<not> tgs_is_home s \<and> gm_away_score g < gm_home_score g)
            \<and> (case gm_period g of None \<Rightarrow> False | Some p \<Rightarrow> p \<le> 3)))"

definition overtime_loss_condition_c :: "team_game_stat \<times> game \<Rightarrow> bool" where
  "overtime_loss_condition_c x =
     (case x of (s, g) \<Rightarrow>
        (tgs_is_home s \<and> gm_home_score g < gm_away_score g)
        \<or> ((\<not> tgs_is_home s \<and> gm_away_score g < gm_home_score g)
            \<and> (case gm_period g of None \<Rightarrow> False | Some p \<Rightarrow> p > 3)))"

text \<open>\<^verbatim>\<open>SUM(CASE WHEN c THEN 1 ELSE 0 END)\<close>\<close>

definition count_where :: "('a \<Rightarrow> bool) \<Rightarrow> 'a list \<Rightarrow> int" where
  "count_where c rows = sum_list (map (\<lambda>x. if c x then 1 else 0) rows)"

text \<open>\<^verbatim>\<open>SUM(goals)\<close> and \<^verbatim>\<open>SUM(CASE WHEN is_home THEN away_score ELSE home_score END)\<close>\<close>

definition goals_for_of :: "(team_game_stat \<times> game) list \<Rightarrow> int" where
  "goals_for_of rows = sum_list (map (\<lambda>x. tgs_goals (fst x)) rows)"

definition goals_against_of :: "(team_game_stat \<times> game) list \<Rightarrow> int" where
  "goals_against_of rows =
     sum_list (map (\<lambda>x. if tgs_is_home (fst x) then gm_away_score (snd x)
                         else gm_home_score (snd x)) rows)"

text \<open>
  The one row that an aggregate query returns, as the driver hands it to the code. How
  the driver renders a 64-bit aggregate (a number or a decimal string) is the parameter
  \<open>enc\<close>; a \<^verbatim>\<open>SUM\<close> over no row is null.
\<close>

record team_record =
  tr_games_played :: jsval
  tr_wins :: jsval
  tr_losses :: jsval
  tr_overtime_losses :: jsval
  tr_goals_for :: jsval
  tr_goals_against :: jsval

definition enc_sum :: "(int \<Rightarrow> jsval) \<Rightarrow> 'a list \<Rightarrow> int \<Rightarrow> jsval" where
  "enc_sum enc rows n = (if rows = [] then JNull else enc n)"

text \<open>\<^verbatim>\<open>recordQuery\<close> of \<^verbatim>\<open>calculateTeamSeasonStats\<close> in \<^verbatim>\<open>dataBackfillService.ts\<close>.\<close>

definition recordQuery ::
  "(int \<Rightarrow> jsval) \<Rightarrow> int \<Rightarrow> string \<Rightarrow> game list \<Rightarrow> team_game_stat list \<Rightarrow> team_record" where
  "recordQuery enc teamId season games tgs =
     (let rows = team_final_games teamId season games tgs
      in \<lparr> tr_games_played = enc (int (length rows)),
           tr_wins = enc_sum enc rows (count_where own_win rows),
           tr_losses = enc_sum enc rows (count_where loss_condition_c rows),
           tr_overtime_losses = enc_sum enc rows (count_where overtime_loss_condition_c rows),
           tr_goals_for = enc_sum enc rows (goals_for_of rows),
           tr_goals_against = enc_sum enc rows (goals_against_of rows) \<rparr>)"

definition team_season_update_c :: "team_season_stat \<Rightarrow> team_season_stat \<Rightarrow> team_season_stat"
  where
  "team_season_update_c old excluded =
     old\<lparr> tss_games_played := tss_games_played excluded, tss_wins := tss_wins excluded,
          tss_losses := tss_losses excluded,
          tss_overtime_losses := tss_overtime_losses excluded,
          tss_points := tss_points excluded, tss_goals_for := tss_goals_for excluded,
          tss_goals_against := tss_goals_against excluded,
          tss_goal_differential := tss_goal_differential excluded \<rparr>"

text \<open>
  The body of the loop over the teams in \<^verbatim>\<open>dataBackfillService.ts\<close>:
  \<^verbatim>\<open>if (record && record.games_played > 0)\<close>, the points
  \<^verbatim>\<open>(record.wins * 2) + record.overtime_losses\<close>, and the upsert of the ten values.
\<close>

definition team_season_step_c ::
  "(int \<Rightarrow> jsval) \<Rightarrow> (jsval \<Rightarrow> int option) \<Rightarrow> string \<Rightarrow> game list \<Rightarrow> team_game_stat list \<Rightarrow>
   int \<Rightarrow> team_season_stat list \<Rightarrow> team_season_stat list outcome" where
  "team_season_step_c enc int_column season games tgs teamId tbl =
     (let record = recordQuery enc teamId season games tgs
      in if js_gt_zero (tr_games_played record)
         then (let points = js_add (js_mul (tr_wins record) (JNum 2))
                                   (tr_overtime_losses record)
               in case bind_ints int_column
                         [tr_games_played record, tr_wins record, tr_losses record,
                          tr_overtime_losses record, points, tr_goals_for record,
                          tr_goals_against record,
                          js_sub (tr_goals_for record) (tr_goals_against record)] of
                    None \<Rightarrow> (Some store_rejects, tbl)
                  | Some vs \<Rightarrow>
                      (None, insert_on_conflict tss_key team_season_update_c
                               \<lparr> tss_team_id = teamId, tss_season = season,
                                 tss_games_played = vs ! 0, tss_wins = vs ! 1,
                                 tss_losses = vs ! 2, tss_overtime_losses = Some (vs ! 3),
                                 tss_points = vs ! 4, tss_goals_for = vs ! 5,
                                 tss_goals_against = vs ! 6,
                                 tss_goal_differential = vs ! 7 \<rparr> tbl))
         else (None, tbl))"

text \<open>
  The statements of \<^verbatim>\<open>calculateTeamSeasonStats\<close> in \<^verbatim>\<open>dataBackfillService.ts\<close>:
  \<^verbatim>\<open>SELECT id FROM teams\<close> and the loop.
\<close>

definition calculateTeamSeasonStats_c ::
  "(int \<Rightarrow> jsval) \<Rightarrow> (jsval \<Rightarrow> int option) \<Rightarrow> string \<Rightarrow> team list \<Rightarrow> game list \<Rightarrow>
   team_game_stat list \<Rightarrow> team_season_stat list \<Rightarrow> team_season_stat list outcome" where
  "calculateTeamSeasonStats_c enc int_column season teams games tgs tss =
     for_each (team_season_step_c enc int_column season games tgs) (map tm_id teams) tss"

text \<open>\<^verbatim>\<open>parseInt(v)\<close> on any value: the value is made a string first.\<close>

definition parseInt_of :: "jsval \<Rightarrow> jsval" where
  "parseInt_of v = parseInt (to_string v)"

text \<open>
  \<^verbatim>\<open>statsQuery\<close> of \<^verbatim>\<open>calculateTeamSeasonStats\<close> in the production service: no
  overtime losses; every defeat is a loss.
\<close>

definition statsQuery ::
  "(int \<Rightarrow> jsval) \<Rightarrow> int \<Rightarrow> string \<Rightarrow> game list \<Rightarrow> team_game_stat list \<Rightarrow> team_record" where
  "statsQuery enc teamId season games tgs =
     (let rows = team_final_games teamId season games tgs
      in \<lparr> tr_games_played = enc (int (length rows)),
           tr_wins = enc_sum enc rows (count_where own_win rows),
           tr_losses = enc_sum enc rows (count_where own_loss rows),
           tr_overtime_losses = JUndefined,
           tr_goals_for = enc_sum enc rows (goals_for_of rows),
           tr_goals_against = enc_sum enc rows (goals_against_of rows) \<rparr>)"

definition team_season_update :: "team_season_stat \<Rightarrow> team_season_stat \<Rightarrow> team_season_stat"
  where
  "team_season_update old excluded =
     old\<lparr> tss_games_played := tss_games_played excluded, tss_wins := tss_wins excluded,
          tss_losses := tss_losses excluded,
          tss_points := tss_points excluded, tss_goals_for := tss_goals_for excluded,
          tss_goals_against := tss_goals_against excluded,
          tss_goal_differential := tss_goal_differential excluded \<rparr>"

text \<open>
  The body of the loop in the production service:
  \<^verbatim>\<open>if (stats && parseInt(stats.games_played) > 0)\<close>, the points
  \<^verbatim>\<open>parseInt(stats.wins) * 2\<close> (``simplified points calculation''), and the upsert of
  nine values; the statement names no \<^verbatim>\<open>overtime_losses\<close> column.
\<close>

definition team_season_step ::
  "(int \<Rightarrow> jsval) \<Rightarrow> (jsval \<Rightarrow> int option) \<Rightarrow> string \<Rightarrow> game list \<Rightarrow> team_game_stat list \<Rightarrow>
   int \<Rightarrow> team_season_stat list \<Rightarrow> team_season_stat list outcome" where
  "team_season_step enc int_column season games tgs teamId tbl =
     (let stats = statsQuery enc teamId season games tgs
      in if js_gt_zero (parseInt_of (tr_games_played stats))
         then (let points = js_mul (parseInt_of (tr_wins stats)) (JNum 2)
               in case bind_ints int_column
                         [tr_games_played stats, tr_wins stats, tr_losses stats, points,
                          tr_goals_for stats, tr_goals_against stats,
                          js_sub (parseInt_of (tr_goals_for stats))
                                 (parseInt_of (tr_goals_against stats))] of
                    None \<Rightarrow> (Some store_rejects, tbl)
                  | Some vs \<Rightarrow>
                      (None, insert_on_conflict tss_key team_season_update
                               \<lparr> tss_team_id = teamId, tss_season = season,
                                 tss_games_played = vs ! 0, tss_wins = vs ! 1,
                                 tss_losses = vs ! 2, tss_overtime_losses = None,
                                 tss_points = vs ! 3, tss_goals_for = vs ! 4,
                                 tss_goals_against = vs ! 5,
                                 tss_goal_differential = vs ! 6 \<rparr> tbl))
         else (None, tbl))"

definition calculateTeamSeasonStats ::
  "(int \<Rightarrow> jsval) \<Rightarrow> (jsval \<Rightarrow> int option) \<Rightarrow> string \<Rightarrow> team list \<Rightarrow> game list \<Rightarrow>
   team_game_stat list \<Rightarrow> team_season_stat list \<Rightarrow> team_season_stat list outcome" where
  "calculateTeamSeasonStats enc int_column season teams games tgs tss =
     for_each (team_season_step enc int_column season games tgs) (map tm_id teams) tss"

text \<open>A driver that renders a 64-bit aggregate as a decimal string.\<close>

definition string_enc :: "int \<Rightarrow> jsval" where
  "string_enc n = JStr (show_int n)"

text \<open>A store that reads a number, or a string that denotes one, for a numeric column.\<close>

fun lenient_column :: "jsval \<Rightarrow> int option" where
  "lenient_column (JNum n) = Some n"
| "lenient_column (JStr s) = (if s = [] then None else string_to_number s)"
| "lenient_column v = None"

section \<open>The stage orchestrators\<close>

text \<open>
  The Progress record of a service instance. The start time and the estimated time
  remaining are wall-clock values and are left out.
\<close>

record progress =
  pr_currentStep :: string
  pr_progress :: nat
  pr_totalSteps :: nat
  pr_errors :: "string list"
  pr_completed :: "string list"

text \<open>
  A service instance: its Progress, its is-running flag, and the store it writes
  (\<open>'st\<close>: everything behind \<^verbatim>\<open>executeQuery\<close>).
\<close>

record 'st service =
  sv_progress :: progress
  sv_isRunning :: bool
  sv_store :: 'st

text \<open>The state a constructor leaves.\<close>

definition new_service :: "'st \<Rightarrow> 'st service" where
  "new_service st =
     \<lparr> sv_progress = \<lparr> pr_currentStep = ''Ready'', pr_progress = 0, pr_totalSteps = 0,
                        pr_errors = [], pr_completed = [] \<rparr>,
       sv_isRunning = False, sv_store = st \<rparr>"

text \<open>\<^verbatim>\<open>updateProgress(step)\<close>\<close>

definition updateProgress ::
  "string \<Rightarrow> ('st, 'z) service_scheme \<Rightarrow> ('st, 'z) service_scheme" where
  "updateProgress step svc =
     svc\<lparr> sv_progress := (sv_progress svc)
            \<lparr> pr_currentStep := step, pr_progress := pr_progress (sv_progress svc) + 1 \<rparr> \<rparr>"

definition push_error ::
  "string \<Rightarrow> ('st, 'z) service_scheme \<Rightarrow> ('st, 'z) service_scheme" where
  "push_error msg svc =
     svc\<lparr> sv_progress := (sv_progress svc)
            \<lparr> pr_errors := pr_errors (sv_progress svc) @ [msg] \<rparr> \<rparr>"

definition push_completed ::
  "string \<Rightarrow> ('st, 'z) service_scheme \<Rightarrow> ('st, 'z) service_scheme" where
  "push_completed label svc =
     svc\<lparr> sv_progress := (sv_progress svc)
            \<lparr> pr_completed := pr_completed (sv_progress svc) @ [label] \<rparr> \<rparr>"

text \<open>
  One stage as both services write it:
  \<^verbatim>\<open>this.updateProgress(step); try { body; this.progress.completed.push(done) }
  catch (error) { this.progress.errors.push(`${failed}: ${errorMessage}`) }\<close>.
  The body is what stands in the \<^verbatim>\<open>try\<close> block before the push: it returns what it
  threw, if anything, and the store it leaves. With \<open>rethrow\<close>, the \<^verbatim>\<open>catch\<close> block
  ends with \<^verbatim>\<open>throw error\<close>.
\<close>

record 'st stage =
  sg_step :: string
  sg_done :: string
  sg_failed :: string
  sg_rethrow :: bool
  sg_body :: "'st \<Rightarrow> 'st outcome"

definition run_stage :: "'st stage \<Rightarrow> 'st service \<Rightarrow> 'st service outcome" where
  "run_stage sg svc =
     (let svc1 = updateProgress (sg_step sg) svc;
          r = sg_body sg (sv_store svc1);
          svc2 = svc1\<lparr> sv_store := snd r \<rparr>
      in case fst r of
           None \<Rightarrow> (None, push_completed (sg_done sg) svc2)
         | Some e \<Rightarrow>
             (if sg_rethrow sg then Some e else None,
              push_error (sg_failed sg @ '': '' @ errorMessage e) svc2))"

text \<open>The statements of a \<^verbatim>\<open>try\<close> block in order: the first exception ends the block.\<close>

definition run_stages :: "'st stage list \<Rightarrow> 'st service \<Rightarrow> 'st service outcome" where
  "run_stages sgs svc = for_each run_stage sgs svc"

subsection \<open>The production service\<close>

text \<open>
  The bodies of the stages of \<^verbatim>\<open>completeDataBackfillService.ts\<close>, and
  \<^verbatim>\<open>SELECT COUNT(*) FROM table\<close> as the report reads it (\<open>None\<close> when the query
  throws).
\<close>

record 'st bodies =
  b_teams_live :: "'st \<Rightarrow> 'st outcome"
  b_teams_fallback :: "'st \<Rightarrow> 'st outcome"
  b_players :: "string \<Rightarrow> 'st \<Rightarrow> 'st outcome"
  b_games :: "string \<Rightarrow> bool \<Rightarrow> 'st \<Rightarrow> 'st outcome"
  b_player_game_stats :: "string \<Rightarrow> 'st \<Rightarrow> 'st outcome"
  b_team_game_stats :: "string \<Rightarrow> 'st \<Rightarrow> 'st outcome"
  b_goalie_stats :: "string \<Rightarrow> 'st \<Rightarrow> 'st outcome"
  b_season_stats :: "string \<Rightarrow> 'st \<Rightarrow> 'st outcome"
  b_shot_data :: "string \<Rightarrow> 'st \<Rightarrow> 'st outcome"
  b_advanced_stats :: "string \<Rightarrow> 'st \<Rightarrow> 'st outcome"
  b_count :: "'st \<Rightarrow> string \<Rightarrow> nat option"

text \<open>
  \<^verbatim>\<open>backfillAllTeams\<close>: the \<^verbatim>\<open>catch\<close> block inserts the fallback teams, and an
  exception there leaves the method.
\<close>

definition backfillAllTeams :: "'st bodies \<Rightarrow> 'st service \<Rightarrow> 'st service outcome" where
  "backfillAllTeams b svc =
     (let svc1 = updateProgress ''Fetching all NHL teams'' svc;
          r = b_teams_live b (sv_store svc1);
          svc2 = svc1\<lparr> sv_store := snd r \<rparr>
      in case fst r of
           None \<Rightarrow> (None, push_completed ''All NHL teams'' svc2)
         | Some e \<Rightarrow>
             (let r' = b_teams_fallback b (sv_store svc2);
                  svc3 = svc2\<lparr> sv_store := snd r' \<rparr>
              in case fst r' of
                   None \<Rightarrow> (None, push_completed ''Teams (fallback)'' svc3)
                 | Some e' \<Rightarrow> (Some e', svc3)))"

definition backfillAllPlayersForSeason :: "'st bodies \<Rightarrow> string \<Rightarrow> 'st stage" where
  "backfillAllPlayersForSeason b season =
     \<lparr> sg_step = ''Fetching all players for '' @ season,
       sg_done = ''Players for '' @ season, sg_failed = ''Players for '' @ season,
       sg_rethrow = False, sg_body = b_players b season \<rparr>"

definition backfillAllGamesForSeason :: "'st bodies \<Rightarrow> bool \<Rightarrow> string \<Rightarrow> 'st stage" where
  "backfillAllGamesForSeason b includePlayoffs season =
     \<lparr> sg_step = ''Fetching games for '' @ season,
       sg_done = ''Games for '' @ season, sg_failed = ''Games for '' @ season,
       sg_rethrow = False, sg_body = b_games b season includePlayoffs \<rparr>"

definition backfillPlayerGameStats :: "'st bodies \<Rightarrow> string \<Rightarrow> 'st stage" where
  "backfillPlayerGameStats b season =
     \<lparr> sg_step = ''Processing player game stats for '' @ season,
       sg_done = ''Player game stats for '' @ season,
       sg_failed = ''Player game stats for '' @ season,
       sg_rethrow = False, sg_body = b_player_game_stats b season \<rparr>"

definition backfillTeamGameStats :: "'st bodies \<Rightarrow> string \<Rightarrow> 'st stage" where
  "backfillTeamGameStats b season =
     \<lparr> sg_step = ''Processing team game stats for '' @ season,
       sg_done = ''Team game stats for '' @ season,
       sg_failed = ''Team game stats for '' @ season,
       sg_rethrow = False, sg_body = b_team_game_stats b season \<rparr>"

definition backfillGoalieStats :: "'st bodies \<Rightarrow> string \<Rightarrow> 'st stage" where
  "backfillGoalieStats b season =
     \<lparr> sg_step = ''Processing goalie stats for '' @ season,
       sg_done = ''Goalie stats for '' @ season, sg_failed = ''Goalie stats for '' @ season,
       sg_rethrow = False, sg_body = b_goalie_stats b season \<rparr>"

definition calculateSeasonStats :: "'st bodies \<Rightarrow> string \<Rightarrow> 'st stage" where
  "calculateSeasonStats b season =
     \<lparr> sg_step = ''Calculating season stats for '' @ season,
       sg_done = ''Season stats for '' @ season, sg_failed = ''Season stats for '' @ season,
       sg_rethrow = False, sg_body = b_season_stats b season \<rparr>"

definition backfillShotData :: "'st bodies \<Rightarrow> string \<Rightarrow> 'st stage" where
  "backfillShotData b season =
     \<lparr> sg_step = ''Fetching shot data for '' @ season,
       sg_done = ''Shot data for '' @ season, sg_failed = ''Shot data for '' @ season,
       sg_rethrow = False, sg_body = b_shot_data b season \<rparr>"

definition backfillAdvancedStats :: "'st bodies \<Rightarrow> string \<Rightarrow> 'st stage" where
  "backfillAdvancedStats b season =
     \<lparr> sg_step = ''Fetching MoneyPuck advanced stats for '' @ season,
       sg_done = ''Advanced stats for '' @ season,
       sg_failed = ''Advanced stats for '' @ season,
       sg_rethrow = False, sg_body = b_advanced_stats b season \<rparr>"

text \<open>
  Steps 2 to 9 of \<^verbatim>\<open>startCompleteBackfill\<close>: one \<^verbatim>\<open>for (const season of seasons)\<close>
  loop for each kind of stage, in this order.
\<close>

definition season_stages :: "'st bodies \<Rightarrow> string list \<Rightarrow> bool \<Rightarrow> 'st stage list" where
  "season_stages b seasons includePlayoffs =
     map (backfillAllPlayersForSeason b) seasons
     @ map (backfillAllGamesForSeason b includePlayoffs) seasons
     @ map (backfillPlayerGameStats b) seasons
     @ map (backfillTeamGameStats b) seasons
     @ map (backfillGoalieStats b) seasons
     @ map (calculateSeasonStats b) seasons
     @ map (backfillShotData b) seasons
     @ map (backfillAdvancedStats b) seasons"

text \<open>
  What \<^verbatim>\<open>generateFinalReport\<close> prints: the row count of each of nine tables (or that
  the count failed), the number of errors, and the first five errors
  (\<^verbatim>\<open>this.progress.errors.slice(0, 5)\<close>). The sample rows of one player and the
  elapsed minutes are left out.
\<close>

record report =
  rp_counts :: "(string \<times> nat option) list"
  rp_error_count :: nat
  rp_errors_shown :: "string list"

definition report_tables :: "string list" where
  "report_tables =
     [''teams'', ''players'', ''games'', ''player_game_stats'', ''player_season_stats'',
      ''team_game_stats'', ''team_season_stats'', ''goalie_game_stats'', ''shots'']"

text \<open>The keys of \<^verbatim>\<open>tablesPopulated\<close>, in their order.\<close>

definition report_tables_c :: "string list" where
  "report_tables_c =
     [''teams'', ''players'', ''games'', ''player_game_stats'', ''player_season_stats'',
      ''team_game_stats'', ''team_season_stats'', ''goalie_game_stats'', ''shots'']"

definition generateFinalReport :: "'st bodies \<Rightarrow> 'st service \<Rightarrow> report" where
  "generateFinalReport b svc =
     \<lparr> rp_counts = map (\<lambda>tbl. (tbl, b_count b (sv_store svc) tbl)) report_tables,
       rp_error_count = length (pr_errors (sv_progress svc)),
       rp_errors_shown = take 5 (pr_errors (sv_progress svc)) \<rparr>"

definition calculateTotalSteps :: "string list \<Rightarrow> bool \<Rightarrow> nat" where
  "calculateTotalSteps seasons includePlayoffs =
     1 + length seasons + length seasons + length seasons * 3 + length seasons
       + length seasons + length seasons"

text \<open>
  The result of one invocation: what the promise rejected with, if anything, the report
  when one was printed, and the instance afterwards.
\<close>

record 'st invocation =
  iv_rejected :: "exn option"
  iv_report :: "report option"
  iv_service :: "'st service"

definition already_running :: exn where
  "already_running = JsError ''Backfill already in progress''"

text \<open>\<^verbatim>\<open>startCompleteBackfill\<close> of the production service.\<close>

definition startCompleteBackfill ::
  "'st bodies \<Rightarrow> string list \<Rightarrow> bool \<Rightarrow> 'st service \<Rightarrow> 'st invocation" where
  "startCompleteBackfill b seasons includePlayoffs svc =
     (if sv_isRunning svc
      then \<lparr> iv_rejected = Some already_running, iv_report = None, iv_service = svc \<rparr>
      else
        (let svc1 = svc\<lparr> sv_isRunning := True,
                         sv_progress := (sv_progress svc)
                           \<lparr> pr_totalSteps := calculateTotalSteps seasons includePlayoffs \<rparr> \<rparr>;
             r = (case backfillAllTeams b svc1 of
                    (Some e, s) \<Rightarrow> (Some e, s)
                  | (None, s) \<Rightarrow> run_stages (season_stages b seasons includePlayoffs) s)
         in case fst r of
              None \<Rightarrow>
                \<lparr> iv_rejected = None, iv_report = Some (generateFinalReport b (snd r)),
                  iv_service = (snd r)\<lparr> sv_isRunning := False \<rparr> \<rparr>
            | Some e \<Rightarrow>
                \<lparr> iv_rejected = Some e, iv_report = None,
                  iv_service =
                    (push_error (''Complete backfill failed: '' @ errorMessage e) (snd r))
                      \<lparr> sv_isRunning := False \<rparr> \<rparr>))"

subsection \<open>The service of \<^verbatim>\<open>dataBackfillService.ts\<close>\<close>

text \<open>
  Its Progress has one more field, \<^verbatim>\<open>tablesPopulated\<close>: the tables whose flag is
  set. A stage sets the flag of its table before it pushes its label. The stages of the
  teams, the players, the games and the per-game player statistics end their
  \<^verbatim>\<open>catch\<close> block with \<^verbatim>\<open>throw error\<close>.
\<close>

record 'st service_c = "'st service" +
  sv_tablesPopulated :: "string list"

record 'st stage_c = "'st stage" +
  sg_table :: "string option"

definition new_service_c :: "'st \<Rightarrow> 'st service_c" where
  "new_service_c st =
     \<lparr> sv_progress = \<lparr> pr_currentStep = ''Ready'', pr_progress = 0, pr_totalSteps = 0,
                        pr_errors = [], pr_completed = [] \<rparr>,
       sv_isRunning = False, sv_store = st, sv_tablesPopulated = [] \<rparr>"

definition populate :: "string option \<Rightarrow> 'st service_c \<Rightarrow> 'st service_c" where
  "populate table svc =
     (case table of
        None \<Rightarrow> svc
      | Some t \<Rightarrow> svc\<lparr> sv_tablesPopulated := List.insert t (sv_tablesPopulated svc) \<rparr>)"

definition run_stage_c :: "'st stage_c \<Rightarrow> 'st service_c \<Rightarrow> 'st service_c outcome" where
  "run_stage_c sg svc =
     (let svc1 = updateProgress (sg_step sg) svc;
          r = sg_body sg (sv_store svc1);
          svc2 = svc1\<lparr> sv_store := snd r \<rparr>
      in case fst r of
           None \<Rightarrow> (None, push_completed (sg_done sg) (populate (sg_table sg) svc2))
         | Some e \<Rightarrow>
             (if sg_rethrow sg then Some e else None,
              push_error (sg_failed sg @ '': '' @ errorMessage e) svc2))"

record 'st bodies_c =
  c_teams :: "'st \<Rightarrow> 'st outcome"
  c_players :: "string \<Rightarrow> 'st \<Rightarrow> 'st outcome"
  c_games :: "string \<Rightarrow> bool \<Rightarrow> 'st \<Rightarrow> 'st outcome"
  c_player_game_stats :: "string \<Rightarrow> 'st \<Rightarrow> 'st outcome"
  c_goalie_game_stats :: "string \<Rightarrow> 'st \<Rightarrow> 'st outcome"
  c_team_game_stats :: "string \<Rightarrow> 'st \<Rightarrow> 'st outcome"
  c_shot_data :: "string \<Rightarrow> 'st \<Rightarrow> 'st outcome"
  c_player_season_stats :: "string \<Rightarrow> 'st \<Rightarrow> 'st outcome"
  c_team_season_stats :: "string \<Rightarrow> 'st \<Rightarrow> 'st outcome"
  c_moneypuck :: "string \<Rightarrow> 'st \<Rightarrow> 'st outcome"
  c_count :: "'st \<Rightarrow> string \<Rightarrow> nat option"

definition mk_stage_c ::
  "string \<Rightarrow> string \<Rightarrow> string \<Rightarrow> bool \<Rightarrow> string option \<Rightarrow> ('st \<Rightarrow> 'st outcome) \<Rightarrow> 'st stage_c"
  where
  "mk_stage_c step done failed rethrow table body =
     \<lparr> sg_step = step, sg_done = done, sg_failed = failed, sg_rethrow = rethrow,
       sg_body = body, sg_table = table \<rparr>"

definition stages_c :: "'st bodies_c \<Rightarrow> string list \<Rightarrow> bool \<Rightarrow> 'st stage_c list" where
  "stages_c b seasons includePlayoffs =
     [mk_stage_c ''Fetching all NHL teams'' ''All teams with complete data''
        ''Teams backfill failed'' True (Some ''teams'') (c_teams b)]
     @ map (\<lambda>season. mk_stage_c (''Fetching all players for '' @ season)
              (''All players for '' @ season) (''Players backfill failed for '' @ season)
              True (Some ''players'') (c_players b season)) seasons
     @ map (\<lambda>season. mk_stage_c (''Fetching complete games for '' @ season)
              (''Complete games for '' @ season) (''Games backfill failed for '' @ season)
              True (Some ''games'') (c_games b season includePlayoffs)) seasons
     @ map (\<lambda>season. mk_stage_c (''Fetching player game stats for '' @ season)
              (''Player game stats for '' @ season)
              (''Player game stats failed for '' @ season)
              True (Some ''player_game_stats'') (c_player_game_stats b season)) seasons
     @ map (\<lambda>season. mk_stage_c (''Fetching goalie game stats for '' @ season)
              (''Goalie game stats for '' @ season)
              (''Goalie game stats failed for '' @ season)
              False (Some ''goalie_game_stats'') (c_goalie_game_stats b season)) seasons
     @ map (\<lambda>season. mk_stage_c (''Fetching team game stats for '' @ season)
              (''Team game stats for '' @ season) (''Team game stats failed for '' @ season)
              False (Some ''team_game_stats'') (c_team_game_stats b season)) seasons
     @ map (\<lambda>season. mk_stage_c (''Fetching shot data for '' @ season)
              (''Shot data for '' @ season) (''Shot data failed for '' @ season)
              False (Some ''shots'') (c_shot_data b season)) seasons
     @ concat (map (\<lambda>season.
          [mk_stage_c (''Calculating player season stats for '' @ season)
             (''Player season aggregations for '' @ season)
             ''Player season stats calculation failed''
             False (Some ''player_season_stats'') (c_player_season_stats b season),
           mk_stage_c (''Calculating team season stats for '' @ season)
             (''Team season aggregations for '' @ season)
             ''Team season stats calculation failed''
             False (Some ''team_season_stats'') (c_team_season_stats b season)]) seasons)
     @ map (\<lambda>season. mk_stage_c (''Fetching MoneyPuck advanced stats for '' @ season)
              (''MoneyPuck advanced stats for '' @ season)
              (''MoneyPuck stats failed for '' @ season)
              False None (c_moneypuck b season)) seasons"

text \<open>
  What \<^verbatim>\<open>generateBackfillReport\<close> prints: the populated tables in the order of the
  flags, each with its row count (0 when the count throws), the number of errors, and
  all errors.
\<close>

record report_c =
  rc_tables :: "(string \<times> nat) list"
  rc_error_count :: nat
  rc_errors :: "string list"

definition generateBackfillReport :: "'st bodies_c \<Rightarrow> 'st service_c \<Rightarrow> report_c" where
  "generateBackfillReport b svc =
     \<lparr> rc_tables =
         map (\<lambda>tbl. (tbl, case c_count b (sv_store svc) tbl of None \<Rightarrow> 0 | Some n \<Rightarrow> n))
             (filter (\<lambda>tbl. tbl \<in> set (sv_tablesPopulated svc)) report_tables_c),
       rc_error_count = length (pr_errors (sv_progress svc)),
       rc_errors = pr_errors (sv_progress svc) \<rparr>"

definition calculateTotalSteps_c :: "string list \<Rightarrow> bool \<Rightarrow> nat" where
  "calculateTotalSteps_c seasons includePlayoffs =
     1 + length seasons + length seasons * (if includePlayoffs then 2 else 1)
       + length seasons * 5 + length seasons * 2 + length seasons"

record 'st invocation_c =
  ic_rejected :: "exn option"
  ic_report :: "report_c option"
  ic_service :: "'st service_c"

text \<open>\<^verbatim>\<open>startCompleteBackfill\<close> of \<^verbatim>\<open>dataBackfillService.ts\<close>.\<close>

definition startCompleteBackfill_c ::
  "'st bodies_c \<Rightarrow> string list \<Rightarrow> bool \<Rightarrow> 'st service_c \<Rightarrow> 'st invocation_c" where
  "startCompleteBackfill_c b seasons includePlayoffs svc =
     (if sv_isRunning svc
      then \<lparr> ic_rejected = Some already_running, ic_report = None, ic_service = svc \<rparr>
      else
        (let svc1 = svc\<lparr> sv_isRunning := True,
                         sv_progress := (sv_progress svc)
                           \<lparr> pr_totalSteps := calculateTotalSteps_c seasons includePlayoffs \<rparr> \<rparr>;
             r = for_each run_stage_c (stages_c b seasons includePlayoffs) svc1
         in case fst r of
              None \<Rightarrow>
                (let done = (snd r)\<lparr> sv_progress := (sv_progress (snd r))
                                   \<lparr> pr_currentStep := ''Completed Successfully'' \<rparr> \<rparr>
                 in \<lparr> ic_rejected = None, ic_report = Some (generateBackfillReport b done),
                      ic_service = done\<lparr> sv_isRunning := False \<rparr> \<rparr>)
            | Some e \<Rightarrow>
                \<lparr> ic_rejected = Some e, ic_report = None,
                  ic_service =
                    (push_error (''Complete backfill failed: '' @ errorMessage e) (snd r))
                      \<lparr> sv_isRunning := False \<rparr> \<rparr>))"

text \<open>\<^verbatim>\<open>isBackfillRunning\<close> and \<^verbatim>\<open>stopBackfill\<close>, the same in both services.\<close>

definition isBackfillRunning :: "('st, 'z) service_scheme \<Rightarrow> bool" where
  "isBackfillRunning svc = sv_isRunning svc"

definition stopBackfill :: "('st, 'z) service_scheme \<Rightarrow> ('st, 'z) service_scheme" where
  "stopBackfill svc =
     (if sv_isRunning svc
      then svc\<lparr> sv_isRunning := False,
                sv_progress := (sv_progress svc)\<lparr> pr_currentStep := ''Stopped by user'' \<rparr> \<rparr>
      else svc)"

section \<open>The stages of the production service on a store\<close>

text \<open>
  The tables the stages write. The rows of \<^verbatim>\<open>goalie_game_stats\<close> and \<^verbatim>\<open>shots\<close>,
  and the advanced columns of the season tables, are not modelled: \<open>st_rest\<close> stands for
  them. The statements on the modelled tables are total: a lost connection is outside
  the model.
\<close>

record 'x store =
  st_teams :: "team list"
  st_players :: "player list"
  st_games :: "game list"
  st_player_game_stats :: "player_game_stat list"
  st_team_game_stats :: "team_game_stat list"
  st_player_season_stats :: "player_season_stat list"
  st_team_season_stats :: "team_season_stat list"
  st_rest :: 'x

text \<open>
  What \<^verbatim>\<open>await fetch(url)\<close> gives: the promise rejects, or there is a response with
  its \<^verbatim>\<open>ok\<close> flag and what \<^verbatim>\<open>await response.json()\<close> gives, an exception or the
  body.
\<close>

datatype 'a fetched = Rejected exn | Response bool "exn + 'a"

text \<open>
  Everything outside the service. The bodies are given as the stages read them:
  \<^verbatim>\<open>data.standings\<close> (\<open>None\<close> when the field is missing), \<^verbatim>\<open>skatersData.data\<close>,
  \<^verbatim>\<open>schedule.gameWeek\<close> with \<^verbatim>\<open>week.games\<close> of each week, the boxscore of a game.
  The goalie stage reads other fields of the boxscore, so its fetch is a function of its
  own. \<open>ev_csv\<close> is \<^verbatim>\<open>fetchCSVData\<close>, which returns \<^verbatim>\<open>null\<close> instead of throwing.
  What is written to the tables that are not modelled is a parameter as well, and so is
  the order of \<^verbatim>\<open>ORDER BY date_time\<close> (the flag is \<^verbatim>\<open>DESC\<close>), the store's reading
  of a bound parameter, the driver's rendering of an aggregate, and the row counts of the
  tables that are not modelled.
\<close>

record ('x, 'g, 'p, 'c) env =
  ev_standings :: "standing list option fetched"
  ev_skaters :: "string \<Rightarrow> api_player list option fetched"
  ev_goalies :: "string \<Rightarrow> api_player list option fetched"
  ev_schedule :: "string \<Rightarrow> string \<Rightarrow> api_game list option list option fetched"
  ev_boxscore :: "int \<Rightarrow> boxscore fetched"
  ev_goalie_boxscore :: "int \<Rightarrow> 'g fetched"
  ev_play_by_play :: "int \<Rightarrow> 'p fetched"
  ev_csv :: "string \<Rightarrow> 'c option"
  ev_processGoalieStats :: "int \<Rightarrow> 'g \<Rightarrow> 'x store \<Rightarrow> 'x store outcome"
  ev_processShotData :: "int \<Rightarrow> 'p \<Rightarrow> 'x store \<Rightarrow> 'x store outcome"
  ev_updateTeamAdvancedStats :: "'c \<Rightarrow> string \<Rightarrow> 'x store \<Rightarrow> 'x store outcome"
  ev_updatePlayerAdvancedStats :: "'c \<Rightarrow> string \<Rightarrow> 'x store \<Rightarrow> 'x store outcome"
  ev_order_by_date_time :: "bool \<Rightarrow> game list \<Rightarrow> game list"
  ev_int_column :: "jsval \<Rightarrow> int option"
  ev_enc :: "int \<Rightarrow> jsval"
  ev_count_rest :: "'x \<Rightarrow> string \<Rightarrow> nat option"

text \<open>
  The \<^verbatim>\<open>try\<close> block of \<^verbatim>\<open>backfillAllTeams\<close>: the response is read whatever its
  \<^verbatim>\<open>ok\<close> flag; \<^verbatim>\<open>if (data.standings)\<close> takes every array, the empty one too.
\<close>

definition teams_live :: "('x, 'g, 'p, 'c) env \<Rightarrow> 'x store \<Rightarrow> 'x store outcome" where
  "teams_live env st =
     (case ev_standings env of
        Rejected e \<Rightarrow> (Some e, st)
      | Response ok (Inl e) \<Rightarrow> (Some e, st)
      | Response ok (Inr None) \<Rightarrow>
          (None, st\<lparr> st_teams := insertFallbackTeams (st_teams st) \<rparr>)
      | Response ok (Inr (Some standings)) \<Rightarrow>
          (None, st\<lparr> st_teams := fold insertTeam standings (st_teams st) \<rparr>))"

text \<open>Its \<^verbatim>\<open>catch\<close> block.\<close>

definition teams_fallback :: "'x store \<Rightarrow> 'x store outcome" where
  "teams_fallback st = (None, st\<lparr> st_teams := insertFallbackTeams (st_teams st) \<rparr>)"

text \<open>
  One half of \<^verbatim>\<open>backfillAllPlayersForSeason\<close>:
  \<^verbatim>\<open>if (response.ok) { for (const player of (await response.json()).data || []) ... }\<close>
\<close>

definition insert_summary ::
  "api_player list option fetched \<Rightarrow> string \<Rightarrow> player list \<Rightarrow> player list outcome" where
  "insert_summary response season tbl =
     (case response of
        Rejected e \<Rightarrow> (Some e, tbl)
      | Response ok body \<Rightarrow>
          (if ok
           then (case body of
                   Inl e \<Rightarrow> (Some e, tbl)
                 | Inr data \<Rightarrow>
                     (None, fold (\<lambda>p. insertPlayer p season)
                                 (case data of None \<Rightarrow> [] | Some ps \<Rightarrow> ps) tbl))
           else (None, tbl)))"

definition players_body ::
  "('x, 'g, 'p, 'c) env \<Rightarrow> string \<Rightarrow> 'x store \<Rightarrow> 'x store outcome" where
  "players_body env season st =
     (case insert_summary (ev_skaters env season) season (st_players st) of
        (Some e, tbl) \<Rightarrow> (Some e, st\<lparr> st_players := tbl \<rparr>)
      | (None, tbl) \<Rightarrow>
          (case insert_summary (ev_goalies env season) season tbl of
             (r, tbl') \<Rightarrow> (r, st\<lparr> st_players := tbl' \<rparr>)))"

text \<open>\<^verbatim>\<open>schedule.gameWeek || []\<close>, and \<^verbatim>\<open>week.games || []\<close> of each week.\<close>

definition schedule_games :: "api_game list option list option \<Rightarrow> api_game list" where
  "schedule_games gameWeek =
     concat (map (\<lambda>week. case week of None \<Rightarrow> [] | Some gs \<Rightarrow> gs)
                 (case gameWeek of None \<Rightarrow> [] | Some weeks \<Rightarrow> weeks))"

text \<open>
  \<^verbatim>\<open>backfillAllGamesForSeason\<close>: each game type has its own \<^verbatim>\<open>try\<close> block, whose
  \<^verbatim>\<open>catch\<close> goes on with the next type.
\<close>

definition games_body ::
  "('x, 'g, 'p, 'c) env \<Rightarrow> string \<Rightarrow> bool \<Rightarrow> 'x store \<Rightarrow> 'x store outcome" where
  "games_body env season includePlayoffs st =
     (None,
      fold (\<lambda>gameType st'.
              case ev_schedule env season gameType of
                Response True (Inr gameWeek) \<Rightarrow>
                  st'\<lparr> st_games := fold (\<lambda>g. insertGame g season) (schedule_games gameWeek)
                                       (st_games st') \<rparr>
              | _ \<Rightarrow> st')
           (if includePlayoffs then [''02'', ''03''] else [''02'']) st)"

text \<open>
  \<^verbatim>\<open>SELECT id FROM games WHERE season = $1 AND game_state = $2 ORDER BY date_time
  LIMIT n\<close> with \<^verbatim>\<open>[season, 'Final']\<close>.
\<close>

definition final_games ::
  "('x, 'g, 'p, 'c) env \<Rightarrow> nat \<Rightarrow> string \<Rightarrow> game list \<Rightarrow> int list" where
  "final_games env n season games =
     map gm_id (take n (ev_order_by_date_time env False
       (filter (\<lambda>g. gm_season g = season \<and> gm_game_state g = ''Final'') games)))"

text \<open>
  The games of a loop whose fetch gave an \<^verbatim>\<open>ok\<close> response with a body, each with
  the body; the other games leave the loop body through its \<^verbatim>\<open>catch\<close> or past its
  \<^verbatim>\<open>if\<close>.
\<close>

definition fetched_bodies :: "(int \<Rightarrow> 'b fetched) \<Rightarrow> int list \<Rightarrow> (int \<times> 'b) list" where
  "fetched_bodies fetch ids =
     List.map_filter
       (\<lambda>i. case fetch i of Response True (Inr body) \<Rightarrow> Some (i, body) | _ \<Rightarrow> None) ids"

definition player_game_stats_body ::
  "('x, 'g, 'p, 'c) env \<Rightarrow> string \<Rightarrow> 'x store \<Rightarrow> 'x store outcome" where
  "player_game_stats_body env season st =
     (None,
      st\<lparr> st_player_game_stats :=
            backfillPlayerGameStats_loop (ev_int_column env)
              (fetched_bodies (ev_boxscore env) (final_games env 200 season (st_games st)))
              (st_player_game_stats st) \<rparr>)"

definition team_game_stats_body ::
  "('x, 'g, 'p, 'c) env \<Rightarrow> string \<Rightarrow> 'x store \<Rightarrow> 'x store outcome" where
  "team_game_stats_body env season st =
     (None,
      st\<lparr> st_team_game_stats :=
            for_each_caught
              (\<lambda>(gameId, box). processTeamGameStats (ev_int_column env) gameId box)
              (fetched_bodies (ev_boxscore env) (final_games env 200 season (st_games st)))
              (st_team_game_stats st) \<rparr>)"

definition goalie_stats_body ::
  "('x, 'g, 'p, 'c) env \<Rightarrow> string \<Rightarrow> 'x store \<Rightarrow> 'x store outcome" where
  "goalie_stats_body env season st =
     (None,
      for_each_caught (\<lambda>(gameId, box). ev_processGoalieStats env gameId box)
        (fetched_bodies (ev_goalie_boxscore env) (final_games env 100 season (st_games st)))
        st)"

text \<open>
  The \<^verbatim>\<open>try\<close> block of \<^verbatim>\<open>calculateSeasonStats\<close>: the player statement, then
  \<^verbatim>\<open>calculateTeamSeasonStats\<close> over \<^verbatim>\<open>SELECT id FROM teams\<close>.
\<close>

definition season_stats_body ::
  "('x, 'g, 'p, 'c) env \<Rightarrow> string \<Rightarrow> 'x store \<Rightarrow> 'x store outcome" where
  "season_stats_body env season st =
     (let st1 = st\<lparr> st_player_season_stats :=
                       calculateSeasonStats_players season (st_games st)
                         (st_player_game_stats st) (st_player_season_stats st) \<rparr>;
          r = calculateTeamSeasonStats (ev_enc env) (ev_int_column env) season (st_teams st1)
                (st_games st1) (st_team_game_stats st1) (st_team_season_stats st1)
      in (fst r, st1\<lparr> st_team_season_stats := snd r \<rparr>))"

text \<open>
  \<^verbatim>\<open>SELECT id FROM games WHERE season = $1 AND (home_team_id = $2 OR away_team_id = $2)
  AND game_state = 'Final' ORDER BY date_time DESC LIMIT 50\<close> with the Capitals' id.
\<close>

definition capitals_final_games ::
  "('x, 'g, 'p, 'c) env \<Rightarrow> string \<Rightarrow> game list \<Rightarrow> int list" where
  "capitals_final_games env season games =
     map gm_id (take 50 (ev_order_by_date_time env True
       (filter (\<lambda>g. gm_season g = season
                     \<and> (gm_home_team_id g = Some CAPITALS_TEAM_ID
                        \<or> gm_away_team_id g = Some CAPITALS_TEAM_ID)
                     \<and> gm_game_state g = ''Final'') games)))"

definition shot_data_body ::
  "('x, 'g, 'p, 'c) env \<Rightarrow> string \<Rightarrow> 'x store \<Rightarrow> 'x store outcome" where
  "shot_data_body env season st =
     (None,
      for_each_caught (\<lambda>(gameId, playByPlay). ev_processShotData env gameId playByPlay)
        (fetched_bodies (ev_play_by_play env) (capitals_final_games env season (st_games st)))
        st)"

definition MONEYPUCK_BASE :: string where
  "MONEYPUCK_BASE = ''https://moneypuck.com/moneypuck/playerData''"

text \<open>
  The \<^verbatim>\<open>try\<close> block of \<^verbatim>\<open>backfillAdvancedStats\<close>; \<^verbatim>\<open>if (teamStats)\<close> takes every
  array.
\<close>

definition advanced_stats_body ::
  "('x, 'g, 'p, 'c) env \<Rightarrow> string \<Rightarrow> 'x store \<Rightarrow> 'x store outcome" where
  "advanced_stats_body env season st =
     (let seasonYear = to_string (parseInt (take 4 season));
          r = (case ev_csv env (MONEYPUCK_BASE @ ''/teams/'' @ seasonYear
                                 @ ''/regular/teams.csv'') of
                 None \<Rightarrow> (None, st)
               | Some teamStats \<Rightarrow> ev_updateTeamAdvancedStats env teamStats season st)
      in case fst r of
           Some e \<Rightarrow> (Some e, snd r)
         | None \<Rightarrow>
             (case ev_csv env (MONEYPUCK_BASE @ ''/skaters/'' @ seasonYear
                                @ ''/regular/skaters.csv'') of
                None \<Rightarrow> (None, snd r)
              | Some playerStats \<Rightarrow>
                  ev_updatePlayerAdvancedStats env playerStats season (snd r)))"

text \<open>\<^verbatim>\<open>SELECT COUNT(*) FROM table\<close>\<close>

definition count_rows :: "('x, 'g, 'p, 'c) env \<Rightarrow> 'x store \<Rightarrow> string \<Rightarrow> nat option" where
  "count_rows env st tbl =
     (if tbl = ''teams'' then Some (length (st_teams st))
      else if tbl = ''players'' then Some (length (st_players st))
      else if tbl = ''games'' then Some (length (st_games st))
      else if tbl = ''player_game_stats'' then Some (length (st_player_game_stats st))
      else if tbl = ''player_season_stats'' then Some (length (st_player_season_stats st))
      else if tbl = ''team_game_stats'' then Some (length (st_team_game_stats st))
      else if tbl = ''team_season_stats'' then Some (length (st_team_season_stats st))
      else ev_count_rest env (st_rest st) tbl)"

definition production_bodies :: "('x, 'g, 'p, 'c) env \<Rightarrow> 'x store bodies" where
  "production_bodies env =
     \<lparr> b_teams_live = teams_live env, b_teams_fallback = teams_fallback,
       b_players = players_body env, b_games = games_body env,
       b_player_game_stats = player_game_stats_body env,
       b_team_game_stats = team_game_stats_body env,
       b_goalie_stats = goalie_stats_body env,
       b_season_stats = season_stats_body env,
       b_shot_data = shot_data_body env,
       b_advanced_stats = advanced_stats_body env,
       b_count = count_rows env \<rparr>"

text \<open>
  \<^verbatim>\<open>startTestBackfill(seasons)\<close> of the production service, on a nonempty array given
  by its first element and the rest (on the empty array \<^verbatim>\<open>seasons[0]\<close> is undefined,
  which is outside the model). It fetches nothing and has no playoffs argument: the
  fallback teams, the fallback Capitals players, the sample games of the first season and
  the sample team statistics are written, and \<^verbatim>\<open>generateTestBackfillReport\<close> prints
  the row counts of four tables.
\<close>

record 'st test_invocation =
  tv_rejected :: "exn option"
  tv_report :: "(string \<times> nat) list option"
  tv_service :: "'st service"

definition generateTestBackfillReport :: "'x store \<Rightarrow> (string \<times> nat) list" where
  "generateTestBackfillReport st =
     [(''teams'', length (st_teams st)), (''players'', length (st_players st)),
      (''games'', length (st_games st)),
      (''team_game_stats'', length (st_team_game_stats st))]"

definition startTestBackfill ::
  "string \<Rightarrow> string list \<Rightarrow> 'x store service \<Rightarrow> 'x store test_invocation" where
  "startTestBackfill season more_seasons svc =
     (if sv_isRunning svc
      then \<lparr> tv_rejected = Some already_running, tv_report = None, tv_service = svc \<rparr>
      else
        (let svc1 = svc\<lparr> sv_isRunning := True,
                         sv_progress := (sv_progress svc)\<lparr> pr_totalSteps := 4 \<rparr> \<rparr>;
             st = sv_store svc1;
             st1 = st\<lparr> st_teams := insertFallbackTeams (st_teams st) \<rparr>;
             st2 = st1\<lparr> st_players := insertFallbackCapitalsPlayers (st_players st1) \<rparr>;
             st3 = st2\<lparr> st_games := insertSampleCapitalsGames season (st_games st2) \<rparr>;
             st4 = st3\<lparr> st_team_game_stats := insertSampleTeamStats (st_team_game_stats st3) \<rparr>
         in \<lparr> tv_rejected = None, tv_report = Some (generateTestBackfillReport st4),
              tv_service = svc1\<lparr> sv_store := st4, sv_isRunning := False \<rparr> \<rparr>))"

section \<open>Auxiliary notions for the proofs\<close>

text \<open>The row-wise effect of an upsert on a row that is already in the table.\<close>

definition cond_update :: "('r \<Rightarrow> 'k) \<Rightarrow> ('r \<Rightarrow> 'r \<Rightarrow> 'r) \<Rightarrow> 'r \<Rightarrow> 'r \<Rightarrow> 'r" where
  "cond_update key upd x r = (if key r = key x then upd r x else r)"

text \<open>
  A call is a sequence of upserts when what it throws and the rows it upserts do not
  depend on the table.
\<close>

definition upsert_sequence ::
  "('r \<Rightarrow> 'k) \<Rightarrow> ('r \<Rightarrow> 'r \<Rightarrow> 'r) \<Rightarrow> ('r list \<Rightarrow> 'r list outcome) \<Rightarrow> bool" where
  "upsert_sequence key upd call =
     (\<exists>e xs. \<forall>t. call t = (e, fold (insert_on_conflict key upd) xs t))"

text \<open>
  One backfill run, as far as \<^verbatim>\<open>player_game_stats\<close> goes: the write loop of either
  service over the boxscores the run fetched.
\<close>

datatype backfill_run =
  ProductionRun "(int \<times> boxscore) list"
| CompleteRun "(int \<times> boxscore_c) list"

fun apply_run ::
  "(jsval \<Rightarrow> int option) \<Rightarrow> backfill_run \<Rightarrow> player_game_stat list \<Rightarrow> player_game_stat list"
  where
  "apply_run int_column (ProductionRun fetched) t =
     backfillPlayerGameStats_loop int_column fetched t"
| "apply_run int_column (CompleteRun fetched) t =
     snd (backfillPlayerGameStats_loop_c int_column fetched t)"

text \<open>Sample inputs for the concrete instances below.\<close>

definition one_goal :: skater_stats where
  "one_goal = no_stats\<lparr> sk_goals := JNum 1, sk_timeOnIce := JStr ''18:30'' \<rparr>"

definition two_goals :: skater_stats where
  "two_goals = no_stats\<lparr> sk_goals := JNum 2, sk_timeOnIce := JStr ''18:30'' \<rparr>"

definition sample_boxscore :: "skater_stats \<Rightarrow> boxscore" where
  "sample_boxscore stats =
     \<lparr> bx_homeTeam = Some \<lparr> bt_id = 15,
           bt_players = Some [\<lparr> bp_playerId = 8471214, bp_skaterStats = Some stats \<rparr>],
           bt_score = JNum 4, bt_sog = JNum 32, bt_hits = JNum 18 \<rparr>,
       bx_awayTeam = Some \<lparr> bt_id = 3, bt_players = None,
           bt_score = JNum 2, bt_sog = JNum 28, bt_hits = JNum 22 \<rparr> \<rparr>"

definition sample_boxscore_c :: "skater_stats \<Rightarrow> boxscore_c" where
  "sample_boxscore_c stats =
     \<lparr> bxc_homeTeam = Some \<lparr> btc_id = 15,
           btc_players = Some [\<lparr> bpc_playerId = 8471214,
                                  bpc_statistics = Some [(''skaterStats'', stats)] \<rparr>] \<rparr>,
       bxc_awayTeam = None \<rparr>"

text \<open>
  A player who changed teams within the season: one game for team 15, one for team 6.
\<close>

definition traded_games :: "game list" where
  "traded_games =
     [mk_game 2023020001 ''20232024'' 15 3 4 2 ''2023-10-13'' ''Capital One Arena'',
      mk_game 2023020900 ''20232024'' 6 15 3 1 ''2024-03-01'' ''TD Garden'']"

definition traded_stats :: "player_game_stat list" where
  "traded_stats =
     [pgs_of_values 2023020001 8471214 15 [1, 0, 1, 0, 0, 0, 0, 0, 1110],
      pgs_of_values 2023020900 8471214 6 [2, 1, 3, 0, 2, 5, 0, 0, 1200]]"

text \<open>The columns that the two player statements overwrite, as tuples.\<close>

definition phi_c ::
  "player_season_stat \<Rightarrow> int \<times> int \<times> int \<times> int \<times> int \<times> int \<times> rat option" where
  "phi_c r = (pss_games_played r, pss_goals r, pss_assists r, pss_points r, pss_shots r,
              pss_penalty_minutes r, pss_shooting_percentage r)"

definition phi_p :: "player_season_stat \<Rightarrow> int \<times> int \<times> int \<times> int" where
  "phi_p r = (pss_games_played r, pss_goals r, pss_assists r, pss_points r)"

text \<open>
  A season row written earlier with four shots and two goals, and one game of the same
  player and team without a shot.
\<close>

definition stale_season_row :: player_season_stat where
  "stale_season_row =
     \<lparr> pss_player_id = 8471214, pss_season = ''20232024'', pss_team_id = 15,
       pss_games_played = 1, pss_goals = 2, pss_assists = 0, pss_points = 2,
       pss_plus_minus = 0, pss_penalty_minutes = 0, pss_shots = 4,
       pss_shooting_percentage = Some 50, pss_time_on_ice_total_seconds = 900,
       pss_time_on_ice_avg_seconds = Some 900, pss_powerplay_time_total_seconds = Some 0,
       pss_shorthanded_time_total_seconds = Some 0 \<rparr>"

definition no_shot_stats :: "player_game_stat list" where
  "no_shot_stats = [pgs_of_values 2023020001 8471214 15 [0, 0, 0, 0, 0, 0, 0, 0, 600]]"

text \<open>One game of the same player and team with one goal of three shots.\<close>

definition one_of_three_stats :: "player_game_stat list" where
  "one_of_three_stats = [pgs_of_values 2023020001 8471214 15 [1, 0, 1, 0, 0, 3, 0, 0, 600]]"

text \<open>
  The season rows that the two team loops write for a team with the joined rows \<open>rows\<close>.
  The points of \<open>team_row_c\<close> are those that \<^verbatim>\<open>dataBackfillService.ts\<close> computes when
  the driver hands it numbers; \<open>points_c\<close> is the store's reading of what it computes
  from what the driver hands it.
\<close>

definition team_row_c :: "string \<Rightarrow> int \<Rightarrow> (team_game_stat \<times> game) list \<Rightarrow> team_season_stat"
  where
  "team_row_c season teamId rows =
     \<lparr> tss_team_id = teamId, tss_season = season,
       tss_games_played = int (length rows),
       tss_wins = count_where own_win rows,
       tss_losses = count_where loss_condition_c rows,
       tss_overtime_losses = Some (count_where overtime_loss_condition_c rows),
       tss_points = count_where own_win rows * 2 + count_where overtime_loss_condition_c rows,
       tss_goals_for = goals_for_of rows,
       tss_goals_against = goals_against_of rows,
       tss_goal_differential = goals_for_of rows - goals_against_of rows \<rparr>"

definition team_row :: "string \<Rightarrow> int \<Rightarrow> (team_game_stat \<times> game) list \<Rightarrow> team_season_stat"
  where
  "team_row season teamId rows =
     \<lparr> tss_team_id = teamId, tss_season = season,
       tss_games_played = int (length rows),
       tss_wins = count_where own_win rows,
       tss_losses = count_where own_loss rows,
       tss_overtime_losses = None,
       tss_points = count_where own_win rows * 2,
       tss_goals_for = goals_for_of rows,
       tss_goals_against = goals_against_of rows,
       tss_goal_differential = goals_for_of rows - goals_against_of rows \<rparr>"

definition points_c ::
  "(int \<Rightarrow> jsval) \<Rightarrow> (jsval \<Rightarrow> int option) \<Rightarrow> (team_game_stat \<times> game) list \<Rightarrow> int option"
  where
  "points_c enc int_column rows =
     int_column (js_add (js_mul (enc (count_where own_win rows)) (JNum 2))
                        (enc (count_where overtime_loss_condition_c rows)))"

text \<open>The columns of a team season row that do not depend on the losses.\<close>

definition phi_w :: "team_season_stat \<Rightarrow> int \<times> int \<times> int \<times> int \<times> int" where
  "phi_w r = (tss_games_played r, tss_wins r, tss_goals_for r, tss_goals_against r,
              tss_goal_differential r)"

definition phi_t :: "team_season_stat \<Rightarrow> int \<times> int \<times> int \<times> int \<times> int \<times> int \<times> int" where
  "phi_t r = (tss_games_played r, tss_wins r, tss_losses r, tss_points r, tss_goals_for r,
              tss_goals_against r, tss_goal_differential r)"

text \<open>
  Team 15 with a home win in regulation and a home defeat in overtime (period 4), and the
  season row of team 15 as \<^verbatim>\<open>dataBackfillService.ts\<close> writes it from these games.
\<close>

definition overtime_games :: "game list" where
  "overtime_games =
     [(mk_game 2023020001 ''20232024'' 15 3 4 2 ''2023-10-13'' ''Capital One Arena'')
        \<lparr> gm_period := Some 3 \<rparr>,
      (mk_game 2023020002 ''20232024'' 15 5 2 3 ''2023-10-15'' ''Capital One Arena'')
        \<lparr> gm_period := Some 4 \<rparr>]"

definition overtime_team_stats :: "team_game_stat list" where
  "overtime_team_stats =
     [\<lparr> tgs_game_id = 2023020001, tgs_team_id = 15, tgs_is_home = True, tgs_goals = 4,
        tgs_shots = 32, tgs_hits = 18 \<rparr>,
      \<lparr> tgs_game_id = 2023020002, tgs_team_id = 15, tgs_is_home = True, tgs_goals = 2,
        tgs_shots = 30, tgs_hits = 20 \<rparr>]"

text \<open>Team 15 with one home defeat in regulation (period 3).\<close>

definition regulation_defeat_games :: "game list" where
  "regulation_defeat_games =
     [(mk_game 2023020003 ''20232024'' 15 5 2 3 ''2023-10-17'' ''Capital One Arena'')
        \<lparr> gm_period := Some 3 \<rparr>]"

definition regulation_defeat_stats :: "team_game_stat list" where
  "regulation_defeat_stats =
     [\<lparr> tgs_game_id = 2023020003, tgs_team_id = 15, tgs_is_home = True, tgs_goals = 2,
        tgs_shots = 30, tgs_hits = 20 \<rparr>]"

definition capitals_only :: "team list" where
  "capitals_only =
     [mk_team 15 ''Washington Capitals'' ''WSH'' ''Washington'' ''Metropolitan'' ''Eastern'']"

text \<open>
  Stage bodies for the concrete instances below, on a store without content: the teams
  are fetched, every other stage but the last throws an \<^verbatim>\<open>Error\<close> with the message
  ``boom'', and the advanced statistics succeed.
\<close>

definition throws_boom :: "unit \<Rightarrow> unit outcome" where
  "throws_boom st = (Some (JsError ''boom''), st)"

definition succeeds :: "unit \<Rightarrow> unit outcome" where
  "succeeds st = (None, st)"

definition failing_bodies :: "unit bodies" where
  "failing_bodies =
     \<lparr> b_teams_live = succeeds, b_teams_fallback = succeeds,
       b_players = (\<lambda>season. throws_boom),
       b_games = (\<lambda>season includePlayoffs. throws_boom),
       b_player_game_stats = (\<lambda>season. throws_boom),
       b_team_game_stats = (\<lambda>season. throws_boom),
       b_goalie_stats = (\<lambda>season. throws_boom),
       b_season_stats = (\<lambda>season. throws_boom),
       b_shot_data = (\<lambda>season. throws_boom),
       b_advanced_stats = (\<lambda>season. succeeds),
       b_count = (\<lambda>st tbl. Some 0) \<rparr>"

definition failing_bodies_c :: "unit bodies_c" where
  "failing_bodies_c =
     \<lparr> c_teams = succeeds,
       c_players = (\<lambda>season. throws_boom),
       c_games = (\<lambda>season includePlayoffs. succeeds),
       c_player_game_stats = (\<lambda>season. succeeds),
       c_goalie_game_stats = (\<lambda>season. succeeds),
       c_team_game_stats = (\<lambda>season. succeeds),
       c_shot_data = (\<lambda>season. succeeds),
       c_player_season_stats = (\<lambda>season. succeeds),
       c_team_season_stats = (\<lambda>season. succeeds),
       c_moneypuck = (\<lambda>season. succeeds),
       c_count = (\<lambda>st tbl. Some 0) \<rparr>"

text \<open>
  The cases in which the live fetch of the standings gives no rows to use: the fetch is
  rejected, the body cannot be parsed, or the body has no \<^verbatim>\<open>standings\<close> field.
\<close>

fun no_usable_rows :: "'a option fetched \<Rightarrow> bool" where
  "no_usable_rows (Rejected e) = True"
| "no_usable_rows (Response ok (Inl e)) = True"
| "no_usable_rows (Response ok (Inr None)) = True"
| "no_usable_rows (Response ok (Inr (Some rows))) = False"

text \<open>A store without rows, and a world in which every fetch is rejected.\<close>

definition empty_store :: "unit store" where
  "empty_store =
     \<lparr> st_teams = [], st_players = [], st_games = [], st_player_game_stats = [],
       st_team_game_stats = [], st_player_season_stats = [], st_team_season_stats = [],
       st_rest = () \<rparr>"

definition fetch_failed :: exn where
  "fetch_failed = JsError ''fetch failed''"

definition failing_env :: "(unit, unit, unit, unit) env" where
  "failing_env =
     \<lparr> ev_standings = Rejected fetch_failed,
       ev_skaters = (\<lambda>season. Rejected fetch_failed),
       ev_goalies = (\<lambda>season. Rejected fetch_failed),
       ev_schedule = (\<lambda>season gameType. Rejected fetch_failed),
       ev_boxscore = (\<lambda>gameId. Rejected fetch_failed),
       ev_goalie_boxscore = (\<lambda>gameId. Rejected fetch_failed),
       ev_play_by_play = (\<lambda>gameId. Rejected fetch_failed),
       ev_csv = (\<lambda>url. None),
       ev_processGoalieStats = (\<lambda>gameId box st. (None, st)),
       ev_processShotData = (\<lambda>gameId playByPlay st. (None, st)),
       ev_updateTeamAdvancedStats = (\<lambda>teamStats season st. (None, st)),
       ev_updatePlayerAdvancedStats = (\<lambda>playerStats season st. (None, st)),
       ev_order_by_date_time = (\<lambda>desc games. games),
       ev_int_column = number_column,
       ev_enc = string_enc,
       ev_count_rest = (\<lambda>rest tbl. Some 0) \<rparr>"

text \<open>
  A world whose standings hold one team that \<^verbatim>\<open>getTeamIdFromAbbrev\<close> does not know.
\<close>

definition utah_env :: "(unit, unit, unit, unit) env" where
  "utah_env =
     failing_env
       \<lparr> ev_standings :=
           Response True (Inr (Some [\<lparr> teamAbbrev_default = Some ''UTA'',
                                       teamName_default = Some ''Utah Hockey Club'',
                                       placeName_default = Some ''Utah'',
                                       divisionName = Some ''Central'',
                                       conferenceName = Some ''Western'' \<rparr>])) \<rparr>"

section \<open>Properties\<close>

subsection \<open>Evaluation of the JavaScript helpers\<close>

lemma parseInt_examples:
  "parseInt ''12'' = JNum 12" "parseInt ''34'' = JNum 34" "parseInt ''ab'' = JNaN"
  "parseInt ''cd'' = JNaN" "parseInt '' 7x'' = JNum 7" "parseInt ''0x10'' = JNum 16"
  by (simp_all add: parseInt_def is_ws_def digit_of_def)

lemma parseTimeToSeconds_examples:
  "parseTimeToSeconds JUndefined = Inr (JNum 0)"
  "parseTimeToSeconds JNull = Inr (JNum 0)"
  "parseTimeToSeconds (JStr []) = Inr (JNum 0)"
  "parseTimeToSeconds (JStr ''12:34'') = Inr (JNum 754)"
  "parseTimeToSeconds (JStr ''1234'') = Inr (JNum 0)"
  "parseTimeToSeconds (JNum 754) = Inl (JsError ''timeString.split is not a function'')"
  by (simp_all add: parseTimeToSeconds_def parseInt_examples js_add_def js_mul_def)

subsection \<open>C8: the defaulting policy\<close>

text \<open>
  C8 says that a field that is missing or non-numeric where a number is expected is stored
  as 0 or null, never as NaN, and that the row is never skipped. The code breaks this at
  a time string with one colon and no digits, such as \<^verbatim>\<open>"ab:cd"\<close>:
  \<^verbatim>\<open>parseTimeToSeconds\<close> returns \<open>NaN\<close>, the production
  \<^verbatim>\<open>insertPlayerGameStat\<close> binds \<open>NaN\<close> to \<^verbatim>\<open>time_on_ice_seconds\<close>, and a
  store that takes only numbers for the column rejects the statement, so the row is not
  written. A non-numeric string in a count is passed on as it is by \<^verbatim>\<open>|| 0\<close>. The
  sibling expression \<^verbatim>\<open>this.parseTimeToSeconds(...) || 0\<close> of
  \<^verbatim>\<open>insertPlayerGameStats\<close> does turn the \<open>NaN\<close> into 0.
\<close>

theorem C8_time_on_ice_is_NaN:
  "parseTimeToSeconds (JStr ''ab:cd'') = Inr JNaN
   \<and> insertPlayerGameStat_values 2024020500 8471214 15
        (no_stats\<lparr> sk_timeOnIce := JStr ''ab:cd'' \<rparr>)
       = Inr [JNum 2024020500, JNum 8471214, JNum 15, JNum 0, JNum 0, JNum 0, JNum 0,
              JNum 0, JNum 0, JNum 0, JNum 0, JNaN]
   \<and> insertPlayerGameStat number_column 2024020500 8471214 15
        (no_stats\<lparr> sk_timeOnIce := JStr ''ab:cd'' \<rparr>) []
       = (Some store_rejects, [])
   \<and> js_or (JStr ''abc'') (JNum 0) = JStr ''abc''
   \<and> parseTimeToSeconds_or_zero (JStr ''ab:cd'') = Inr (JNum 0)"
proof -
  have nan: "parseTimeToSeconds (JStr ''ab:cd'') = Inr JNaN"
    by (simp add: parseTimeToSeconds_def parseInt_examples js_add_def js_mul_def)
  have vals: "insertPlayerGameStat_values 2024020500 8471214 15
        (no_stats\<lparr> sk_timeOnIce := JStr ''ab:cd'' \<rparr>)
       = Inr [JNum 2024020500, JNum 8471214, JNum 15, JNum 0, JNum 0, JNum 0, JNum 0,
              JNum 0, JNum 0, JNum 0, JNum 0, JNaN]"
    by (simp add: insertPlayerGameStat_values_def nan no_stats_def js_or_def js_add_def)
  have ins: "insertPlayerGameStat number_column 2024020500 8471214 15
        (no_stats\<lparr> sk_timeOnIce := JStr ''ab:cd'' \<rparr>) [] = (Some store_rejects, [])"
    by (simp add: insertPlayerGameStat_def vals select_count_def bind_ints_def)
  have keep: "js_or (JStr ''abc'') (JNum 0) = JStr ''abc''"
    by (simp add: js_or_def)
  have sib: "parseTimeToSeconds_or_zero (JStr ''ab:cd'') = Inr (JNum 0)"
    by (simp add: parseTimeToSeconds_or_zero_def nan js_or_def)
  from nan vals ins keep sib show ?thesis by simp
qed

subsection \<open>Upserts\<close>

lemma insert_on_conflict_keys:
  assumes L1: "\<And>r x. key (upd r x) = key r"
  shows "set (map key (insert_on_conflict key upd x t)) = insert (key x) (set (map key t))"
proof -
  have "map key (map (\<lambda>old. if key old = key x then upd old x else old) t) = map key t"
    by (induction t) (simp_all add: L1)
  then have h: "set (map key (map (\<lambda>old. if key old = key x then upd old x else old) t))
      = set (map key t)"
    by (rule arg_cong)
  show ?thesis
  proof (cases "key x \<in> set (map key t)")
    case True
    then have "insert_on_conflict key upd x t
        = map (\<lambda>old. if key old = key x then upd old x else old) t"
      by (simp add: insert_on_conflict_def)
    then show ?thesis using h True by (simp only: insert_absorb)
  next
    case False
    then show ?thesis by (simp add: insert_on_conflict_def)
  qed
qed

lemma cond_update_key:
  assumes L1: "\<And>r x. key (upd r x) = key r"
  shows "key (cond_update key upd x r) = key r"
  by (simp add: cond_update_def L1)

lemma fold_cond_update_key:
  assumes L1: "\<And>r x. key (upd r x) = key r"
  shows "key (fold (cond_update key upd) xs r) = key r"
  by (induction xs arbitrary: r) (simp_all add: cond_update_key[of key upd, OF L1])

lemma fold_upsert_present:
  assumes L1: "\<And>r x. key (upd r x) = key r"
  shows "key ` set xs \<subseteq> key ` set t \<Longrightarrow>
         fold (insert_on_conflict key upd) xs t = map (fold (cond_update key upd) xs) t"
proof (induction xs arbitrary: t)
  case Nil
  then show ?case by simp
next
  case (Cons x xs)
  have step: "insert_on_conflict key upd x t = map (cond_update key upd x) t"
    using Cons.prems by (auto simp: insert_on_conflict_def cond_update_def)
  have keys: "key ` set (map (cond_update key upd x) t) = key ` set t"
    by (simp add: image_image cond_update_key[of key upd, OF L1])
  have "fold (insert_on_conflict key upd) xs (map (cond_update key upd x) t)
        = map (fold (cond_update key upd) xs) (map (cond_update key upd x) t)"
    using Cons.prems keys by (intro Cons.IH) auto
  then show ?case by (simp add: step comp_def)
qed

lemma fold_upsert_keys:
  assumes L1: "\<And>r x. key (upd r x) = key r"
  shows "key ` set (fold (insert_on_conflict key upd) xs t) = key ` set xs \<union> key ` set t"
proof (induction xs arbitrary: t)
  case Nil
  then show ?case by simp
next
  case (Cons x xs)
  have "key ` set (insert_on_conflict key upd x t) = insert (key x) (key ` set t)"
    using insert_on_conflict_keys[of key upd x t, OF L1] by simp
  then show ?case using Cons.IH[of "insert_on_conflict key upd x t"] by auto
qed

lemma fold_cond_update_after_update:
  assumes L1: "\<And>r x. key (upd r x) = key r"
    and L2: "\<And>r x y. upd (upd r x) y = upd r y"
  shows "key r = key x \<Longrightarrow>
         fold (cond_update key upd) ys (upd r x)
         = (if key x \<in> key ` set ys then fold (cond_update key upd) ys r else upd r x)"
proof (induction ys arbitrary: r)
  case Nil
  then show ?case by simp
next
  case (Cons y ys)
  show ?case
  proof (cases "key y = key x")
    case True
    then have a: "cond_update key upd y (upd r x) = upd r y"
      by (simp add: cond_update_def L1 L2 Cons.prems)
    have b: "cond_update key upd y r = upd r y"
      using True Cons.prems by (simp add: cond_update_def)
    show ?thesis using True by (simp add: a b)
  next
    case False
    then have a: "cond_update key upd y (upd r x) = upd r x"
      by (simp add: cond_update_def L1 Cons.prems)
    have b: "cond_update key upd y r = r"
      using False Cons.prems by (simp add: cond_update_def)
    show ?thesis using False Cons.IH[OF Cons.prems] by (auto simp: a b)
  qed
qed

lemma fold_cond_update_other:
  "key r \<notin> key ` set ys \<Longrightarrow> fold (cond_update key upd) ys r = r"
  by (induction ys) (auto simp: cond_update_def)

lemma fold_upsert_settled:
  assumes L1: "\<And>r x. key (upd r x) = key r"
    and L2: "\<And>r x y. upd (upd r x) y = upd r y"
    and L3: "\<And>x. upd x x = x"
  shows "\<forall>r \<in> set (fold (insert_on_conflict key upd) xs t).
           key r \<in> key ` set xs \<longrightarrow> fold (cond_update key upd) xs r = r"
proof (induction xs rule: rev_induct)
  case Nil
  then show ?case by simp
next
  case (snoc x ys)
  let ?t1 = "fold (insert_on_conflict key upd) ys t"
  let ?G = "fold (cond_update key upd)"
  have G_snoc: "\<And>r. ?G (ys @ [x]) r = cond_update key upd x (?G ys r)" by simp
  show ?case
  proof
    fix r' assume r': "r' \<in> set (fold (insert_on_conflict key upd) (ys @ [x]) t)"
    then have r'in: "r' \<in> set (insert_on_conflict key upd x ?t1)" by simp
    show "key r' \<in> key ` set (ys @ [x]) \<longrightarrow> ?G (ys @ [x]) r' = r'"
    proof (cases "key x \<in> key ` set ?t1")
      case True
      then obtain r where r: "r \<in> set ?t1" "r' = cond_update key upd x r"
        using r'in by (auto simp: insert_on_conflict_def cond_update_def)
      show ?thesis
      proof (cases "key r = key x")
        case same: True
        then have r'eq: "r' = upd r x" using r by (simp add: cond_update_def)
        have "?G ys (upd r x) = (if key x \<in> key ` set ys then ?G ys r else upd r x)"
          by (rule fold_cond_update_after_update[of key upd, OF L1 L2 same])
        moreover have "key x \<in> key ` set ys \<Longrightarrow> ?G ys r = r"
          using snoc r(1) same by auto
        ultimately have "?G ys (upd r x) = r \<or> ?G ys (upd r x) = upd r x" by auto
        then have "cond_update key upd x (?G ys (upd r x)) = upd r x"
          using same by (auto simp: cond_update_def L1 L2)
        then show ?thesis by (simp add: r'eq)
      next
        case diff: False
        then have r'eq: "r' = r" using r by (simp add: cond_update_def)
        show ?thesis
        proof
          assume "key r' \<in> key ` set (ys @ [x])"
          then have "key r \<in> key ` set ys" using diff r'eq by auto
          then have "?G ys r = r" using snoc r(1) by auto
          then show "?G (ys @ [x]) r' = r'" using diff r'eq by (simp add: cond_update_def)
        qed
      qed
    next
      case False
      then have "r' \<in> set ?t1 \<or> r' = x" using r'in by (auto simp: insert_on_conflict_def)
      then show ?thesis
      proof
        assume in1: "r' \<in> set ?t1"
        then have ne: "key r' \<noteq> key x" using False by (metis image_eqI)
        show ?thesis
        proof
          assume "key r' \<in> key ` set (ys @ [x])"
          then have "key r' \<in> key ` set ys" using ne by auto
          then have "?G ys r' = r'" using snoc in1 by auto
          then show "?G (ys @ [x]) r' = r'" using ne by (simp add: cond_update_def)
        qed
      next
        assume rx: "r' = x"
        have "key ` set ys \<subseteq> key ` set ?t1"
          using fold_upsert_keys[of key upd ys t, OF L1] by auto
        then have "key x \<notin> key ` set ys" using False by auto
        then have "?G ys x = x" by (rule fold_cond_update_other)
        then show ?thesis using rx by (simp add: cond_update_def L3)
      qed
    qed
  qed
qed

lemma fold_upsert_idem:
  assumes L1: "\<And>r x. key (upd r x) = key r"
    and L2: "\<And>r x y. upd (upd r x) y = upd r y"
    and L3: "\<And>x. upd x x = x"
  shows "fold (insert_on_conflict key upd) xs (fold (insert_on_conflict key upd) xs t)
         = fold (insert_on_conflict key upd) xs t"
proof -
  let ?t1 = "fold (insert_on_conflict key upd) xs t"
  have sub: "key ` set xs \<subseteq> key ` set ?t1"
    using fold_upsert_keys[of key upd xs t, OF L1] by auto
  have "fold (insert_on_conflict key upd) xs ?t1 = map (fold (cond_update key upd) xs) ?t1"
    by (rule fold_upsert_present[of key upd, OF L1 sub])
  also have "\<dots> = map (\<lambda>r. r) ?t1"
  proof (rule map_cong[OF refl])
    fix r assume r: "r \<in> set ?t1"
    show "fold (cond_update key upd) xs r = r"
    proof (cases "key r \<in> key ` set xs")
      case True
      then show ?thesis using fold_upsert_settled[of key upd xs t, OF L1 L2 L3] r by auto
    next
      case False
      then show ?thesis by (rule fold_cond_update_other)
    qed
  qed
  finally show ?thesis by simp
qed


lemma upsert_idem:
  assumes L1: "\<And>r x. key (upd r x) = key r"
    and L2: "\<And>r x y. upd (upd r x) y = upd r y"
    and L3: "\<And>x. upd x x = x"
  shows "insert_on_conflict key upd x (insert_on_conflict key upd x t)
         = insert_on_conflict key upd x t"
  using fold_upsert_idem[of key upd "[x]" t, OF L1 L2 L3] by simp

lemma funpow_idem:
  assumes "\<And>t. f (f t) = f t" and "1 \<le> (n::nat)"
  shows "(f ^^ n) t = f t"
  using assms(2)
proof (induction n)
  case 0
  then show ?case by simp
next
  case (Suc n)
  show ?case
  proof (cases "n = 0")
    case True
    then show ?thesis by simp
  next
    case False
    then have "(f ^^ n) t = f t" using Suc.IH by simp
    then show ?thesis by (simp add: assms(1))
  qed
qed

lemma after_calls_idem:
  assumes "\<And>t. snd (f (snd (f t))) = snd (f t)" and "1 \<le> (n::nat)"
  shows "after_calls n f t = after_calls 1 f t"
proof -
  have gen: "\<And>t. after_calls n f (snd (f t)) = snd (f t)" for n
  proof (induction n)
    case 0
    then show ?case by simp
  next
    case (Suc n)
    then show ?case by (simp add: assms(1))
  qed
  obtain m where "n = Suc m" using assms(2) by (cases n) auto
  then show ?thesis by (simp add: gen)
qed

lemma upsert_sequence_ok: "upsert_sequence key upd (\<lambda>t. (None, t))"
  unfolding upsert_sequence_def
  by (rule exI[of _ None], rule exI[of _ "[]"]) simp

lemma upsert_sequence_for_each:
  assumes "\<And>x. x \<in> set l \<Longrightarrow> upsert_sequence key upd (f x)"
  shows "upsert_sequence key upd (for_each f l)"
  using assms
proof (induction l)
  case Nil
  then show ?case using upsert_sequence_ok[of key upd] by (simp add: upsert_sequence_def)
next
  case (Cons x l)
  obtain e1 xs1 where f1: "\<And>t. f x t = (e1, fold (insert_on_conflict key upd) xs1 t)"
    using Cons.prems[of x] by (auto simp: upsert_sequence_def)
  have "upsert_sequence key upd (for_each f l)" using Cons by simp
  then obtain e2 xs2 where
    f2: "\<And>t. for_each f l t = (e2, fold (insert_on_conflict key upd) xs2 t)"
    by (auto simp: upsert_sequence_def)
  show ?case
  proof (cases e1)
    case None
    have "\<forall>t. for_each f (x # l) t = (e2, fold (insert_on_conflict key upd) (xs1 @ xs2) t)"
      by (simp add: f1 f2 None)
    then show ?thesis unfolding upsert_sequence_def by blast
  next
    case (Some e)
    have "\<forall>t. for_each f (x # l) t = (Some e, fold (insert_on_conflict key upd) xs1 t)"
      by (simp add: f1 Some)
    then show ?thesis unfolding upsert_sequence_def by blast
  qed
qed

lemma upsert_sequence_idem:
  assumes L1: "\<And>r x. key (upd r x) = key r"
    and L2: "\<And>r x y. upd (upd r x) y = upd r y"
    and L3: "\<And>x. upd x x = x"
    and seq: "upsert_sequence key upd call"
  shows "snd (call (snd (call t))) = snd (call t)"
proof -
  obtain e xs where c: "\<And>t. call t = (e, fold (insert_on_conflict key upd) xs t)"
    using seq by (auto simp: upsert_sequence_def)
  show ?thesis by (simp add: c fold_upsert_idem[of key upd, OF L1 L2 L3])
qed

subsection \<open>C1: repeated upserts\<close>

lemma team_laws:
  "tm_id (insertTeam_update r x) = tm_id r"
  "insertTeam_update (insertTeam_update r x) y = insertTeam_update r y"
  "insertTeam_update x x = x"
  "tm_id (fallback_update r x) = tm_id r"
  "fallback_update (fallback_update r x) y = fallback_update r y"
  "fallback_update x x = x"
  by (simp_all add: insertTeam_update_def fallback_update_def)

lemma player_laws:
  "pl_id (insertPlayer_update r x) = pl_id r"
  "insertPlayer_update (insertPlayer_update r x) y = insertPlayer_update r y"
  "insertPlayer_update x x = x"
  by (simp_all add: insertPlayer_update_def)

lemma game_laws:
  "gm_id (insertGame_update r x) = gm_id r"
  "insertGame_update (insertGame_update r x) y = insertGame_update r y"
  "insertGame_update x x = x"
  "gm_id (do_nothing r x) = gm_id r"
  "do_nothing (do_nothing r x) y = do_nothing r y"
  "do_nothing x x = x"
  by (simp_all add: insertGame_update_def do_nothing_def)

lemma pgs_laws:
  "pgs_key (insertPlayerGameStats_update r x) = pgs_key r"
  "insertPlayerGameStats_update (insertPlayerGameStats_update r x) y
   = insertPlayerGameStats_update r y"
  "insertPlayerGameStats_update x x = x"
  by (simp_all add: insertPlayerGameStats_update_def pgs_key_def)


lemma insertTeam_idem: "insertTeam st (insertTeam st t) = insertTeam st t"
  unfolding insertTeam_def
  by (rule upsert_idem) (simp_all add: team_laws)

lemma insertPlayer_idem: "insertPlayer p s (insertPlayer p s t) = insertPlayer p s t"
  unfolding insertPlayer_def
  by (rule upsert_idem) (simp_all add: player_laws)

lemma insertGame_idem: "insertGame g s (insertGame g s t) = insertGame g s t"
  unfolding insertGame_def
  by (rule upsert_idem) (simp_all add: game_laws)

lemma fold_insertTeam:
  "fold insertTeam sts = fold (insert_on_conflict tm_id insertTeam_update) (map team_of_standing sts)"
  by (simp add: fold_map comp_def insertTeam_def[abs_def])

lemma fold_insertTeam_idem:
  "fold insertTeam sts (fold insertTeam sts t) = fold insertTeam sts t"
  unfolding fold_insertTeam
  by (rule fold_upsert_idem) (simp_all add: team_laws)

lemma insertFallbackTeams_idem:
  "insertFallbackTeams (insertFallbackTeams t) = insertFallbackTeams t"
  unfolding insertFallbackTeams_def
  by (rule fold_upsert_idem) (simp_all add: team_laws)

lemma fold_insertPlayer:
  "fold (\<lambda>p. insertPlayer p s) ps
   = fold (insert_on_conflict pl_id insertPlayer_update) (map player_of_api ps)"
  by (simp add: fold_map comp_def insertPlayer_def[abs_def])

lemma fold_insertPlayer_idem:
  "fold (\<lambda>p. insertPlayer p s) ps (fold (\<lambda>p. insertPlayer p s) ps t)
   = fold (\<lambda>p. insertPlayer p s) ps t"
  unfolding fold_insertPlayer
  by (rule fold_upsert_idem) (simp_all add: player_laws)

lemma fold_insertGame:
  "fold (\<lambda>g. insertGame g s) gs
   = fold (insert_on_conflict gm_id insertGame_update) (map (\<lambda>g. game_of_api g s) gs)"
  by (simp add: fold_map comp_def insertGame_def[abs_def])

lemma fold_insertGame_idem:
  "fold (\<lambda>g. insertGame g s) gs (fold (\<lambda>g. insertGame g s) gs t)
   = fold (\<lambda>g. insertGame g s) gs t"
  unfolding fold_insertGame
  by (rule fold_upsert_idem) (simp_all add: game_laws)

lemma insertPlayerGameStats_sequence:
  "upsert_sequence pgs_key insertPlayerGameStats_update
     (insertPlayerGameStats ic g p tm stats)"
proof (cases "insertPlayerGameStats_values g p tm stats")
  case (Inl e)
  then have "\<forall>t. insertPlayerGameStats ic g p tm stats t
       = (Some e, fold (insert_on_conflict pgs_key insertPlayerGameStats_update) [] t)"
    by (simp add: insertPlayerGameStats_def)
  then show ?thesis unfolding upsert_sequence_def by blast
next
  case (Inr vs)
  show ?thesis
  proof (cases "bind_ints ic (drop 3 vs)")
    case None
    then have "\<forall>t. insertPlayerGameStats ic g p tm stats t
         = (Some store_rejects,
            fold (insert_on_conflict pgs_key insertPlayerGameStats_update) [] t)"
      by (simp add: insertPlayerGameStats_def Inr)
    then show ?thesis unfolding upsert_sequence_def by blast
  next
    case (Some ns)
    then have "\<forall>t. insertPlayerGameStats ic g p tm stats t
         = (None, fold (insert_on_conflict pgs_key insertPlayerGameStats_update)
                    [pgs_of_values20 g p tm ns] t)"
      by (simp add: insertPlayerGameStats_def Inr)
    then show ?thesis unfolding upsert_sequence_def by blast
  qed
qed

lemma player_c_sequence:
  "upsert_sequence pgs_key insertPlayerGameStats_update
     (\<lambda>t'. case bpc_statistics p of
              None \<Rightarrow> (None, t')
            | Some stats \<Rightarrow>
                (case map_of stats ''skaterStats'' of
                   None \<Rightarrow> (None, t')
                 | Some skaterStats \<Rightarrow>
                     insertPlayerGameStats ic g (bpc_playerId p) tid
                       (spread_stats skaterStats (map_of stats ''powerPlay'')
                          (map_of stats ''penaltyKill''))
                       t'))"
proof (cases "bpc_statistics p")
  case None
  then show ?thesis by (simp add: upsert_sequence_ok)
next
  case (Some stats)
  show ?thesis
  proof (cases "map_of stats ''skaterStats''")
    case None
    then show ?thesis using Some by (simp add: upsert_sequence_ok)
  next
    case (Some skaterStats)
    then show ?thesis
      using \<open>bpc_statistics p = Some stats\<close> by (simp add: insertPlayerGameStats_sequence)
  qed
qed

lemma team_c_sequence:
  "upsert_sequence pgs_key insertPlayerGameStats_update
     (\<lambda>t. case team of
             None \<Rightarrow> (None, t)
           | Some tm \<Rightarrow>
               (case btc_players tm of
                  None \<Rightarrow> (None, t)
                | Some players \<Rightarrow>
                    for_each
                      (\<lambda>p t'.
                         case bpc_statistics p of
                           None \<Rightarrow> (None, t')
                         | Some stats \<Rightarrow>
                             (case map_of stats ''skaterStats'' of
                                None \<Rightarrow> (None, t')
                              | Some skaterStats \<Rightarrow>
                                  insertPlayerGameStats ic g (bpc_playerId p) (btc_id tm)
                                    (spread_stats skaterStats (map_of stats ''powerPlay'')
                                       (map_of stats ''penaltyKill''))
                                    t'))
                      players t))"
proof (cases team)
  case None
  then show ?thesis by (simp add: upsert_sequence_ok)
next
  case (Some tm)
  show ?thesis
  proof (cases "btc_players tm")
    case None
    then show ?thesis using Some by (simp add: upsert_sequence_ok)
  next
    case (Some players)
    then show ?thesis
      using \<open>team = Some tm\<close>
      by (simp add: upsert_sequence_for_each player_c_sequence)
  qed
qed

lemma processCompletePlayerGameStats_sequence:
  "upsert_sequence pgs_key insertPlayerGameStats_update
     (processCompletePlayerGameStats ic g box)"
  unfolding processCompletePlayerGameStats_def
  by (rule upsert_sequence_for_each) (rule team_c_sequence)

lemma backfillPlayerGameStats_loop_c_sequence:
  "upsert_sequence pgs_key insertPlayerGameStats_update
     (backfillPlayerGameStats_loop_c ic fetched)"
  unfolding backfillPlayerGameStats_loop_c_def
  by (rule upsert_sequence_for_each)
     (simp add: case_prod_beta processCompletePlayerGameStats_sequence)

lemma insertPlayerGameStats_idem:
  "snd (insertPlayerGameStats ic g p tm stats (snd (insertPlayerGameStats ic g p tm stats t)))
   = snd (insertPlayerGameStats ic g p tm stats t)"
  by (rule upsert_sequence_idem[OF _ _ _ insertPlayerGameStats_sequence])
     (simp_all add: pgs_laws)

lemma backfillPlayerGameStats_loop_c_idem:
  "snd (backfillPlayerGameStats_loop_c ic fetched
          (snd (backfillPlayerGameStats_loop_c ic fetched t)))
   = snd (backfillPlayerGameStats_loop_c ic fetched t)"
  by (rule upsert_sequence_idem[OF _ _ _ backfillPlayerGameStats_loop_c_sequence])
     (simp_all add: pgs_laws)

lemma insertPlayerGameStat_idem:
  "snd (insertPlayerGameStat ic g p tm stats (snd (insertPlayerGameStat ic g p tm stats t)))
   = snd (insertPlayerGameStat ic g p tm stats t)"
  by (auto simp: insertPlayerGameStat_def select_count_def pgs_of_values_def
           split: sum.splits option.splits)

lemma insertTeamGameStat_idem:
  "snd (insertTeamGameStat ic g tm h td (snd (insertTeamGameStat ic g tm h td t)))
   = snd (insertTeamGameStat ic g tm h td t)"
  by (auto simp: insertTeamGameStat_def select_count_def split: option.splits)

text \<open>
  C1. For every entity (team, player, game, per-game statistics row) and every
  \<open>N \<ge> 1\<close>, \<open>N\<close> identical calls of its insert leave the table as one call does, and
  so does repeating a stage on the same upstream data (the loop over the standings, the
  fallback teams, the players, the games, and the boxscores of
  \<^verbatim>\<open>dataBackfillService.ts\<close>). The tables are compared whole: the same rows with the
  same columns, in the same order.
\<close>

theorem C1_repeated_upserts:
  assumes "1 \<le> N"
  shows
    "(insertTeam st ^^ N) teams = insertTeam st teams
     \<and> (insertPlayer p season ^^ N) players = insertPlayer p season players
     \<and> (insertGame g season ^^ N) games = insertGame g season games
     \<and> after_calls N (insertPlayerGameStats int_column gameId playerId teamId stats) pgs
         = after_calls 1 (insertPlayerGameStats int_column gameId playerId teamId stats) pgs
     \<and> after_calls N (insertPlayerGameStat int_column gameId playerId teamId stats) pgs
         = after_calls 1 (insertPlayerGameStat int_column gameId playerId teamId stats) pgs
     \<and> after_calls N (insertTeamGameStat int_column gameId teamId isHome teamData) tgs
         = after_calls 1 (insertTeamGameStat int_column gameId teamId isHome teamData) tgs
     \<and> (fold insertTeam standings ^^ N) teams = fold insertTeam standings teams
     \<and> (insertFallbackTeams ^^ N) teams = insertFallbackTeams teams
     \<and> (fold (\<lambda>p. insertPlayer p season) api_players ^^ N) players
         = fold (\<lambda>p. insertPlayer p season) api_players players
     \<and> (fold (\<lambda>g. insertGame g season) api_games ^^ N) games
         = fold (\<lambda>g. insertGame g season) api_games games
     \<and> after_calls N (backfillPlayerGameStats_loop_c int_column fetched) pgs
         = after_calls 1 (backfillPlayerGameStats_loop_c int_column fetched) pgs"
proof -
  note n = assms
  have c1: "(insertTeam st ^^ N) teams = insertTeam st teams"
    by (rule funpow_idem[OF insertTeam_idem n])
  have c2: "(insertPlayer p season ^^ N) players = insertPlayer p season players"
    by (rule funpow_idem[OF insertPlayer_idem n])
  have c3: "(insertGame g season ^^ N) games = insertGame g season games"
    by (rule funpow_idem[OF insertGame_idem n])
  have c4: "after_calls N (insertPlayerGameStats int_column gameId playerId teamId stats) pgs
         = after_calls 1 (insertPlayerGameStats int_column gameId playerId teamId stats) pgs"
    by (rule after_calls_idem[OF insertPlayerGameStats_idem n])
  have c5: "after_calls N (insertPlayerGameStat int_column gameId playerId teamId stats) pgs
         = after_calls 1 (insertPlayerGameStat int_column gameId playerId teamId stats) pgs"
    by (rule after_calls_idem[OF insertPlayerGameStat_idem n])
  have c6: "after_calls N (insertTeamGameStat int_column gameId teamId isHome teamData) tgs
         = after_calls 1 (insertTeamGameStat int_column gameId teamId isHome teamData) tgs"
    by (rule after_calls_idem[OF insertTeamGameStat_idem n])
  have c7: "(fold insertTeam standings ^^ N) teams = fold insertTeam standings teams"
    by (rule funpow_idem[OF fold_insertTeam_idem n])
  have c8: "(insertFallbackTeams ^^ N) teams = insertFallbackTeams teams"
    by (rule funpow_idem[OF insertFallbackTeams_idem n])
  have c9: "(fold (\<lambda>p. insertPlayer p season) api_players ^^ N) players
         = fold (\<lambda>p. insertPlayer p season) api_players players"
    by (rule funpow_idem[OF fold_insertPlayer_idem n])
  have c10: "(fold (\<lambda>g. insertGame g season) api_games ^^ N) games
         = fold (\<lambda>g. insertGame g season) api_games games"
    by (rule funpow_idem[OF fold_insertGame_idem n])
  have c11: "after_calls N (backfillPlayerGameStats_loop_c int_column fetched) pgs
         = after_calls 1 (backfillPlayerGameStats_loop_c int_column fetched) pgs"
    by (rule after_calls_idem[OF backfillPlayerGameStats_loop_c_idem n])
  from c1 c2 c3 c4 c5 c6 c7 c8 c9 c10 c11 show ?thesis by blast
qed

theorem C1_repeated_upserts_witness:
  "(1::nat) \<le> 3
   \<and> (insertFallbackTeams ^^ 3) [] = insertFallbackTeams []
   \<and> after_calls 3 (insertPlayerGameStats number_column 2024020500 8471214 15
                      (no_stats\<lparr> sk_goals := JNum 2, sk_timeOnIce := JStr ''18:30'' \<rparr>)) []
      = after_calls 1 (insertPlayerGameStats number_column 2024020500 8471214 15
                      (no_stats\<lparr> sk_goals := JNum 2, sk_timeOnIce := JStr ''18:30'' \<rparr>)) []"
proof -
  have n: "(1::nat) \<le> 3" by simp
  note inst = C1_repeated_upserts[OF n, where teams = "[]" and pgs = "[]"
      and int_column = number_column and gameId = 2024020500 and playerId = 8471214
      and teamId = 15
      and stats = "no_stats\<lparr> sk_goals := JNum 2, sk_timeOnIce := JStr ''18:30'' \<rparr>"]
  from n inst show ?thesis by blast
qed

subsection \<open>C3: one row for each game and player\<close>

lemma insert_on_conflict_distinct:
  assumes L1: "\<And>r x. key (upd r x) = key r"
    and d: "distinct (map key t)"
  shows "distinct (map key (insert_on_conflict key upd x t))"
proof (cases "key x \<in> set (map key t)")
  case True
  have "map key (map (\<lambda>old. if key old = key x then upd old x else old) t) = map key t"
    by (induction t) (simp_all add: L1)
  then show ?thesis using True d by (simp add: insert_on_conflict_def del: map_map)
next
  case False
  then show ?thesis using d by (simp add: insert_on_conflict_def)
qed

lemma for_each_invariant:
  assumes "\<And>x t. x \<in> set l \<Longrightarrow> P t \<Longrightarrow> P (snd (f x t))" and "P t"
  shows "P (snd (for_each f l t))"
  using assms
proof (induction l arbitrary: t)
  case Nil
  then show ?case by simp
next
  case (Cons x l)
  have px: "P (snd (f x t))" using Cons.prems by simp
  show ?case
  proof (cases "f x t")
    case (Pair e t')
    then have pt': "P t'" using px by simp
    show ?thesis
    proof (cases e)
      case None
      have "P (snd (for_each f l t'))"
        using Cons.prems(1) pt' by (intro Cons.IH) auto
      then show ?thesis using Pair None by simp
    next
      case (Some a)
      then show ?thesis using Pair pt' by simp
    qed
  qed
qed

lemma for_each_caught_invariant:
  assumes "\<And>x t. x \<in> set l \<Longrightarrow> P t \<Longrightarrow> P (snd (f x t))" and "P t"
  shows "P (for_each_caught f l t)"
  using assms
proof (induction l arbitrary: t)
  case Nil
  then show ?case by simp
next
  case (Cons x l)
  have "P (snd (f x t))" using Cons.prems by simp
  then have "P (for_each_caught f l (snd (f x t)))"
    using Cons.prems(1) by (intro Cons.IH) auto
  then show ?case by simp
qed

lemma pgs_update_key: "pgs_key (insertPlayerGameStats_update r x) = pgs_key r"
  by (simp add: insertPlayerGameStats_update_def pgs_key_def)

lemma insertPlayerGameStats_distinct:
  "distinct (map pgs_key t) \<Longrightarrow>
   distinct (map pgs_key (snd (insertPlayerGameStats ic g p tm stats t)))"
  by (auto simp: insertPlayerGameStats_def pgs_update_key
           intro!: insert_on_conflict_distinct split: sum.splits option.splits)

lemma select_count_zero_iff:
  "select_count (\<lambda>r. pgs_game_id r = g \<and> pgs_player_id r = p) t = 0
   \<longleftrightarrow> (g, p) \<notin> set (map pgs_key t)"
  by (induction t) (auto simp: select_count_def pgs_key_def)

lemma insertPlayerGameStat_distinct:
  "distinct (map pgs_key t) \<Longrightarrow>
   distinct (map pgs_key (snd (insertPlayerGameStat ic g p tm stats t)))"
  unfolding insertPlayerGameStat_def select_count_zero_iff
  by (auto simp: pgs_key_def pgs_of_values_def split: sum.splits option.splits)

lemma processPlayerGameStats_distinct:
  assumes d: "distinct (map pgs_key t)"
  shows "distinct (map pgs_key (snd (processPlayerGameStats ic g box t)))"
  unfolding processPlayerGameStats_def
proof (rule for_each_invariant[where P = "\<lambda>t. distinct (map pgs_key t)", OF _ d])
  fix team :: "box_team option" and t :: "player_game_stat list"
  assume dt: "distinct (map pgs_key t)"
  show "distinct (map pgs_key (snd (case team of
            None \<Rightarrow> (None, t)
          | Some tm \<Rightarrow>
              (case bt_players tm of
                 None \<Rightarrow> (None, t)
               | Some players \<Rightarrow>
                   for_each
                     (\<lambda>p t'.
                        case bp_skaterStats p of
                          None \<Rightarrow> (None, t')
                        | Some stats \<Rightarrow>
                            insertPlayerGameStat ic g (bp_playerId p) (bt_id tm) stats t')
                     players t))))"
  proof (cases team)
    case None
    then show ?thesis using dt by simp
  next
    case (Some tm)
    show ?thesis
    proof (cases "bt_players tm")
      case None
      then show ?thesis using Some dt by simp
    next
      case players: (Some players)
      have "distinct (map pgs_key (snd (for_each
                     (\<lambda>p t'.
                        case bp_skaterStats p of
                          None \<Rightarrow> (None, t')
                        | Some stats \<Rightarrow>
                            insertPlayerGameStat ic g (bp_playerId p) (bt_id tm) stats t')
                     players t)))"
      proof (rule for_each_invariant[where P = "\<lambda>t. distinct (map pgs_key t)", OF _ dt])
        fix p :: box_player and t' :: "player_game_stat list"
        assume "distinct (map pgs_key t')"
        then show "distinct (map pgs_key (snd (case bp_skaterStats p of
                          None \<Rightarrow> (None, t')
                        | Some stats \<Rightarrow>
                            insertPlayerGameStat ic g (bp_playerId p) (bt_id tm) stats t')))"
          by (cases "bp_skaterStats p") (simp_all add: insertPlayerGameStat_distinct)
      qed
      then show ?thesis using Some players by simp
    qed
  qed
qed

lemma processCompletePlayerGameStats_distinct:
  assumes d: "distinct (map pgs_key t)"
  shows "distinct (map pgs_key (snd (processCompletePlayerGameStats ic g box t)))"
proof -
  obtain e xs where c: "\<And>t. processCompletePlayerGameStats ic g box t
      = (e, fold (insert_on_conflict pgs_key insertPlayerGameStats_update) xs t)"
    using processCompletePlayerGameStats_sequence[of ic g box]
    by (auto simp: upsert_sequence_def)
  have "distinct (map pgs_key (fold (insert_on_conflict pgs_key insertPlayerGameStats_update) xs t))"
    using d
  proof (induction xs arbitrary: t)
    case Nil
    then show ?case by simp
  next
    case (Cons x xs)
    have "distinct (map pgs_key (insert_on_conflict pgs_key insertPlayerGameStats_update x t))"
      by (rule insert_on_conflict_distinct[OF pgs_update_key Cons.prems])
    then show ?case using Cons.IH by simp
  qed
  then show ?thesis by (simp add: c)
qed

lemma apply_run_distinct:
  assumes d: "distinct (map pgs_key t)"
  shows "distinct (map pgs_key (apply_run ic run t))"
proof (cases run)
  case (ProductionRun fetched)
  have "distinct (map pgs_key (backfillPlayerGameStats_loop ic fetched t))"
    unfolding backfillPlayerGameStats_loop_def
  proof (rule for_each_caught_invariant[where P = "\<lambda>t. distinct (map pgs_key t)", OF _ d])
    fix x :: "int \<times> boxscore" and t :: "player_game_stat list"
    assume "distinct (map pgs_key t)"
    then show "distinct (map pgs_key
                 (snd ((case x of (gameId, box) \<Rightarrow> processPlayerGameStats ic gameId box) t)))"
      by (cases x) (simp add: processPlayerGameStats_distinct)
  qed
  then show ?thesis using ProductionRun by simp
next
  case (CompleteRun fetched)
  have "distinct (map pgs_key (snd (backfillPlayerGameStats_loop_c ic fetched t)))"
    unfolding backfillPlayerGameStats_loop_c_def
  proof (rule for_each_invariant[where P = "\<lambda>t. distinct (map pgs_key t)", OF _ d])
    fix x :: "int \<times> boxscore_c" and t :: "player_game_stat list"
    assume "distinct (map pgs_key t)"
    then show "distinct (map pgs_key
                 (snd ((case x of (gameId, box) \<Rightarrow>
                          processCompletePlayerGameStats ic gameId box) t)))"
      by (cases x) (simp add: processCompletePlayerGameStats_distinct)
  qed
  then show ?thesis using CompleteRun by simp
qed

lemma runs_distinct:
  "distinct (map pgs_key t) \<Longrightarrow> distinct (map pgs_key (fold (apply_run ic) runs t))"
  by (induction runs arbitrary: t) (simp_all add: apply_run_distinct)

lemma distinct_count_le_one:
  "distinct (map pgs_key t) \<Longrightarrow>
   select_count (\<lambda>r. pgs_game_id r = g \<and> pgs_player_id r = p) t \<le> 1"
proof (induction t)
  case Nil
  then show ?case by (simp add: select_count_def)
next
  case (Cons r t)
  show ?case
  proof (cases "pgs_key r = (g, p)")
    case True
    then have "(g, p) \<notin> set (map pgs_key t)" using Cons.prems by auto
    then have "select_count (\<lambda>r. pgs_game_id r = g \<and> pgs_player_id r = p) t = 0"
      by (simp add: select_count_zero_iff)
    then show ?thesis using True by (simp add: select_count_def pgs_key_def)
  next
    case False
    then show ?thesis using Cons by (auto simp: select_count_def pgs_key_def)
  qed
qed

lemma pgs_update_overwrites:
  "pgs_key old = pgs_key new \<Longrightarrow> insertPlayerGameStats_update old new = new"
  by (simp add: insertPlayerGameStats_update_def pgs_key_def)

lemma insertPlayerGameStat_existing:
  "select_count (\<lambda>r. pgs_game_id r = g \<and> pgs_player_id r = p) t \<noteq> 0 \<Longrightarrow>
   insertPlayerGameStat ic g p tm stats t = (None, t)"
  by (simp add: insertPlayerGameStat_def)

lemma insertPlayerGameStats_existing:
  assumes "(g, p) \<in> set (map pgs_key t)"
    and "insertPlayerGameStats_values g p tm stats = Inr vs"
    and "bind_ints ic (drop 3 vs) = Some ns"
  shows "insertPlayerGameStats ic g p tm stats t
         = (None, map (\<lambda>r. if pgs_key r = (g, p) then pgs_of_values20 g p tm ns else r) t)"
proof -
  have k: "pgs_key (pgs_of_values20 g p tm ns) = (g, p)"
    by (simp add: pgs_key_def pgs_of_values20_def)
  have "insert_on_conflict pgs_key insertPlayerGameStats_update (pgs_of_values20 g p tm ns) t
        = map (\<lambda>old. if pgs_key old = (g, p)
                      then insertPlayerGameStats_update old (pgs_of_values20 g p tm ns)
                      else old) t"
    using assms(1) by (simp add: insert_on_conflict_def k)
  also have "\<dots> = map (\<lambda>r. if pgs_key r = (g, p) then pgs_of_values20 g p tm ns else r) t"
    by (rule map_cong[OF refl]) (simp add: pgs_update_overwrites k)
  finally show ?thesis by (simp add: insertPlayerGameStats_def assms(2,3))
qed

text \<open>
  C3 as stated fails on the production service: re-processing a game does not update
  the existing row. \<^verbatim>\<open>insertPlayerGameStat\<close> counts the rows of the pair and does
  nothing when there is one, so a row written with one goal still has one goal after
  the same game and player are processed with two goals.
\<close>

theorem C3_production_keeps_the_old_row:
  "snd (insertPlayerGameStat number_column 2024020500 8471214 15 two_goals
          (snd (insertPlayerGameStat number_column 2024020500 8471214 15 one_goal [])))
   = snd (insertPlayerGameStat number_column 2024020500 8471214 15 one_goal [])
   \<and> map pgs_goals
        (snd (insertPlayerGameStat number_column 2024020500 8471214 15 two_goals
          (snd (insertPlayerGameStat number_column 2024020500 8471214 15 one_goal []))))
     = [1]
   \<and> map pgs_goals
        (apply_run number_column (ProductionRun [(2024020500, sample_boxscore two_goals)])
          (apply_run number_column (ProductionRun [(2024020500, sample_boxscore one_goal)]) []))
     = [1]"
proof -
  have toi: "parseTimeToSeconds (JStr ''18:30'') = Inr (JNum 1110)"
    by (simp add: parseTimeToSeconds_def parseInt_def is_ws_def digit_of_def js_add_def
        js_mul_def)
  have first: "insertPlayerGameStat number_column 2024020500 8471214 15 one_goal []
      = (None, [pgs_of_values 2024020500 8471214 15 [1, 0, 1, 0, 0, 0, 0, 0, 1110]])"
    by (simp add: insertPlayerGameStat_def insertPlayerGameStat_values_def select_count_def
        one_goal_def no_stats_def toi js_or_def js_add_def bind_ints_def)
  have second: "insertPlayerGameStat number_column 2024020500 8471214 15 two_goals
        [pgs_of_values 2024020500 8471214 15 [1, 0, 1, 0, 0, 0, 0, 0, 1110]]
      = (None, [pgs_of_values 2024020500 8471214 15 [1, 0, 1, 0, 0, 0, 0, 0, 1110]])"
    by (rule insertPlayerGameStat_existing) (simp add: select_count_def pgs_of_values_def)
  have goals: "map pgs_goals [pgs_of_values 2024020500 8471214 15 [1, 0, 1, 0, 0, 0, 0, 0, 1110]]
      = [1]"
    by (simp add: pgs_of_values_def)
  have run1: "apply_run number_column (ProductionRun [(2024020500, sample_boxscore one_goal)]) []
      = [pgs_of_values 2024020500 8471214 15 [1, 0, 1, 0, 0, 0, 0, 0, 1110]]"
    by (simp add: backfillPlayerGameStats_loop_def processPlayerGameStats_def
        sample_boxscore_def first)
  have run2: "apply_run number_column (ProductionRun [(2024020500, sample_boxscore two_goals)])
        [pgs_of_values 2024020500 8471214 15 [1, 0, 1, 0, 0, 0, 0, 0, 1110]]
      = [pgs_of_values 2024020500 8471214 15 [1, 0, 1, 0, 0, 0, 0, 0, 1110]]"
    by (simp add: backfillPlayerGameStats_loop_def processPlayerGameStats_def
        sample_boxscore_def second)
  show ?thesis unfolding run1 run2 first snd_conv second goals by simp
qed

text \<open>
  C3, amended. For every pair of a game and a player, after any sequence of backfill
  runs of either service on a table that starts empty (any boxscores, in any order, any
  number of times), at most one row of \<^verbatim>\<open>player_game_stats\<close> has that pair.
  Re-processing never inserts a second row: the production
  \<^verbatim>\<open>insertPlayerGameStat\<close> leaves an existing row as it is, and
  \<^verbatim>\<open>insertPlayerGameStats\<close> of \<^verbatim>\<open>dataBackfillService.ts\<close> overwrites every
  column outside the key of the existing row, in place.
\<close>

theorem C3_one_row_per_game_and_player:
  "select_count (\<lambda>r. pgs_game_id r = g \<and> pgs_player_id r = p)
     (fold (apply_run int_column) runs []) \<le> 1
   \<and> (select_count (\<lambda>r. pgs_game_id r = g \<and> pgs_player_id r = p) t \<noteq> 0 \<longrightarrow>
        insertPlayerGameStat int_column g p tm stats t = (None, t))
   \<and> ((g, p) \<in> set (map pgs_key t)
        \<and> insertPlayerGameStats_values g p tm stats = Inr vs
        \<and> bind_ints int_column (drop 3 vs) = Some ns \<longrightarrow>
        insertPlayerGameStats int_column g p tm stats t
        = (None, map (\<lambda>r. if pgs_key r = (g, p) then pgs_of_values20 g p tm ns else r) t))"
proof -
  have "distinct (map pgs_key (fold (apply_run int_column) runs []))"
    by (rule runs_distinct) simp
  then have a: "select_count (\<lambda>r. pgs_game_id r = g \<and> pgs_player_id r = p)
     (fold (apply_run int_column) runs []) \<le> 1"
    by (rule distinct_count_le_one)
  show ?thesis
    using a insertPlayerGameStat_existing insertPlayerGameStats_existing by blast
qed

theorem C3_one_row_per_game_and_player_witness:
  "select_count (\<lambda>r. pgs_game_id r = 2024020500 \<and> pgs_player_id r = 8471214)
     (fold (apply_run number_column)
        [ProductionRun [(2024020500, sample_boxscore one_goal)],
         CompleteRun [(2024020500, sample_boxscore_c two_goals)],
         ProductionRun [(2024020500, sample_boxscore two_goals)]] []) \<le> 1
   \<and> insertPlayerGameStat number_column 2024020500 8471214 15 two_goals
        [pgs_of_values 2024020500 8471214 15 [1, 0, 1, 0, 0, 0, 0, 0, 1110]]
      = (None, [pgs_of_values 2024020500 8471214 15 [1, 0, 1, 0, 0, 0, 0, 0, 1110]])
   \<and> insertPlayerGameStats number_column 2024020500 8471214 15 two_goals
        [pgs_of_values 2024020500 8471214 15 [1, 0, 1, 0, 0, 0, 0, 0, 1110]]
      = (None, [pgs_of_values20 2024020500 8471214 15
                  [2, 0, 2, 0, 0, 0, 0, 0, 1110, 0, 0, 0, 0, 0, 0, 0, 0]])"
proof -
  have toi: "parseTimeToSeconds (JStr ''18:30'') = Inr (JNum 1110)"
    by (simp add: parseTimeToSeconds_def parseInt_def is_ws_def digit_of_def js_add_def
        js_mul_def)
  have h1: "select_count (\<lambda>r. pgs_game_id r = 2024020500 \<and> pgs_player_id r = 8471214)
        [pgs_of_values 2024020500 8471214 15 [1, 0, 1, 0, 0, 0, 0, 0, 1110]] \<noteq> 0"
    by (simp add: select_count_def pgs_of_values_def)
  have h2: "(2024020500, 8471214)
      \<in> set (map pgs_key [pgs_of_values 2024020500 8471214 15 [1, 0, 1, 0, 0, 0, 0, 0, 1110]])"
    by (simp add: pgs_key_def pgs_of_values_def)
  have h3: "insertPlayerGameStats_values 2024020500 8471214 15 two_goals
      = Inr [JNum 2024020500, JNum 8471214, JNum 15, JNum 2, JNum 0, JNum 2, JNum 0, JNum 0,
             JNum 0, JNum 0, JNum 0, JNum 1110, JNum 0, JNum 0, JNum 0, JNum 0, JNum 0,
             JNum 0, JNum 0, JNum 0]"
    by (simp add: insertPlayerGameStats_values_def parseTimeToSeconds_or_zero_def
        two_goals_def no_stats_def toi parseTimeToSeconds_examples js_or_def js_add_def)
  have h4: "bind_ints number_column
        (drop 3 [JNum 2024020500, JNum 8471214, JNum 15, JNum 2, JNum 0, JNum 2, JNum 0,
                 JNum 0, JNum 0, JNum 0, JNum 0, JNum 1110, JNum 0, JNum 0, JNum 0, JNum 0,
                 JNum 0, JNum 0, JNum 0, JNum 0])
      = Some [2, 0, 2, 0, 0, 0, 0, 0, 1110, 0, 0, 0, 0, 0, 0, 0, 0]"
    by (simp add: bind_ints_def)
  note inst = C3_one_row_per_game_and_player[where int_column = number_column
      and g = 2024020500 and p = 8471214 and tm = 15 and stats = two_goals
      and t = "[pgs_of_values 2024020500 8471214 15 [1, 0, 1, 0, 0, 0, 0, 0, 1110]]"
      and vs = "[JNum 2024020500, JNum 8471214, JNum 15, JNum 2, JNum 0, JNum 2, JNum 0,
                 JNum 0, JNum 0, JNum 0, JNum 0, JNum 1110, JNum 0, JNum 0, JNum 0, JNum 0,
                 JNum 0, JNum 0, JNum 0, JNum 0]"
      and ns = "[2, 0, 2, 0, 0, 0, 0, 0, 1110, 0, 0, 0, 0, 0, 0, 0, 0]"
      and runs = "[ProductionRun [(2024020500, sample_boxscore one_goal)],
         CompleteRun [(2024020500, sample_boxscore_c two_goals)],
         ProductionRun [(2024020500, sample_boxscore two_goals)]]"]
  have m: "map (\<lambda>r. if pgs_key r = (2024020500, 8471214)
                    then pgs_of_values20 2024020500 8471214 15
                           [2, 0, 2, 0, 0, 0, 0, 0, 1110, 0, 0, 0, 0, 0, 0, 0, 0]
                    else r)
             [pgs_of_values 2024020500 8471214 15 [1, 0, 1, 0, 0, 0, 0, 0, 1110]]
           = [pgs_of_values20 2024020500 8471214 15
                [2, 0, 2, 0, 0, 0, 0, 0, 1110, 0, 0, 0, 0, 0, 0, 0, 0]]"
    by (simp add: pgs_key_def pgs_of_values_def)
  from inst h1 h2 h3 h4 show ?thesis by (simp only: m) blast
qed

subsection \<open>C2 and C6: player season aggregation\<close>

lemma upsert_establishes:
  assumes L1: "\<And>r x. key (upd r x) = key r"
    and phi: "\<And>r. phi (upd r x) = phi x"
  shows "\<forall>r \<in> set (insert_on_conflict key upd x t). key r = key x \<longrightarrow> phi r = phi x"
  by (auto simp: insert_on_conflict_def phi image_iff)

lemma upsert_preserves:
  assumes L1: "\<And>r x. key (upd r x) = key r"
    and ne: "key y \<noteq> k"
    and inv: "\<forall>r \<in> set t. key r = k \<longrightarrow> P r"
  shows "\<forall>r \<in> set (insert_on_conflict key upd y t). key r = k \<longrightarrow> P r"
  using ne inv by (auto simp: insert_on_conflict_def L1)

lemma fold_upsert_preserves:
  assumes L1: "\<And>r x. key (upd r x) = key r"
  shows "k \<notin> key ` set ys \<Longrightarrow> \<forall>r \<in> set t. key r = k \<longrightarrow> P r \<Longrightarrow>
         \<forall>r \<in> set (fold (insert_on_conflict key upd) ys t). key r = k \<longrightarrow> P r"
proof (induction ys arbitrary: t)
  case Nil
  then show ?case by simp
next
  case (Cons y ys)
  have ne: "key y \<noteq> k" using Cons.prems(1) by auto
  have "\<forall>r \<in> set (insert_on_conflict key upd y t). key r = k \<longrightarrow> P r"
    by (rule upsert_preserves[of key upd, OF L1 ne Cons.prems(2)])
  then show ?case using Cons.IH Cons.prems(1) by simp
qed

lemma fold_upsert_final:
  assumes L1: "\<And>r x. key (upd r x) = key r"
    and phi: "\<And>r x. phi (upd r x) = phi x"
  shows "distinct (map key xs) \<Longrightarrow> x \<in> set xs \<Longrightarrow>
         \<forall>r \<in> set (fold (insert_on_conflict key upd) xs t). key r = key x \<longrightarrow> phi r = phi x"
proof (induction xs arbitrary: t)
  case Nil
  then show ?case by simp
next
  case (Cons y ys)
  show ?case
  proof (cases "x = y")
    case True
    have est: "\<forall>r \<in> set (insert_on_conflict key upd x t). key r = key x \<longrightarrow> phi r = phi x"
      by (rule upsert_establishes[of key upd phi, OF L1 phi])
    have notin: "key x \<notin> key ` set ys" using Cons.prems(1) True by auto
    have "\<forall>r \<in> set (fold (insert_on_conflict key upd) ys (insert_on_conflict key upd x t)).
            key r = key x \<longrightarrow> phi r = phi x"
      by (rule fold_upsert_preserves[of key upd, OF L1 notin est])
    then show ?thesis using True by simp
  next
    case False
    then have "x \<in> set ys" using Cons.prems(2) by simp
    moreover have "distinct (map key ys)" using Cons.prems(1) by simp
    ultimately show ?thesis using Cons.IH by simp
  qed
qed

lemma fold_upsert_fresh:
  assumes L1: "\<And>r x. key (upd r x) = key r"
  shows "distinct (map key xs) \<Longrightarrow> x \<in> set xs \<Longrightarrow> key x \<notin> key ` set t \<Longrightarrow>
         \<forall>r \<in> set (fold (insert_on_conflict key upd) xs t). key r = key x \<longrightarrow> r = x"
proof (induction xs arbitrary: t)
  case Nil
  then show ?case by simp
next
  case (Cons y ys)
  show ?case
  proof (cases "x = y")
    case True
    have est: "\<forall>r \<in> set (insert_on_conflict key upd x t). key r = key x \<longrightarrow> r = x"
      using Cons.prems(3) by (auto simp: insert_on_conflict_def image_iff)
    have notin: "key x \<notin> key ` set ys" using Cons.prems(1) True by auto
    have "\<forall>r \<in> set (fold (insert_on_conflict key upd) ys (insert_on_conflict key upd x t)).
            key r = key x \<longrightarrow> r = x"
      by (rule fold_upsert_preserves[of key upd, OF L1 notin est])
    then show ?thesis using True by simp
  next
    case False
    then have xin: "x \<in> set ys" using Cons.prems(2) by simp
    have d: "distinct (map key ys)" using Cons.prems(1) by simp
    have "key y \<noteq> key x" using Cons.prems(1) xin by auto
    then have "key x \<notin> key ` set (insert_on_conflict key upd y t)"
      using insert_on_conflict_keys[of key upd y t, OF L1] Cons.prems(3) by auto
    then show ?thesis using Cons.IH[OF d xin] by simp
  qed
qed

lemma fold_upsert_key_present:
  assumes L1: "\<And>r x. key (upd r x) = key r"
  shows "x \<in> set xs \<Longrightarrow> key x \<in> key ` set (fold (insert_on_conflict key upd) xs t)"
  using fold_upsert_keys[of key upd xs t, OF L1] by auto

lemma player_groups_keys:
  "map pss_key (map (player_season_row_c season rows) (player_groups rows))
   = map (\<lambda>k. (fst k, season, snd k)) (player_groups rows)"
  "map pss_key (map (player_season_row season rows) (player_groups rows))
   = map (\<lambda>k. (fst k, season, snd k)) (player_groups rows)"
  by (simp_all add: pss_key_def player_season_row_c_def player_season_row_def Let_def)

lemma player_groups_distinct:
  "distinct (map (\<lambda>k. (fst k, season, snd k)) (player_groups rows))"
  by (simp add: distinct_map player_groups_def inj_on_def prod_eq_iff)

lemma group_in_player_groups:
  "group_rows k rows \<noteq> [] \<Longrightarrow> k \<in> set (player_groups rows)"
  by (auto simp: group_rows_def player_groups_def filter_empty_conv)


lemma calculatePlayerSeasonStats_group:
  assumes ne: "group_rows k (season_rows season games pgs) \<noteq> []"
  shows "(fst k, season, snd k) \<in> pss_key ` set (calculatePlayerSeasonStats season games pgs pss)"
    and "\<forall>row \<in> set (calculatePlayerSeasonStats season games pgs pss).
           pss_key row = (fst k, season, snd k) \<longrightarrow>
           phi_c row = phi_c (player_season_row_c season (season_rows season games pgs) k)"
proof -
  let ?rows = "season_rows season games pgs"
  let ?xs = "map (player_season_row_c season ?rows) (player_groups ?rows)"
  let ?x = "player_season_row_c season ?rows k"
  have kin: "k \<in> set (player_groups ?rows)" by (rule group_in_player_groups[OF ne])
  then have xin: "?x \<in> set ?xs" by simp
  have kx: "pss_key ?x = (fst k, season, snd k)"
    by (simp add: pss_key_def player_season_row_c_def Let_def)
  have L1: "\<And>r x. pss_key (player_season_update_c r x) = pss_key r"
    by (simp add: player_season_update_c_def pss_key_def)
  have phi: "\<And>r x. phi_c (player_season_update_c r x) = phi_c x"
    by (simp add: player_season_update_c_def phi_c_def)
  have d: "distinct (map pss_key ?xs)"
    unfolding player_groups_keys by (rule player_groups_distinct)
  have res: "calculatePlayerSeasonStats season games pgs pss
      = fold (insert_on_conflict pss_key player_season_update_c) ?xs pss"
    by (simp add: calculatePlayerSeasonStats_def Let_def)
  show "(fst k, season, snd k) \<in> pss_key ` set (calculatePlayerSeasonStats season games pgs pss)"
    unfolding res using fold_upsert_key_present[of pss_key player_season_update_c ?x ?xs pss, OF L1 xin] kx
    by simp
  show "\<forall>row \<in> set (calculatePlayerSeasonStats season games pgs pss).
           pss_key row = (fst k, season, snd k) \<longrightarrow> phi_c row = phi_c ?x"
    unfolding res
    using fold_upsert_final[of pss_key player_season_update_c phi_c ?xs ?x pss, OF L1 phi d xin] kx
    by simp
qed

lemma calculateSeasonStats_players_group:
  assumes ne: "group_rows k (season_rows season games pgs) \<noteq> []"
  shows "(fst k, season, snd k) \<in> pss_key ` set (calculateSeasonStats_players season games pgs pss)"
    and "\<forall>row \<in> set (calculateSeasonStats_players season games pgs pss).
           pss_key row = (fst k, season, snd k) \<longrightarrow>
           phi_p row = phi_p (player_season_row season (season_rows season games pgs) k)"
proof -
  let ?rows = "season_rows season games pgs"
  let ?xs = "map (player_season_row season ?rows) (player_groups ?rows)"
  let ?x = "player_season_row season ?rows k"
  have kin: "k \<in> set (player_groups ?rows)" by (rule group_in_player_groups[OF ne])
  then have xin: "?x \<in> set ?xs" by simp
  have kx: "pss_key ?x = (fst k, season, snd k)"
    by (simp add: pss_key_def player_season_row_def Let_def)
  have L1: "\<And>r x. pss_key (player_season_update r x) = pss_key r"
    by (simp add: player_season_update_def pss_key_def)
  have phi: "\<And>r x. phi_p (player_season_update r x) = phi_p x"
    by (simp add: player_season_update_def phi_p_def)
  have d: "distinct (map pss_key ?xs)"
    unfolding player_groups_keys by (rule player_groups_distinct)
  have res: "calculateSeasonStats_players season games pgs pss
      = fold (insert_on_conflict pss_key player_season_update) ?xs pss"
    by (simp add: calculateSeasonStats_players_def Let_def)
  show "(fst k, season, snd k) \<in> pss_key ` set (calculateSeasonStats_players season games pgs pss)"
    unfolding res using fold_upsert_key_present[of pss_key player_season_update ?x ?xs pss, OF L1 xin] kx
    by simp
  show "\<forall>row \<in> set (calculateSeasonStats_players season games pgs pss).
           pss_key row = (fst k, season, snd k) \<longrightarrow> phi_p row = phi_p ?x"
    unfolding res
    using fold_upsert_final[of pss_key player_season_update phi_p ?xs ?x pss, OF L1 phi d xin] kx
    by simp
qed

lemma traded_season_rows: "season_rows ''20232024'' traded_games traded_stats = traded_stats"
  by (simp add: season_rows_def traded_games_def traded_stats_def mk_game_def pgs_of_values_def)

lemma traded_groups: "player_groups traded_stats = [(8471214, 15), (8471214, 6)]"
  by (simp add: player_groups_def traded_stats_def pgs_of_values_def)

lemma traded_group_15:
  "group_rows (8471214, 15) traded_stats
   = [pgs_of_values 2023020001 8471214 15 [1, 0, 1, 0, 0, 0, 0, 0, 1110]]"
  by (simp add: group_rows_def traded_stats_def pgs_of_values_def)

lemma traded_group_6:
  "group_rows (8471214, 6) traded_stats
   = [pgs_of_values 2023020900 8471214 6 [2, 1, 3, 0, 2, 5, 0, 0, 1200]]"
  by (simp add: group_rows_def traded_stats_def pgs_of_values_def)

lemma traded_result:
  "map (\<lambda>r. (pss_player_id r, pss_season r, pss_team_id r, pss_games_played r, pss_goals r))
     (calculatePlayerSeasonStats ''20232024'' traded_games traded_stats [])
   = [(8471214, ''20232024'', 15, 1, 1), (8471214, ''20232024'', 6, 1, 2)]"
  by (simp add: calculatePlayerSeasonStats_def traded_season_rows traded_groups
      player_season_row_c_def traded_group_15 traded_group_6 insert_on_conflict_def
      pss_key_def pgs_of_values_def)


lemma sp_unwritten_step:
  "\<exists>n. map pss_shooting_percentage
         (insert_on_conflict pss_key player_season_update (player_season_row season rows k) t)
       = map pss_shooting_percentage t @ replicate n None"
proof (cases "pss_key (player_season_row season rows k) \<in> set (map pss_key t)")
  case True
  have "map pss_shooting_percentage
          (map (\<lambda>old. if pss_key old = pss_key (player_season_row season rows k)
                       then player_season_update old (player_season_row season rows k)
                       else old) t)
        = map pss_shooting_percentage t"
    by (induction t) (simp_all add: player_season_update_def)
  then have "map pss_shooting_percentage
         (insert_on_conflict pss_key player_season_update (player_season_row season rows k) t)
       = map pss_shooting_percentage t @ replicate 0 None"
    using True by (simp add: insert_on_conflict_def del: map_map)
  then show ?thesis by blast
next
  case False
  then have "map pss_shooting_percentage
         (insert_on_conflict pss_key player_season_update (player_season_row season rows k) t)
       = map pss_shooting_percentage t @ replicate 1 None"
    by (simp add: insert_on_conflict_def player_season_row_def Let_def)
  then show ?thesis by blast
qed

lemma sp_unwritten_fold:
  "\<exists>n. map pss_shooting_percentage
         (fold (insert_on_conflict pss_key player_season_update)
               (map (player_season_row season rows) ks) t)
       = map pss_shooting_percentage t @ replicate n None"
proof (induction ks arbitrary: t)
  case Nil
  have "map pss_shooting_percentage t = map pss_shooting_percentage t @ replicate 0 None"
    by simp
  then show ?case by (simp del: replicate_0) 
next
  case (Cons k ks)
  let ?t1 = "insert_on_conflict pss_key player_season_update (player_season_row season rows k) t"
  obtain m where m: "map pss_shooting_percentage ?t1
      = map pss_shooting_percentage t @ replicate m None"
    using sp_unwritten_step by blast
  obtain n where n: "map pss_shooting_percentage
         (fold (insert_on_conflict pss_key player_season_update)
               (map (player_season_row season rows) ks) ?t1)
       = map pss_shooting_percentage ?t1 @ replicate n None"
    using Cons.IH by blast
  have "map pss_shooting_percentage
         (fold (insert_on_conflict pss_key player_season_update)
               (map (player_season_row season rows) (k # ks)) t)
       = map pss_shooting_percentage t @ replicate (m + n) None"
    by (simp add: n m replicate_add)
  then show ?case by blast
qed

lemma sp_unwritten:
  "\<exists>n. map pss_shooting_percentage (calculateSeasonStats_players season games pgs pss)
       = map pss_shooting_percentage pss @ replicate n None"
  unfolding calculateSeasonStats_players_def Let_def by (rule sp_unwritten_fold)

text \<open>
  C2 as stated fails where a player has rows for two teams in the season: both statements
  group by player and team, so there are two season rows for the player and neither holds
  the sum over all of the player's rows. Here the player has one goal for team 15 and two
  for team 6; the rows written have one and two goals, and the sum is three.
\<close>

theorem C2_traded_player_has_two_rows:
  "map (\<lambda>r. (pss_player_id r, pss_season r, pss_team_id r, pss_games_played r, pss_goals r))
     (calculatePlayerSeasonStats ''20232024'' traded_games traded_stats [])
   = [(8471214, ''20232024'', 15, 1, 1), (8471214, ''20232024'', 6, 1, 2)]
   \<and> sum_list (map pgs_goals
        (filter (\<lambda>r. pgs_player_id r = 8471214)
                (season_rows ''20232024'' traded_games traded_stats))) = 3
   \<and> length (filter (\<lambda>r. pgs_player_id r = 8471214)
                (season_rows ''20232024'' traded_games traded_stats)) = 2"
proof -
  have "sum_list (map pgs_goals (filter (\<lambda>r. pgs_player_id r = 8471214) traded_stats)) = 3"
    by (simp add: traded_stats_def pgs_of_values_def)
  moreover have "length (filter (\<lambda>r. pgs_player_id r = 8471214) traded_stats) = 2"
    by (simp add: traded_stats_def pgs_of_values_def)
  ultimately show ?thesis using traded_result by (simp add: traded_season_rows)
qed

text \<open>
  C2, amended. For every season \<open>S\<close>, player \<open>P\<close> and team \<open>T\<close> with at least one
  \<^verbatim>\<open>player_game_stats\<close> row of \<open>P\<close> for \<open>T\<close> whose game belongs to \<open>S\<close>, after the
  player statement of the season aggregation has run there is a season row with the key
  \<open>(P, S, T)\<close>, and every row with that key has \<^verbatim>\<open>games_played\<close> equal to the number
  of those rows and \<^verbatim>\<open>goals\<close>, \<^verbatim>\<open>assists\<close> and \<^verbatim>\<open>points\<close> equal to their sums;
  with the statement of \<^verbatim>\<open>dataBackfillService.ts\<close> the shots and the penalty minutes
  equal their sums as well.
\<close>

theorem C2_season_row_sums_the_group:
  assumes "group_rows (P, T) (season_rows S games pgs) \<noteq> []"
  shows
    "(P, S, T) \<in> pss_key ` set (calculatePlayerSeasonStats S games pgs pss)
     \<and> (\<forall>row \<in> set (calculatePlayerSeasonStats S games pgs pss).
          pss_key row = (P, S, T) \<longrightarrow>
          pss_games_played row = int (length (group_rows (P, T) (season_rows S games pgs)))
          \<and> pss_goals row
              = sum_list (map pgs_goals (group_rows (P, T) (season_rows S games pgs)))
          \<and> pss_assists row
              = sum_list (map pgs_assists (group_rows (P, T) (season_rows S games pgs)))
          \<and> pss_points row
              = sum_list (map pgs_points (group_rows (P, T) (season_rows S games pgs)))
          \<and> pss_shots row
              = sum_list (map pgs_shots (group_rows (P, T) (season_rows S games pgs)))
          \<and> pss_penalty_minutes row
              = sum_list (map pgs_penalty_minutes
                            (group_rows (P, T) (season_rows S games pgs))))
     \<and> (P, S, T) \<in> pss_key ` set (calculateSeasonStats_players S games pgs pss)
     \<and> (\<forall>row \<in> set (calculateSeasonStats_players S games pgs pss).
          pss_key row = (P, S, T) \<longrightarrow>
          pss_games_played row = int (length (group_rows (P, T) (season_rows S games pgs)))
          \<and> pss_goals row
              = sum_list (map pgs_goals (group_rows (P, T) (season_rows S games pgs)))
          \<and> pss_assists row
              = sum_list (map pgs_assists (group_rows (P, T) (season_rows S games pgs)))
          \<and> pss_points row
              = sum_list (map pgs_points (group_rows (P, T) (season_rows S games pgs))))"
proof -
  note c = calculatePlayerSeasonStats_group[OF assms, of pss, simplified]
  note p = calculateSeasonStats_players_group[OF assms, of pss, simplified]
  have c2: "\<forall>row \<in> set (calculatePlayerSeasonStats S games pgs pss).
          pss_key row = (P, S, T) \<longrightarrow>
          pss_games_played row = int (length (group_rows (P, T) (season_rows S games pgs)))
          \<and> pss_goals row
              = sum_list (map pgs_goals (group_rows (P, T) (season_rows S games pgs)))
          \<and> pss_assists row
              = sum_list (map pgs_assists (group_rows (P, T) (season_rows S games pgs)))
          \<and> pss_points row
              = sum_list (map pgs_points (group_rows (P, T) (season_rows S games pgs)))
          \<and> pss_shots row
              = sum_list (map pgs_shots (group_rows (P, T) (season_rows S games pgs)))
          \<and> pss_penalty_minutes row
              = sum_list (map pgs_penalty_minutes
                            (group_rows (P, T) (season_rows S games pgs)))"
  proof (intro ballI impI)
    fix row assume "row \<in> set (calculatePlayerSeasonStats S games pgs pss)"
      and "pss_key row = (P, S, T)"
    then have "phi_c row = phi_c (player_season_row_c S (season_rows S games pgs) (P, T))"
      using c(2) by blast
    then show "pss_games_played row = int (length (group_rows (P, T) (season_rows S games pgs)))
          \<and> pss_goals row
              = sum_list (map pgs_goals (group_rows (P, T) (season_rows S games pgs)))
          \<and> pss_assists row
              = sum_list (map pgs_assists (group_rows (P, T) (season_rows S games pgs)))
          \<and> pss_points row
              = sum_list (map pgs_points (group_rows (P, T) (season_rows S games pgs)))
          \<and> pss_shots row
              = sum_list (map pgs_shots (group_rows (P, T) (season_rows S games pgs)))
          \<and> pss_penalty_minutes row
              = sum_list (map pgs_penalty_minutes
                            (group_rows (P, T) (season_rows S games pgs)))"
      by (simp add: phi_c_def player_season_row_c_def Let_def)
  qed
  have p2: "\<forall>row \<in> set (calculateSeasonStats_players S games pgs pss).
          pss_key row = (P, S, T) \<longrightarrow>
          pss_games_played row = int (length (group_rows (P, T) (season_rows S games pgs)))
          \<and> pss_goals row
              = sum_list (map pgs_goals (group_rows (P, T) (season_rows S games pgs)))
          \<and> pss_assists row
              = sum_list (map pgs_assists (group_rows (P, T) (season_rows S games pgs)))
          \<and> pss_points row
              = sum_list (map pgs_points (group_rows (P, T) (season_rows S games pgs)))"
  proof (intro ballI impI)
    fix row assume "row \<in> set (calculateSeasonStats_players S games pgs pss)"
      and "pss_key row = (P, S, T)"
    then have "phi_p row = phi_p (player_season_row S (season_rows S games pgs) (P, T))"
      using p(2) by blast
    then show "pss_games_played row = int (length (group_rows (P, T) (season_rows S games pgs)))
          \<and> pss_goals row
              = sum_list (map pgs_goals (group_rows (P, T) (season_rows S games pgs)))
          \<and> pss_assists row
              = sum_list (map pgs_assists (group_rows (P, T) (season_rows S games pgs)))
          \<and> pss_points row
              = sum_list (map pgs_points (group_rows (P, T) (season_rows S games pgs)))"
      by (simp add: phi_p_def player_season_row_def Let_def)
  qed
  from c(1) c2 p(1) p2 show ?thesis by blast
qed

theorem C2_season_row_sums_the_group_witness:
  "group_rows (8471214, 6) (season_rows ''20232024'' traded_games traded_stats) \<noteq> []
   \<and> (8471214, ''20232024'', 6)
       \<in> pss_key ` set (calculatePlayerSeasonStats ''20232024'' traded_games traded_stats [])
   \<and> (8471214, ''20232024'', 6)
       \<in> pss_key ` set (calculateSeasonStats_players ''20232024'' traded_games traded_stats [])
   \<and> sum_list (map pgs_goals
        (group_rows (8471214, 6) (season_rows ''20232024'' traded_games traded_stats))) = 2"
proof -
  have h: "group_rows (8471214, 6) (season_rows ''20232024'' traded_games traded_stats) \<noteq> []"
    by (simp add: traded_season_rows traded_group_6)
  have s: "sum_list (map pgs_goals
        (group_rows (8471214, 6) (season_rows ''20232024'' traded_games traded_stats))) = 2"
    by (simp add: traded_season_rows traded_group_6 pgs_of_values_def)
  from h s C2_season_row_sums_the_group[OF h, of "[]"] show ?thesis by blast
qed

lemma no_shot_season_rows: "season_rows ''20232024'' traded_games no_shot_stats = no_shot_stats"
  by (simp add: season_rows_def traded_games_def no_shot_stats_def mk_game_def pgs_of_values_def)

lemma no_shot_groups: "player_groups no_shot_stats = [(8471214, 15)]"
  by (simp add: player_groups_def no_shot_stats_def pgs_of_values_def)

lemma no_shot_group: "group_rows (8471214, 15) no_shot_stats = no_shot_stats"
  by (simp add: group_rows_def no_shot_stats_def pgs_of_values_def)

lemma no_shot_sums:
  "sum_list (map pgs_goals no_shot_stats) = 0" "sum_list (map pgs_shots no_shot_stats) = 0"
  "length no_shot_stats = 1" "no_shot_stats \<noteq> []"
  by (simp_all add: no_shot_stats_def pgs_of_values_def)

text \<open>
  C6 as stated fails on the production service: \<^verbatim>\<open>calculateSeasonStats\<close> names no
  \<^verbatim>\<open>shooting_percentage\<close> column, neither in the \<^verbatim>\<open>INSERT\<close> nor in the
  \<^verbatim>\<open>DO UPDATE SET\<close> list. For a player without a shot in the season, a new season row
  has no shooting percentage written, and a season row that was there before keeps the
  percentage it had (50 here), while its goals are overwritten with the new sum.
\<close>

theorem C6_production_writes_no_shooting_percentage:
  "map pss_shooting_percentage
     (calculateSeasonStats_players ''20232024'' traded_games no_shot_stats []) = [None]
   \<and> map (\<lambda>r. (pss_goals r, pss_shooting_percentage r))
       (calculateSeasonStats_players ''20232024'' traded_games no_shot_stats [stale_season_row])
     = [(0, Some 50)]
   \<and> sum_list (map pgs_shots
        (group_rows (8471214, 15) (season_rows ''20232024'' traded_games no_shot_stats))) = 0"
proof -
  have a: "map pss_shooting_percentage
     (calculateSeasonStats_players ''20232024'' traded_games no_shot_stats []) = [None]"
    unfolding calculateSeasonStats_players_def Let_def no_shot_season_rows no_shot_groups
    by (simp add: player_season_row_def Let_def insert_on_conflict_def)
  have b: "map (\<lambda>r. (pss_goals r, pss_shooting_percentage r))
       (calculateSeasonStats_players ''20232024'' traded_games no_shot_stats [stale_season_row])
     = [(0, Some 50)]"
    unfolding calculateSeasonStats_players_def Let_def no_shot_season_rows no_shot_groups
    by (simp add: player_season_row_def Let_def no_shot_group no_shot_sums
        insert_on_conflict_def pss_key_def stale_season_row_def player_season_update_def)
  have c: "sum_list (map pgs_shots
        (group_rows (8471214, 15) (season_rows ''20232024'' traded_games no_shot_stats))) = 0"
    by (simp add: no_shot_season_rows no_shot_group no_shot_sums)
  from a b c show ?thesis by simp
qed

text \<open>The division of the store at some operands, and how far it is from the quotient.\<close>

declare nbase_weight.simps [simp del] nbase_first_digit.simps [simp del]

lemma select_div_scale_1_3: "select_div_scale 1 3 = 20"
  by (simp add: select_div_scale_def nbase_weight.simps nbase_first_digit.simps)

lemma select_div_scale_10_3: "select_div_scale 10 3 = 16"
  by (simp add: select_div_scale_def nbase_weight.simps nbase_first_digit.simps)

lemma select_div_scale_20000_1: "select_div_scale 20000 1 = 12"
  by (simp add: select_div_scale_def nbase_weight.simps nbase_first_digit.simps)

lemma numeric_div_1_3: "numeric_div 1 3 * 100 = 3333333333333333333300 / 10 ^ 20"
  by (simp add: numeric_div_def select_div_scale_1_3)

lemma numeric_div_2_3: "numeric_div 2 3 = 66666666666666666667 / 10 ^ 20"
  by (simp add: numeric_div_def select_div_scale_def nbase_weight.simps nbase_first_digit.simps)

lemma numeric_div_1_2: "numeric_div 1 2 * 100 = 50"
  by (simp add: numeric_div_def select_div_scale_def nbase_weight.simps nbase_first_digit.simps)

lemma round_div:
  fixes A B :: int
  assumes B: "0 < B"
  shows "\<bar>(of_int ((2 * A + B) div (2 * B)) :: rat) - of_int A / of_int B\<bar> \<le> 1 / 2"
proof -
  let ?x = "(of_int (2 * A + B) :: rat) / of_int (2 * B)"
  have q: "(2 * A + B) div (2 * B) = \<lfloor>?x\<rfloor>"
    by (rule floor_divide_of_int_eq[symmetric])
  have x: "?x = of_int A / of_int B + 1 / 2"
    using B by (simp add: field_simps)
  have "of_int \<lfloor>?x\<rfloor> \<le> ?x" "?x - 1 < of_int \<lfloor>?x\<rfloor>" by linarith+
  then show ?thesis unfolding q x by linarith
qed

lemma numeric_div_close:
  assumes b: "0 < b"
  shows "\<bar>numeric_div a b - of_int a / of_int b\<bar> \<le> 1 / (2 * 10 ^ select_div_scale a b)"
proof -
  let ?r = "select_div_scale a b"
  let ?q = "(2 * (\<bar>a\<bar> * 10 ^ ?r) + b) div (2 * b)"
  have p: "(0::rat) < 10 ^ ?r" by simp
  have nd: "numeric_div a b = of_int (sgn a) * (of_int ?q / 10 ^ ?r)"
    using b by (simp add: numeric_div_def Let_def mult.assoc)
  have ab: "(of_int a :: rat) / of_int b
            = of_int (sgn a) * ((of_int (\<bar>a\<bar> * 10 ^ ?r) / of_int b) / 10 ^ ?r)"
  proof -
    have "(of_int a :: rat) = of_int (sgn a) * of_int \<bar>a\<bar>"
      by (metis of_int_mult sgn_mult_abs)
    then show ?thesis by simp
  qed
  have "numeric_div a b - of_int a / of_int b
        = of_int (sgn a) * ((of_int ?q - of_int (\<bar>a\<bar> * 10 ^ ?r) / of_int b) / 10 ^ ?r)"
    unfolding nd ab by (simp add: field_simps)
  then have "\<bar>numeric_div a b - of_int a / of_int b\<bar>
        = \<bar>(of_int (sgn a) :: rat)\<bar>
          * (\<bar>of_int ?q - of_int (\<bar>a\<bar> * 10 ^ ?r) / of_int b\<bar> / 10 ^ ?r)"
    by (simp add: abs_mult)
  also have "\<dots> \<le> 1 * ((1 / 2) / 10 ^ ?r)"
  proof (rule mult_mono)
    show "\<bar>(of_int (sgn a) :: rat)\<bar> \<le> 1" by (simp add: sgn_if)
    show "\<bar>(of_int ?q :: rat) - of_int (\<bar>a\<bar> * 10 ^ ?r) / of_int b\<bar> / 10 ^ ?r
          \<le> (1 / 2) / 10 ^ ?r"
    proof -
      have h: "\<bar>(of_int ?q :: rat) - of_int (\<bar>a\<bar> * 10 ^ ?r) / of_int b\<bar> \<le> 1 / 2"
        by (rule round_div[OF b])
      show ?thesis by (rule divide_right_mono[OF h]) simp
    qed
  qed simp_all
  finally show ?thesis by simp
qed

lemma numeric_div_exact:
  assumes b: "0 < b" and d: "b dvd a * 10 ^ select_div_scale a b"
  shows "numeric_div a b = of_int a / of_int b"
proof -
  let ?r = "select_div_scale a b"
  have "\<bar>a * 10 ^ ?r\<bar> = \<bar>a\<bar> * 10 ^ ?r" by (simp add: abs_mult)
  then have "b dvd \<bar>a\<bar> * 10 ^ ?r" using d by (metis dvd_abs_iff)
  then obtain k where k: "\<bar>a\<bar> * 10 ^ ?r = b * k" by (auto simp: dvd_def)
  have "(2 * (\<bar>a\<bar> * 10 ^ ?r) + b) div (2 * b) = (b * (2 * k + 1)) div (b * 2)"
    unfolding k by (simp add: algebra_simps)
  also have "\<dots> = (2 * k + 1) div 2" using b by simp
  also have "\<dots> = k" by simp
  finally have q: "(2 * \<bar>a\<bar> * 10 ^ ?r + \<bar>b\<bar>) div (2 * \<bar>b\<bar>) = k"
    using b by (simp add: mult.assoc)
  have "(of_int k :: rat) = of_int (\<bar>a\<bar> * 10 ^ ?r) / of_int b"
    using b k by (simp add: field_simps flip: of_int_mult)
  then have kk: "(of_int k :: rat) / 10 ^ ?r = of_int \<bar>a\<bar> / of_int b"
    by simp
  have "numeric_div a b = of_int (sgn a) * (of_int k / 10 ^ ?r)"
    using b unfolding numeric_div_def Let_def q by simp
  also have "\<dots> = of_int (sgn a) * of_int \<bar>a\<bar> / of_int b" unfolding kk by simp
  also have "\<dots> = of_int a / of_int b"
    by (metis of_int_mult sgn_mult_abs)
  finally show ?thesis .
qed


lemma nbase_weight_mono: "m \<le> n \<Longrightarrow> nbase_weight m \<le> nbase_weight n"
proof (induction n arbitrary: m rule: nbase_weight.induct)
  case (1 n)
  show ?case
  proof (cases "n < 10000")
    case True
    then have "m < 10000" using 1(2) by simp
    then show ?thesis using True by (simp add: nbase_weight.simps)
  next
    case False
    show ?thesis
    proof (cases "m < 10000")
      case True
      then show ?thesis by (simp add: nbase_weight.simps)
    next
      case m: False
      have "m div 10000 \<le> n div 10000" using 1(2) by (rule div_le_mono)
      then have "nbase_weight (m div 10000) \<le> nbase_weight (n div 10000)"
        using 1(1)[OF False] by simp
      then show ?thesis using False m
        by (simp add: nbase_weight.simps[of m] nbase_weight.simps[of n])
    qed
  qed
qed

lemma nbase_first_digit_mono:
  "m \<le> n \<Longrightarrow> nbase_weight m = nbase_weight n \<Longrightarrow>
   nbase_first_digit m \<le> nbase_first_digit n"
proof (induction n arbitrary: m rule: nbase_weight.induct)
  case (1 n)
  show ?case
  proof (cases "n < 10000")
    case True
    then have "m < 10000" using 1(2) by simp
    then show ?thesis using True 1(2) by (simp add: nbase_first_digit.simps)
  next
    case False
    have m: "\<not> m < 10000"
    proof
      assume "m < 10000"
      then have "nbase_weight m = 0" by (simp add: nbase_weight.simps)
      moreover have "nbase_weight n \<noteq> 0" using False by (simp add: nbase_weight.simps[of n])
      ultimately show False using 1(3) by simp
    qed
    have le: "m div 10000 \<le> n div 10000" using 1(2) by (rule div_le_mono)
    have w: "nbase_weight (m div 10000) = nbase_weight (n div 10000)"
      using 1(3) False m by (simp add: nbase_weight.simps[of m] nbase_weight.simps[of n])
    have "nbase_first_digit (m div 10000) \<le> nbase_first_digit (n div 10000)"
      using 1(1)[OF False le w] .
    then show ?thesis using False m
      by (simp add: nbase_first_digit.simps[of m] nbase_first_digit.simps[of n])
  qed
qed

lemma select_div_scale_at_least:
  assumes "0 \<le> a" and "a \<le> b"
  shows "20 \<le> select_div_scale a b"
proof -
  have le: "nat \<bar>a\<bar> \<le> nat \<bar>b\<bar>" using assms by simp
  have w: "nbase_weight (nat \<bar>a\<bar>) \<le> nbase_weight (nat \<bar>b\<bar>)"
    by (rule nbase_weight_mono[OF le])
  define q where
    "q = int (nbase_weight (nat \<bar>a\<bar>)) - int (nbase_weight (nat \<bar>b\<bar>))
         - (if nbase_first_digit (nat \<bar>a\<bar>) \<le> nbase_first_digit (nat \<bar>b\<bar>) then 1 else 0)"
  have q: "q \<le> - 1"
  proof (cases "nbase_weight (nat \<bar>a\<bar>) = nbase_weight (nat \<bar>b\<bar>)")
    case True
    then show ?thesis using nbase_first_digit_mono[OF le True] by (simp add: q_def)
  next
    case False
    then show ?thesis using w by (simp add: q_def)
  qed
  have "select_div_scale a b = nat (min (max (16 - q * 4) 0) 1000)"
    unfolding select_div_scale_def Let_def q_def ..
  moreover have "20 \<le> min (max (16 - q * 4) 0) 1000" using q by simp
  ultimately show ?thesis by linarith
qed

lemma one_of_three_season_rows:
  "season_rows ''20232024'' traded_games one_of_three_stats = one_of_three_stats"
  by (simp add: season_rows_def traded_games_def one_of_three_stats_def mk_game_def
      pgs_of_values_def)

lemma one_of_three_groups: "player_groups one_of_three_stats = [(8471214, 15)]"
  by (simp add: player_groups_def one_of_three_stats_def pgs_of_values_def)

lemma one_of_three_group: "group_rows (8471214, 15) one_of_three_stats = one_of_three_stats"
  by (simp add: group_rows_def one_of_three_stats_def pgs_of_values_def)

lemma one_of_three_sums:
  "sum_list (map pgs_goals one_of_three_stats) = 1"
  "sum_list (map pgs_shots one_of_three_stats) = 3"
  "length one_of_three_stats = 1" "one_of_three_stats \<noteq> []"
  by (simp_all add: one_of_three_stats_def pgs_of_values_def)

text \<open>
  C6, amended. In \<^verbatim>\<open>calculatePlayerSeasonStats\<close> of \<^verbatim>\<open>dataBackfillService.ts\<close>, for
  every season, player and team with at least one per-game row in the season, every
  season row with that key has, after the statement, a shooting percentage that is not
  null: 0 when the shots of the group do not sum to more than 0, and otherwise 100 times
  the quotient of the goals by the shots as the store's \<^verbatim>\<open>NUMERIC\<close> division rounds
  it. That value is within \<open>50 / 10 ^ scale\<close> of goals/shots\<times>100, where the scale of the
  division is at least 20 when the goals are not negative and not more than the shots,
  and it is goals/shots\<times>100 when the quotient has no more decimal places than the scale.
  The player statement of the production \<^verbatim>\<open>calculateSeasonStats\<close> writes no shooting
  percentage: the rows that were there keep theirs and new rows have none.
\<close>

theorem C6_shooting_percentage:
  assumes "group_rows (P, T) (season_rows S games pgs) \<noteq> []"
  shows
    "let goals = sum_list (map pgs_goals (group_rows (P, T) (season_rows S games pgs)));
         shots = sum_list (map pgs_shots (group_rows (P, T) (season_rows S games pgs)))
     in (P, S, T) \<in> pss_key ` set (calculatePlayerSeasonStats S games pgs pss)
      \<and> (\<forall>row \<in> set (calculatePlayerSeasonStats S games pgs pss).
           pss_key row = (P, S, T) \<longrightarrow>
           pss_shooting_percentage row
           = Some (if shots > 0 then numeric_div goals shots * 100 else 0))
      \<and> (shots > 0 \<longrightarrow>
           \<bar>numeric_div goals shots * 100 - of_int goals / of_int shots * 100\<bar>
           \<le> 50 / 10 ^ select_div_scale goals shots)
      \<and> (shots > 0 \<and> 0 \<le> goals \<and> goals \<le> shots \<longrightarrow> 20 \<le> select_div_scale goals shots)
      \<and> (shots > 0 \<and> shots dvd goals * 10 ^ select_div_scale goals shots \<longrightarrow>
           numeric_div goals shots * 100 = of_int goals / of_int shots * 100)
      \<and> (\<exists>n. map pss_shooting_percentage (calculateSeasonStats_players S games pgs pss)
              = map pss_shooting_percentage pss @ replicate n None)"
proof -
  define goals where
    "goals = sum_list (map pgs_goals (group_rows (P, T) (season_rows S games pgs)))"
  define shots where
    "shots = sum_list (map pgs_shots (group_rows (P, T) (season_rows S games pgs)))"
  note c = calculatePlayerSeasonStats_group[OF assms, of pss, simplified]
  have c2: "\<forall>row \<in> set (calculatePlayerSeasonStats S games pgs pss).
          pss_key row = (P, S, T) \<longrightarrow>
          pss_shooting_percentage row
          = Some (if shots > 0 then numeric_div goals shots * 100 else 0)"
  proof (intro ballI impI)
    fix row assume "row \<in> set (calculatePlayerSeasonStats S games pgs pss)"
      and "pss_key row = (P, S, T)"
    then have "phi_c row = phi_c (player_season_row_c S (season_rows S games pgs) (P, T))"
      using c(2) by blast
    then show "pss_shooting_percentage row
          = Some (if shots > 0 then numeric_div goals shots * 100 else 0)"
      by (simp add: phi_c_def player_season_row_c_def Let_def goals_def shots_def)
  qed
  have close: "shots > 0 \<longrightarrow>
           \<bar>numeric_div goals shots * 100 - of_int goals / of_int shots * 100\<bar>
           \<le> 50 / 10 ^ select_div_scale goals shots"
  proof
    assume pos: "shots > 0"
    have "numeric_div goals shots * 100 - of_int goals / of_int shots * 100
          = (numeric_div goals shots - of_int goals / of_int shots) * 100"
      by (simp only: left_diff_distrib)
    then have "\<bar>numeric_div goals shots * 100 - of_int goals / of_int shots * 100\<bar>
          = \<bar>numeric_div goals shots - of_int goals / of_int shots\<bar> * 100"
      by (simp only: abs_mult)
    also have "\<dots> \<le> 1 / (2 * 10 ^ select_div_scale goals shots) * 100"
      by (rule mult_right_mono[OF numeric_div_close[OF pos]]) simp
    finally show "\<bar>numeric_div goals shots * 100 - of_int goals / of_int shots * 100\<bar>
           \<le> 50 / 10 ^ select_div_scale goals shots"
      by simp
  qed
  have scale: "shots > 0 \<and> 0 \<le> goals \<and> goals \<le> shots \<longrightarrow> 20 \<le> select_div_scale goals shots"
    using select_div_scale_at_least by blast
  have exact: "shots > 0 \<and> shots dvd goals * 10 ^ select_div_scale goals shots \<longrightarrow>
           numeric_div goals shots * 100 = of_int goals / of_int shots * 100"
    using numeric_div_exact by simp
  from c(1) c2 close scale exact sp_unwritten[of S games pgs pss]
  show ?thesis unfolding Let_def goals_def shots_def by blast
qed

theorem C6_shooting_percentage_witness:
  "group_rows (8471214, 15) (season_rows ''20232024'' traded_games no_shot_stats) \<noteq> []
   \<and> map pss_shooting_percentage
       (calculatePlayerSeasonStats ''20232024'' traded_games no_shot_stats [stale_season_row])
     = [Some 0]
   \<and> group_rows (8471214, 15) (season_rows ''20232024'' traded_games one_of_three_stats) \<noteq> []
   \<and> (8471214, ''20232024'', 15)
       \<in> pss_key ` set (calculatePlayerSeasonStats ''20232024'' traded_games one_of_three_stats
                          [stale_season_row])
   \<and> map pss_shooting_percentage
       (calculatePlayerSeasonStats ''20232024'' traded_games one_of_three_stats
          [stale_season_row])
     = [Some (3333333333333333333300 / 10 ^ 20)]
   \<and> \<bar>numeric_div 1 3 * 100 - 1 / 3 * 100\<bar> \<le> 50 / 10 ^ 20"
proof -
  have h0: "group_rows (8471214, 15) (season_rows ''20232024'' traded_games no_shot_stats) \<noteq> []"
    by (simp add: no_shot_season_rows no_shot_group no_shot_sums)
  have e0: "map pss_shooting_percentage
       (calculatePlayerSeasonStats ''20232024'' traded_games no_shot_stats [stale_season_row])
     = [Some 0]"
    unfolding calculatePlayerSeasonStats_def Let_def no_shot_season_rows no_shot_groups
    by (simp add: player_season_row_c_def Let_def no_shot_group no_shot_sums
        insert_on_conflict_def pss_key_def stale_season_row_def player_season_update_c_def)
  have h: "group_rows (8471214, 15) (season_rows ''20232024'' traded_games one_of_three_stats)
           \<noteq> []"
    by (simp add: one_of_three_season_rows one_of_three_group one_of_three_sums)
  have e: "map pss_shooting_percentage
       (calculatePlayerSeasonStats ''20232024'' traded_games one_of_three_stats
          [stale_season_row])
     = [Some (3333333333333333333300 / 10 ^ 20)]"
    unfolding calculatePlayerSeasonStats_def Let_def one_of_three_season_rows
      one_of_three_groups
    by (simp add: player_season_row_c_def Let_def one_of_three_group one_of_three_sums
        insert_on_conflict_def pss_key_def stale_season_row_def player_season_update_c_def
        numeric_div_1_3)
  note inst = C6_shooting_percentage[OF h, of "[stale_season_row]", unfolded Let_def
      one_of_three_season_rows one_of_three_group one_of_three_sums]
  have k: "(8471214, ''20232024'', 15)
       \<in> pss_key ` set (calculatePlayerSeasonStats ''20232024'' traded_games one_of_three_stats
                          [stale_season_row])"
    using inst by blast
  have b: "\<bar>numeric_div 1 3 * 100 - 1 / 3 * 100\<bar> \<le> 50 / 10 ^ 20"
    using inst by (simp add: select_div_scale_1_3)
  from h0 e0 h e k b show ?thesis by blast
qed

subsection \<open>C7: team season aggregation\<close>

lemma digit_char:
  assumes "d < 10"
  shows "digit_of 10 (''0123456789'' ! d) = Some d" and "''0123456789'' ! d \<in> set ''0123456789''"
proof -
  from assms have "d \<in> {0, 1, 2, 3, 4, 5, 6, 7, 8, 9}" by auto
  then show "digit_of 10 (''0123456789'' ! d) = Some d"
    by (auto simp: digit_of_def)
  from assms show "''0123456789'' ! d \<in> set ''0123456789''"
    by (intro nth_mem) simp
qed

declare digits_of.simps [simp del]

lemma digits_of_set: "set (digits_of n) \<subseteq> set ''0123456789''"
proof (induction n rule: digits_of.induct)
  case (1 n)
  show ?case
  proof (cases "n < 10")
    case True
    then show ?thesis using digit_char(2)[of n] by (subst digits_of.simps) simp
  next
    case False
    have "n mod 10 < 10" by simp
    then have "''0123456789'' ! (n mod 10) \<in> set ''0123456789''" by (rule digit_char(2))
    then show ?thesis using False 1 by (subst digits_of.simps) simp
  qed
qed

lemma digits_of_nonempty: "digits_of n \<noteq> []"
  by (subst digits_of.simps) simp

lemma parse_digits_of:
  "parse_digits 10 (digits_of n @ rest) None = parse_digits 10 rest (Some n)"
proof (induction n arbitrary: rest rule: digits_of.induct)
  case (1 n)
  show ?case
  proof (cases "n < 10")
    case True
    then show ?thesis using digit_char(1)[of n] by (subst digits_of.simps) simp
  next
    case False
    have m: "n mod 10 < 10" by simp
    have "parse_digits 10 (digits_of n @ rest) None
        = parse_digits 10 (digits_of (n div 10) @ (''0123456789'' ! (n mod 10)) # rest) None"
      using False by (subst digits_of.simps) simp
    also have "\<dots> = parse_digits 10 ((''0123456789'' ! (n mod 10)) # rest) (Some (n div 10))"
      using 1[OF False] by simp
    also have "\<dots> = parse_digits 10 rest (Some (n div 10 * 10 + n mod 10))"
      using digit_char(1)[OF m] by simp
    finally show ?thesis by simp
  qed
qed

lemma parseInt_digits: "parseInt (digits_of n) = JNum (int n)"
proof -
  let ?s = "digits_of n"
  have sub: "set ?s \<subseteq> set ''0123456789''" by (rule digits_of_set)
  have ne: "?s \<noteq> []" by (rule digits_of_nonempty)
  have "hd ?s \<in> set ?s" using ne by simp
  then have "\<not> is_ws (hd ?s)" using sub by (auto simp: is_ws_def)
  then have dw: "dropWhile is_ws ?s = ?s" by (cases ?s) simp_all
  have t1: "take 1 ?s \<noteq> ''-''" "take 1 ?s \<noteq> ''+''"
    using sub ne by (cases ?s; auto)+
  have t2: "take 2 ?s \<noteq> ''0x''" "take 2 ?s \<noteq> ''0X''"
  proof -
    have "set (take 2 ?s) \<subseteq> set ''0123456789''" using sub set_take_subset by fastforce
    then show "take 2 ?s \<noteq> ''0x''" "take 2 ?s \<noteq> ''0X''" by auto
  qed
  have p: "parse_digits 10 ?s None = Some n" using parse_digits_of[of n "[]"] by simp
  have "parseInt ?s = (case parse_digits 10 ?s None of None \<Rightarrow> JNaN | Some m \<Rightarrow> JNum (int m))"
    unfolding parseInt_def Let_def dw by (simp only: t1 t2 if_False HOL.simp_thms)
  then show ?thesis by (simp add: p)
qed

lemma parseInt_show_int: "parseInt (show_int i) = JNum i"
proof (cases "i < 0")
  case False
  then show ?thesis by (simp add: show_int_def parseInt_digits)
next
  case True
  let ?s = "digits_of (nat (- i))"
  have sub: "set ?s \<subseteq> set ''0123456789''" by (rule digits_of_set)
  have t2: "take 2 ?s \<noteq> ''0x''" "take 2 ?s \<noteq> ''0X''"
  proof -
    have "set (take 2 ?s) \<subseteq> set ''0123456789''" using sub set_take_subset by fastforce
    then show "take 2 ?s \<noteq> ''0x''" "take 2 ?s \<noteq> ''0X''" by auto
  qed
  have p: "parse_digits 10 ?s None = Some (nat (- i))"
    using parse_digits_of[of "nat (- i)" "[]"] by simp
  have dw: "dropWhile is_ws (CHR ''-'' # ?s) = CHR ''-'' # ?s"
    by (simp add: is_ws_def)
  have tk: "take 1 (CHR ''-'' # ?s) = ''-''" "drop 1 (CHR ''-'' # ?s) = ?s"
    by simp_all
  have "parseInt (CHR ''-'' # ?s)
      = (case parse_digits 10 ?s None of None \<Rightarrow> JNaN | Some m \<Rightarrow> JNum (- int m))"
    unfolding parseInt_def Let_def dw tk by (simp only: t2 if_False if_True HOL.simp_thms)
  then have "parseInt (CHR ''-'' # ?s) = JNum (- int (nat (- i)))"
    by (simp add: p)
  then show ?thesis using True by (simp add: show_int_def)
qed

lemma parseInt_of_num: "parseInt_of (JNum n) = JNum n"
  by (simp add: parseInt_of_def parseInt_show_int)


lemma fold_upsert_final_same:
  assumes L1: "\<And>r x. key (upd r x) = key r"
    and phi: "\<And>r x. phi (upd r x) = phi x"
  shows "x \<in> set xs \<Longrightarrow> \<forall>y \<in> set xs. key y = key x \<longrightarrow> phi y = phi x \<Longrightarrow>
         \<forall>r \<in> set (fold (insert_on_conflict key upd) xs t). key r = key x \<longrightarrow> phi r = phi x"
proof (induction xs arbitrary: t x)
  case Nil
  then show ?case by simp
next
  case (Cons y ys)
  show ?case
  proof (cases "\<exists>z \<in> set ys. key z = key x")
    case True
    then obtain z where z: "z \<in> set ys" "key z = key x" by blast
    then have pz: "phi z = phi x" using Cons.prems(2) by simp
    have "\<forall>y \<in> set ys. key y = key z \<longrightarrow> phi y = phi z"
      using Cons.prems(2) z(2) pz by simp
    then have "\<forall>r \<in> set (fold (insert_on_conflict key upd) ys (insert_on_conflict key upd y t)).
        key r = key z \<longrightarrow> phi r = phi z"
      using Cons.IH[OF z(1)] by blast
    then show ?thesis using z(2) pz by simp
  next
    case False
    then have xy: "x = y" using Cons.prems(1) by auto
    have est: "\<forall>r \<in> set (insert_on_conflict key upd x t). key r = key x \<longrightarrow> phi r = phi x"
      by (rule upsert_establishes[of key upd phi, OF L1 phi])
    have notin: "key x \<notin> key ` set ys" using False by auto
    have "\<forall>r \<in> set (fold (insert_on_conflict key upd) ys (insert_on_conflict key upd x t)).
            key r = key x \<longrightarrow> phi r = phi x"
      by (rule fold_upsert_preserves[of key upd, OF L1 notin est])
    then show ?thesis using xy by simp
  qed
qed

lemma for_each_total:
  assumes "\<And>x t. f x t = (None, g x t)"
  shows "for_each f xs t = (None, fold g xs t)"
  by (induction xs arbitrary: t) (simp_all add: assms)

lemma fold_conditional:
  "fold (\<lambda>x t. if c x then h (row x) t else t) xs t = fold h (map row (filter c xs)) t"
  by (induction xs arbitrary: t) simp_all

lemma digit_chars:
  assumes "c \<in> set ''0123456789''"
  shows "digit_of 10 c \<noteq> None" and "\<not> is_ws c" and "c \<noteq> CHR ''-''" and "c \<noteq> CHR ''+''"
    and "c \<noteq> CHR ''x''" and "c \<noteq> CHR ''X''"
  using assms by (auto simp: digit_of_def is_ws_def)

lemma rev_dropWhile_ws:
  assumes "s \<noteq> []" and "\<not> is_ws (hd s)" and "\<not> is_ws (last s)"
  shows "rev (dropWhile is_ws (rev (dropWhile is_ws s))) = s"
proof -
  have a: "dropWhile is_ws s = s" using assms(1,2) by (cases s) simp_all
  have "s = butlast s @ [last s]" using assms(1) by simp
  then have "rev s = last s # rev (butlast s)" by (metis rev.simps(2) rev_rev_ident rev_swap)
  then have b: "dropWhile is_ws (rev s) = rev s"
    using assms(3) by (metis dropWhile.simps(2))
  show ?thesis by (simp add: a b)
qed

lemma parse_digits_some:
  "list_all (\<lambda>c. digit_of r c \<noteq> None) u \<Longrightarrow> u \<noteq> [] \<or> acc \<noteq> None \<Longrightarrow>
   parse_digits r u acc \<noteq> None"
proof (induction u arbitrary: acc)
  case Nil
  then show ?case by simp
next
  case (Cons c cs)
  from Cons.prems(1) obtain d where d: "digit_of r c = Some d" by auto
  have la: "list_all (\<lambda>c. digit_of r c \<noteq> None) cs" using Cons.prems(1) by simp
  have "parse_digits r cs (Some ((case acc of None \<Rightarrow> 0 | Some a \<Rightarrow> a) * r + d)) \<noteq> None"
    by (rule Cons.IH[OF la]) simp
  then show ?case by (simp add: d)
qed

lemma string_to_number_digits:
  assumes ne: "s \<noteq> []" and sub: "set s \<subseteq> set ''0123456789''"
  shows "string_to_number s = map_option int (parse_digits 10 s None)"
proof -
  have "hd s \<in> set s" "last s \<in> set s" using ne by simp_all
  then have h: "hd s \<in> set ''0123456789''" "last s \<in> set ''0123456789''"
    using sub by blast+
  have t: "rev (dropWhile is_ws (rev (dropWhile is_ws s))) = s"
    by (rule rev_dropWhile_ws[OF ne digit_chars(2)[OF h(1)] digit_chars(2)[OF h(2)]])
  have t2: "take 2 s \<noteq> ''0x''" "take 2 s \<noteq> ''0X''"
  proof -
    have "set (take 2 s) \<subseteq> set ''0123456789''" using sub set_take_subset by fastforce
    then show "take 2 s \<noteq> ''0x''" "take 2 s \<noteq> ''0X''" by auto
  qed
  have t1: "take 1 s \<noteq> ''-''" "take 1 s \<noteq> ''+''"
    using sub ne by (cases s; auto)+
  have la: "list_all (\<lambda>c. digit_of 10 c \<noteq> None) s"
    using sub digit_chars(1) by (auto simp: list_all_iff)
  have "string_to_number s
        = map_option (\<lambda>n. int n) (parse_digits 10 s None)"
    unfolding string_to_number_def Let_def t
    by (simp only: t1 t2 ne la if_False if_True HOL.simp_thms)
  then show ?thesis by simp
qed

lemma string_to_number_show_int: "string_to_number (show_int n) = Some n"
proof (cases "n < 0")
  case False
  have "string_to_number (digits_of (nat n))
        = map_option int (parse_digits 10 (digits_of (nat n)) None)"
    by (rule string_to_number_digits[OF digits_of_nonempty digits_of_set])
  also have "\<dots> = Some (int (nat n))" using parse_digits_of[of "nat n" "[]"] by simp
  finally show ?thesis using False by (simp add: show_int_def)
next
  case True
  let ?d = "digits_of (nat (- n))"
  let ?s = "CHR ''-'' # ?d"
  have sub: "set ?d \<subseteq> set ''0123456789''" by (rule digits_of_set)
  have ne: "?d \<noteq> []" by (rule digits_of_nonempty)
  have "last ?s = last ?d" using ne by simp
  moreover have "last ?d \<in> set ?d" using ne by simp
  then have "last ?d \<in> set ''0123456789''" using sub by blast
  moreover note this
  ultimately have l: "\<not> is_ws (last ?s)" using digit_chars(2) by metis
  have hd: "\<not> is_ws (hd ?s)" by (simp add: is_ws_def)
  have t: "rev (dropWhile is_ws (rev (dropWhile is_ws ?s))) = ?s"
    by (rule rev_dropWhile_ws[OF _ hd l]) simp
  have t2: "take 2 ?s \<noteq> ''0x''" "take 2 ?s \<noteq> ''0X''" by simp_all
  have tk: "take 1 ?s = ''-''" "drop 1 ?s = ?d" by simp_all
  have la: "list_all (\<lambda>c. digit_of 10 c \<noteq> None) ?d"
    using sub digit_chars(1) by (auto simp: list_all_iff)
  have p: "parse_digits 10 ?d None = Some (nat (- n))"
    using parse_digits_of[of "nat (- n)" "[]"] by simp
  have nes: "?s \<noteq> []" by simp
  have "string_to_number ?s = map_option (\<lambda>m. - int m) (parse_digits 10 ?d None)"
    unfolding string_to_number_def Let_def t tk
    by (simp only: t2 ne nes la if_False if_True HOL.simp_thms)
  then have "string_to_number ?s = Some (- int (nat (- n)))" by (simp add: p)
  then show ?thesis using True by (simp add: show_int_def)
qed

lemma show_int_nonempty: "show_int n \<noteq> []"
  by (simp add: show_int_def digits_of_nonempty)

lemma lenient_column_show_int: "lenient_column (JStr (show_int n)) = Some n"
  by (simp add: show_int_nonempty string_to_number_show_int)

lemma digits_of_all: "list_all (\<lambda>c. digit_of 10 c \<noteq> None) (digits_of n)"
  using digits_of_set[of n] digit_chars(1) by (auto simp: list_all_iff)

lemma lenient_column_digits:
  assumes "0 \<le> a" and "0 \<le> b"
  shows "\<exists>p. lenient_column (JStr (show_int a @ show_int b)) = Some p"
proof -
  let ?s = "digits_of (nat a) @ digits_of (nat b)"
  have ne: "?s \<noteq> []" by (simp add: digits_of_nonempty)
  have sub: "set ?s \<subseteq> set ''0123456789''" using digits_of_set by simp
  have la: "list_all (\<lambda>c. digit_of 10 c \<noteq> None) ?s"
    by (simp only: list_all_append digits_of_all HOL.simp_thms)
  have "parse_digits 10 ?s None \<noteq> None" using parse_digits_some[OF la, of None] ne by blast
  then obtain m where "parse_digits 10 ?s None = Some m" by blast
  then have "string_to_number ?s = Some (int m)"
    using string_to_number_digits[OF ne sub] by simp
  then show ?thesis using assms ne by (simp add: show_int_def)
qed

lemma count_where_nonneg: "0 \<le> count_where c rows"
  unfolding count_where_def by (induction rows) simp_all

text \<open>What the two encodings and a store that reads them have in common.\<close>

lemma driver_facts:
  assumes enc: "enc = string_enc \<or> enc = JNum"
    and col: "\<And>v n. lenient_column v = Some n \<Longrightarrow> int_column v = Some n"
  shows "to_number (enc n) = Some n"
    and "parseInt_of (enc n) = JNum n"
    and "int_column (enc n) = Some n"
    and "int_column (JNum n) = Some n"
    and "0 \<le> a \<Longrightarrow> 0 \<le> b \<Longrightarrow> \<exists>p. int_column (js_add (JNum a) (enc b)) = Some p"
proof -
  show "to_number (enc n) = Some n"
    using enc by (auto simp: string_enc_def string_to_number_show_int)
  show "parseInt_of (enc n) = JNum n"
    using enc by (auto simp: string_enc_def parseInt_of_def parseInt_show_int)
  show "int_column (JNum n) = Some n" by (rule col) simp
  show "int_column (enc n) = Some n"
  proof (cases "enc = JNum")
    case True
    have "int_column (JNum n) = Some n" by (rule col) simp
    then show ?thesis using True by simp
  next
    case False
    then have e: "enc = string_enc" using enc by simp
    have "int_column (JStr (show_int n)) = Some n"
      by (rule col[OF lenient_column_show_int])
    then show ?thesis using e by (simp add: string_enc_def)
  qed
  show "\<exists>p. int_column (js_add (JNum a) (enc b)) = Some p" if ab: "0 \<le> a" "0 \<le> b"
  proof (cases "enc = JNum")
    case True
    have "int_column (JNum (a + b)) = Some (a + b)" by (rule col) simp
    then show ?thesis using True by (simp add: js_add_def)
  next
    case False
    then have e: "enc = string_enc" using enc by simp
    obtain p where "lenient_column (JStr (show_int a @ show_int b)) = Some p"
      using lenient_column_digits[OF ab] by blast
    then have "int_column (JStr (show_int a @ show_int b)) = Some p" by (rule col)
    then show ?thesis using e by (simp add: js_add_def string_enc_def)
  qed
qed

lemma team_season_step_ok:
  assumes P: "\<And>n. parseInt_of (enc n) = JNum n"
    and C1: "\<And>n. int_column (enc n) = Some n"
    and C2: "\<And>n. int_column (JNum n) = Some n"
  shows "team_season_step enc int_column season games tgs teamId tbl
         = (None, if team_final_games teamId season games tgs \<noteq> []
                  then insert_on_conflict tss_key team_season_update
                         (team_row season teamId (team_final_games teamId season games tgs)) tbl
                  else tbl)"
proof (cases "team_final_games teamId season games tgs = []")
  case True
  then show ?thesis
    by (simp add: team_season_step_def statsQuery_def P js_gt_zero_def)
next
  case False
  then have pos: "int (length (team_final_games teamId season games tgs)) > 0" by simp
  show ?thesis
    using False pos
    by (simp add: team_season_step_def statsQuery_def Let_def enc_sum_def js_gt_zero_def
        js_mul_def js_sub_def bind_ints_def P C1 C2 team_row_def)
qed

lemma team_season_step_c_ok:
  assumes E: "\<And>n. to_number (enc n) = Some n"
    and C1: "\<And>n. int_column (enc n) = Some n"
    and C2: "\<And>n. int_column (JNum n) = Some n"
    and A: "\<And>a b. 0 \<le> a \<Longrightarrow> 0 \<le> b \<Longrightarrow> \<exists>p. int_column (js_add (JNum a) (enc b)) = Some p"
  shows "team_season_step_c enc int_column season games tgs teamId tbl
         = (None, if team_final_games teamId season games tgs \<noteq> []
                  then insert_on_conflict tss_key team_season_update_c
                         ((team_row_c season teamId (team_final_games teamId season games tgs))
                            \<lparr> tss_points :=
                                the (points_c enc int_column
                                       (team_final_games teamId season games tgs)) \<rparr>) tbl
                  else tbl)"
proof (cases "team_final_games teamId season games tgs = []")
  case True
  then show ?thesis
    by (simp add: team_season_step_c_def recordQuery_def E js_gt_zero_def)
next
  case False
  let ?rows = "team_final_games teamId season games tgs"
  have pos: "int (length ?rows) > 0" using False by simp
  have m: "js_mul (enc (count_where own_win ?rows)) (JNum 2)
           = JNum (count_where own_win ?rows * 2)"
    by (simp add: js_mul_def E)
  obtain p where p: "int_column (js_add (JNum (count_where own_win ?rows * 2))
                       (enc (count_where overtime_loss_condition_c ?rows))) = Some p"
    using A[of "count_where own_win ?rows * 2" "count_where overtime_loss_condition_c ?rows"]
      count_where_nonneg[of own_win ?rows] count_where_nonneg[of overtime_loss_condition_c ?rows]
    by auto
  have pc: "points_c enc int_column ?rows = Some p"
    by (simp add: points_c_def m p)
  have b: "bind_ints int_column
             [enc (int (length ?rows)), enc (count_where own_win ?rows),
              enc (count_where loss_condition_c ?rows),
              enc (count_where overtime_loss_condition_c ?rows),
              js_add (JNum (count_where own_win ?rows * 2))
                     (enc (count_where overtime_loss_condition_c ?rows)),
              enc (goals_for_of ?rows), enc (goals_against_of ?rows),
              js_sub (enc (goals_for_of ?rows)) (enc (goals_against_of ?rows))]
           = Some [int (length ?rows), count_where own_win ?rows,
                   count_where loss_condition_c ?rows,
                   count_where overtime_loss_condition_c ?rows, p,
                   goals_for_of ?rows, goals_against_of ?rows,
                   goals_for_of ?rows - goals_against_of ?rows]"
    by (simp add: bind_ints_def C1 C2 p js_sub_def E)
  have g: "js_gt_zero (enc (int (length ?rows)))" using pos by (simp add: js_gt_zero_def E)
  show ?thesis
    unfolding team_season_step_c_def recordQuery_def Let_def
    using False by (simp add: enc_sum_def g m b pc team_row_c_def)
qed


lemma calculateTeamSeasonStats_ok:
  assumes P: "\<And>n. parseInt_of (enc n) = JNum n"
    and C1: "\<And>n. int_column (enc n) = Some n"
    and C2: "\<And>n. int_column (JNum n) = Some n"
  shows "calculateTeamSeasonStats enc int_column season teams games tgs tss
         = (None, fold (insert_on_conflict tss_key team_season_update)
                    (map (\<lambda>i. team_row season i (team_final_games i season games tgs))
                         (filter (\<lambda>i. team_final_games i season games tgs \<noteq> [])
                                 (map tm_id teams))) tss)"
  unfolding calculateTeamSeasonStats_def
  by (subst for_each_total[OF team_season_step_ok[OF P C1 C2]])
     (simp add: fold_conditional[where h = "insert_on_conflict tss_key team_season_update"])

lemma calculateTeamSeasonStats_c_ok:
  assumes E: "\<And>n. to_number (enc n) = Some n"
    and C1: "\<And>n. int_column (enc n) = Some n"
    and C2: "\<And>n. int_column (JNum n) = Some n"
    and A: "\<And>a b. 0 \<le> a \<Longrightarrow> 0 \<le> b \<Longrightarrow> \<exists>p. int_column (js_add (JNum a) (enc b)) = Some p"
  shows "calculateTeamSeasonStats_c enc int_column season teams games tgs tss
         = (None, fold (insert_on_conflict tss_key team_season_update_c)
                    (map (\<lambda>i. (team_row_c season i (team_final_games i season games tgs))
                                  \<lparr> tss_points :=
                                      the (points_c enc int_column
                                             (team_final_games i season games tgs)) \<rparr>)
                         (filter (\<lambda>i. team_final_games i season games tgs \<noteq> [])
                                 (map tm_id teams))) tss)"
  unfolding calculateTeamSeasonStats_c_def
  by (subst for_each_total[OF team_season_step_c_ok[OF E C1 C2 A]])
     (simp_all add: fold_conditional[where h = "insert_on_conflict tss_key team_season_update_c"])

lemma team_row_keys:
  "tss_key (team_row_c season i rows) = (i, season)"
  "tss_key (team_row season i rows) = (i, season)"
  by (simp_all add: tss_key_def team_row_c_def team_row_def)

lemma calculateTeamSeasonStats_team:
  assumes P: "\<And>n. parseInt_of (enc n) = JNum n"
    and C1: "\<And>n. int_column (enc n) = Some n"
    and C2: "\<And>n. int_column (JNum n) = Some n"
    and T: "T \<in> tm_id ` set teams"
    and ne: "team_final_games T S games tgs \<noteq> []"
  shows "fst (calculateTeamSeasonStats enc int_column S teams games tgs tss) = None"
    and "(T, S) \<in> tss_key ` set (snd (calculateTeamSeasonStats enc int_column S teams games tgs tss))"
    and "\<forall>row \<in> set (snd (calculateTeamSeasonStats enc int_column S teams games tgs tss)).
           tss_key row = (T, S) \<longrightarrow>
           phi_t row = phi_t (team_row S T (team_final_games T S games tgs))"
proof -
  let ?row = "\<lambda>i. team_row S i (team_final_games i S games tgs)"
  let ?xs = "map ?row (filter (\<lambda>i. team_final_games i S games tgs \<noteq> []) (map tm_id teams))"
  note res = calculateTeamSeasonStats_ok[OF P C1 C2, of S teams games tgs tss]
  have L1: "\<And>r x. tss_key (team_season_update r x) = tss_key r"
    by (simp add: team_season_update_def tss_key_def)
  have phi: "\<And>r x. phi_t (team_season_update r x) = phi_t x"
    by (simp add: team_season_update_def phi_t_def)
  have xin: "?row T \<in> set ?xs" using T ne by auto
  have same: "\<forall>y \<in> set ?xs. tss_key y = tss_key (?row T) \<longrightarrow> phi_t y = phi_t (?row T)"
    by (auto simp: team_row_keys)
  show "fst (calculateTeamSeasonStats enc int_column S teams games tgs tss) = None"
    by (simp add: res)
  show "(T, S) \<in> tss_key ` set (snd (calculateTeamSeasonStats enc int_column S teams games tgs tss))"
    using fold_upsert_key_present[of tss_key team_season_update "?row T" ?xs tss, OF L1 xin]
    by (simp add: res team_row_keys)
  show "\<forall>row \<in> set (snd (calculateTeamSeasonStats enc int_column S teams games tgs tss)).
           tss_key row = (T, S) \<longrightarrow>
           phi_t row = phi_t (team_row S T (team_final_games T S games tgs))"
    using fold_upsert_final_same[of tss_key team_season_update phi_t "?row T" ?xs tss,
        OF L1 phi xin same]
    by (simp add: res team_row_keys)
qed

lemma calculateTeamSeasonStats_c_team:
  assumes E: "\<And>n. to_number (enc n) = Some n"
    and C1: "\<And>n. int_column (enc n) = Some n"
    and C2: "\<And>n. int_column (JNum n) = Some n"
    and A: "\<And>a b. 0 \<le> a \<Longrightarrow> 0 \<le> b \<Longrightarrow> \<exists>p. int_column (js_add (JNum a) (enc b)) = Some p"
    and T: "T \<in> tm_id ` set teams"
    and ne: "team_final_games T S games tgs \<noteq> []"
  shows "fst (calculateTeamSeasonStats_c enc int_column S teams games tgs tss) = None"
    and "(T, S) \<in> tss_key ` set (snd (calculateTeamSeasonStats_c enc int_column S teams games tgs tss))"
    and "\<forall>row \<in> set (snd (calculateTeamSeasonStats_c enc int_column S teams games tgs tss)).
           tss_key row = (T, S) \<longrightarrow>
           phi_w row = phi_w (team_row_c S T (team_final_games T S games tgs))"
proof -
  let ?row = "\<lambda>i. (team_row_c S i (team_final_games i S games tgs))
                      \<lparr> tss_points := the (points_c enc int_column
                                             (team_final_games i S games tgs)) \<rparr>"
  let ?xs = "map ?row (filter (\<lambda>i. team_final_games i S games tgs \<noteq> []) (map tm_id teams))"
  note res = calculateTeamSeasonStats_c_ok[OF E C1 C2 A, of S teams games tgs tss]
  have L1: "\<And>r x. tss_key (team_season_update_c r x) = tss_key r"
    by (simp add: team_season_update_c_def tss_key_def)
  have phi: "\<And>r x. phi_w (team_season_update_c r x) = phi_w x"
    by (simp add: team_season_update_c_def phi_w_def)
  have keys: "\<And>i. tss_key (?row i) = (i, S)"
    by (simp add: tss_key_def team_row_c_def)
  have pw: "phi_w (?row T) = phi_w (team_row_c S T (team_final_games T S games tgs))"
    by (simp add: phi_w_def)
  have xin: "?row T \<in> set ?xs" using T ne by auto
  have same: "\<forall>y \<in> set ?xs. tss_key y = tss_key (?row T) \<longrightarrow> phi_w y = phi_w (?row T)"
    by (auto simp: keys)
  show "fst (calculateTeamSeasonStats_c enc int_column S teams games tgs tss) = None"
    by (simp add: res)
  show "(T, S) \<in> tss_key ` set (snd (calculateTeamSeasonStats_c enc int_column S teams games tgs tss))"
    using fold_upsert_key_present[of tss_key team_season_update_c "?row T" ?xs tss, OF L1 xin]
    by (simp add: res keys)
  show "\<forall>row \<in> set (snd (calculateTeamSeasonStats_c enc int_column S teams games tgs tss)).
           tss_key row = (T, S) \<longrightarrow>
           phi_w row = phi_w (team_row_c S T (team_final_games T S games tgs))"
    using fold_upsert_final_same[of tss_key team_season_update_c phi_w "?row T" ?xs tss,
        OF L1 phi xin same]
    by (simp add: res keys pw)
qed

lemma overtime_rows:
  "team_final_games 15 ''20232024'' overtime_games overtime_team_stats
   = [(overtime_team_stats ! 0, overtime_games ! 0), (overtime_team_stats ! 1, overtime_games ! 1)]"
  by (simp add: team_final_games_def overtime_games_def overtime_team_stats_def mk_game_def)

lemma overtime_counts:
  "count_where own_win (team_final_games 15 ''20232024'' overtime_games overtime_team_stats) = 1"
  "count_where own_loss (team_final_games 15 ''20232024'' overtime_games overtime_team_stats) = 1"
  "count_where loss_condition_c
     (team_final_games 15 ''20232024'' overtime_games overtime_team_stats) = 1"
  "count_where overtime_loss_condition_c
     (team_final_games 15 ''20232024'' overtime_games overtime_team_stats) = 1"
  "goals_for_of (team_final_games 15 ''20232024'' overtime_games overtime_team_stats) = 6"
  "goals_against_of (team_final_games 15 ''20232024'' overtime_games overtime_team_stats) = 5"
  "length (team_final_games 15 ''20232024'' overtime_games overtime_team_stats) = 2"
  "count_where (\<lambda>x. own_loss x \<and> (case gm_period (snd x) of None \<Rightarrow> False | Some p \<Rightarrow> p > 3))
     (team_final_games 15 ''20232024'' overtime_games overtime_team_stats) = 1"
  unfolding overtime_rows
  by (simp_all add: count_where_def own_win_def own_loss_def loss_condition_c_def
      overtime_loss_condition_c_def goals_for_of_def goals_against_of_def
      overtime_games_def overtime_team_stats_def mk_game_def)

lemma overtime_production:
  assumes P: "\<And>n. parseInt_of (enc n) = JNum n"
    and C1: "\<And>n. int_column (enc n) = Some n"
    and C2: "\<And>n. int_column (JNum n) = Some n"
  shows "snd (calculateTeamSeasonStats enc int_column ''20232024'' capitals_only overtime_games
          overtime_team_stats [])
   = [team_row ''20232024'' 15
        (team_final_games 15 ''20232024'' overtime_games overtime_team_stats)]"
proof -
  have ne: "team_final_games 15 ''20232024'' overtime_games overtime_team_stats \<noteq> []"
    unfolding overtime_rows by simp
  show ?thesis
    by (subst calculateTeamSeasonStats_ok[OF P C1 C2])
       (simp_all add: capitals_only_def mk_team_def ne insert_on_conflict_def)
qed

text \<open>
  C7 as stated fails on the production service: its query computes no overtime losses and
  its points are \<^verbatim>\<open>parseInt(stats.wins) * 2\<close>. Team 15 has one win and one defeat in
  overtime (period 4); the row written has one win, one loss, no overtime-loss value and
  two points, not three. This is so when the driver hands the aggregates over as decimal
  strings, as it does for 64-bit values, and when it hands them over as numbers.
\<close>

theorem C7_production_has_no_overtime_losses:
  "map (\<lambda>r. (tss_team_id r, tss_wins r, tss_losses r, tss_overtime_losses r, tss_points r,
             tss_goal_differential r))
     (snd (calculateTeamSeasonStats string_enc lenient_column ''20232024'' capitals_only
             overtime_games overtime_team_stats []))
   = [(15, 1, 1, None, 2, 1)]
   \<and> map (\<lambda>r. (tss_team_id r, tss_wins r, tss_losses r, tss_overtime_losses r, tss_points r,
             tss_goal_differential r))
     (snd (calculateTeamSeasonStats JNum number_column ''20232024'' capitals_only
             overtime_games overtime_team_stats []))
   = [(15, 1, 1, None, 2, 1)]
   \<and> count_where
        (\<lambda>x. own_loss x \<and> (case gm_period (snd x) of None \<Rightarrow> False | Some p \<Rightarrow> p > 3))
        (team_final_games 15 ''20232024'' overtime_games overtime_team_stats) = 1"
proof -
  have s: "snd (calculateTeamSeasonStats string_enc lenient_column ''20232024'' capitals_only
             overtime_games overtime_team_stats [])
           = [team_row ''20232024'' 15
                (team_final_games 15 ''20232024'' overtime_games overtime_team_stats)]"
    by (rule overtime_production)
       (simp_all add: string_enc_def parseInt_of_def parseInt_show_int show_int_nonempty
          string_to_number_show_int)
  have n: "snd (calculateTeamSeasonStats JNum number_column ''20232024'' capitals_only
             overtime_games overtime_team_stats [])
           = [team_row ''20232024'' 15
                (team_final_games 15 ''20232024'' overtime_games overtime_team_stats)]"
    by (rule overtime_production) (simp_all add: parseInt_of_num)
  show ?thesis by (simp add: s n team_row_def overtime_counts)
qed

text \<open>
  C7, amended. Let the driver hand the aggregates to the code as decimal strings (as it
  does for 64-bit values) or as numbers, and let the store read numbers and decimal
  strings for its integer columns. For every team of the \<^verbatim>\<open>teams\<close> table and every
  season with at least one \<^verbatim>\<open>team_game_stats\<close> row of the team joined to a Final game
  of the season, both services return and write a season row for the team whose games
  played are the number of those rows, whose wins are the games in which the team's own
  score is greater than the opponent's (home/away aware), whose goals for and against
  are the sums of the team's goals and of the opponent's scores, and whose goal
  differential is goals for minus goals against. The production service counts every
  game in which the own score is smaller as a loss, computes no overtime losses and
  writes points = wins \<times> 2. What \<^verbatim>\<open>dataBackfillService.ts\<close> writes for the losses,
  the overtime losses and the points is not part of the amended claim: see the remarks
  after the theorem.
\<close>

theorem C7_team_season_row:
  assumes "enc = string_enc \<or> enc = JNum"
    and "\<And>v n. lenient_column v = Some n \<Longrightarrow> int_column v = Some n"
    and "T \<in> tm_id ` set teams"
    and "team_final_games T S games tgs \<noteq> []"
  shows
    "fst (calculateTeamSeasonStats enc int_column S teams games tgs tss) = None
     \<and> (T, S) \<in> tss_key ` set (snd (calculateTeamSeasonStats enc int_column S teams games tgs tss))
     \<and> (\<forall>row \<in> set (snd (calculateTeamSeasonStats enc int_column S teams games tgs tss)).
          tss_key row = (T, S) \<longrightarrow>
          tss_games_played row = int (length (team_final_games T S games tgs))
          \<and> tss_wins row = count_where own_win (team_final_games T S games tgs)
          \<and> tss_losses row = count_where own_loss (team_final_games T S games tgs)
          \<and> tss_points row = tss_wins row * 2
          \<and> tss_goals_for row = goals_for_of (team_final_games T S games tgs)
          \<and> tss_goals_against row = goals_against_of (team_final_games T S games tgs)
          \<and> tss_goal_differential row = tss_goals_for row - tss_goals_against row)
     \<and> fst (calculateTeamSeasonStats_c enc int_column S teams games tgs tss) = None
     \<and> (T, S) \<in> tss_key ` set (snd (calculateTeamSeasonStats_c enc int_column S teams games tgs tss))
     \<and> (\<forall>row \<in> set (snd (calculateTeamSeasonStats_c enc int_column S teams games tgs tss)).
          tss_key row = (T, S) \<longrightarrow>
          tss_games_played row = int (length (team_final_games T S games tgs))
          \<and> tss_wins row = count_where own_win (team_final_games T S games tgs)
          \<and> tss_goals_for row = goals_for_of (team_final_games T S games tgs)
          \<and> tss_goals_against row = goals_against_of (team_final_games T S games tgs)
          \<and> tss_goal_differential row = tss_goals_for row - tss_goals_against row)"
proof -
  note d = driver_facts[where enc = enc and int_column = int_column, OF assms(1,2)]
  note p = calculateTeamSeasonStats_team[where enc = enc and int_column = int_column
      and tss = tss, OF d(2) d(3) d(4) assms(3,4)]
  note c = calculateTeamSeasonStats_c_team[where enc = enc and int_column = int_column
      and tss = tss, OF d(1) d(3) d(4) d(5) assms(3,4)]
  have p3: "\<forall>row \<in> set (snd (calculateTeamSeasonStats enc int_column S teams games tgs tss)).
          tss_key row = (T, S) \<longrightarrow>
          tss_games_played row = int (length (team_final_games T S games tgs))
          \<and> tss_wins row = count_where own_win (team_final_games T S games tgs)
          \<and> tss_losses row = count_where own_loss (team_final_games T S games tgs)
          \<and> tss_points row = tss_wins row * 2
          \<and> tss_goals_for row = goals_for_of (team_final_games T S games tgs)
          \<and> tss_goals_against row = goals_against_of (team_final_games T S games tgs)
          \<and> tss_goal_differential row = tss_goals_for row - tss_goals_against row"
  proof (intro ballI impI)
    fix row
    assume "row \<in> set (snd (calculateTeamSeasonStats enc int_column S teams games tgs tss))"
      and "tss_key row = (T, S)"
    then have "phi_t row = phi_t (team_row S T (team_final_games T S games tgs))"
      using p(3) by blast
    then show "tss_games_played row = int (length (team_final_games T S games tgs))
          \<and> tss_wins row = count_where own_win (team_final_games T S games tgs)
          \<and> tss_losses row = count_where own_loss (team_final_games T S games tgs)
          \<and> tss_points row = tss_wins row * 2
          \<and> tss_goals_for row = goals_for_of (team_final_games T S games tgs)
          \<and> tss_goals_against row = goals_against_of (team_final_games T S games tgs)
          \<and> tss_goal_differential row = tss_goals_for row - tss_goals_against row"
      by (simp add: phi_t_def team_row_def)
  qed
  have c3: "\<forall>row \<in> set (snd (calculateTeamSeasonStats_c enc int_column S teams games tgs tss)).
          tss_key row = (T, S) \<longrightarrow>
          tss_games_played row = int (length (team_final_games T S games tgs))
          \<and> tss_wins row = count_where own_win (team_final_games T S games tgs)
          \<and> tss_goals_for row = goals_for_of (team_final_games T S games tgs)
          \<and> tss_goals_against row = goals_against_of (team_final_games T S games tgs)
          \<and> tss_goal_differential row = tss_goals_for row - tss_goals_against row"
  proof (intro ballI impI)
    fix row
    assume "row \<in> set (snd (calculateTeamSeasonStats_c enc int_column S teams games tgs tss))"
      and "tss_key row = (T, S)"
    then have "phi_w row = phi_w (team_row_c S T (team_final_games T S games tgs))"
      using c(3) by blast
    then show "tss_games_played row = int (length (team_final_games T S games tgs))
          \<and> tss_wins row = count_where own_win (team_final_games T S games tgs)
          \<and> tss_goals_for row = goals_for_of (team_final_games T S games tgs)
          \<and> tss_goals_against row = goals_against_of (team_final_games T S games tgs)
          \<and> tss_goal_differential row = tss_goals_for row - tss_goals_against row"
      by (simp add: phi_w_def team_row_c_def)
  qed
  from p(1,2) p3 c(1,2) c3 show ?thesis by blast
qed

theorem C7_team_season_row_witness:
  "(15::int) \<in> tm_id ` set capitals_only
   \<and> team_final_games 15 ''20232024'' overtime_games overtime_team_stats \<noteq> []
   \<and> fst (calculateTeamSeasonStats string_enc lenient_column ''20232024'' capitals_only
           overtime_games overtime_team_stats []) = None
   \<and> (15, ''20232024'')
       \<in> tss_key ` set (snd (calculateTeamSeasonStats string_enc lenient_column ''20232024''
                                capitals_only overtime_games overtime_team_stats []))
   \<and> fst (calculateTeamSeasonStats_c string_enc lenient_column ''20232024'' capitals_only
           overtime_games overtime_team_stats []) = None
   \<and> (15, ''20232024'')
       \<in> tss_key ` set (snd (calculateTeamSeasonStats_c string_enc lenient_column ''20232024''
                                capitals_only overtime_games overtime_team_stats []))"
proof -
  have h1: "string_enc = string_enc \<or> string_enc = JNum" by simp
  have h2: "\<And>v n. lenient_column v = Some n \<Longrightarrow> lenient_column v = Some n" by simp
  have h3: "(15::int) \<in> tm_id ` set capitals_only"
    by (simp add: capitals_only_def mk_team_def)
  have h4: "team_final_games 15 ''20232024'' overtime_games overtime_team_stats \<noteq> []"
    unfolding overtime_rows by simp
  from h3 h4 C7_team_season_row[of string_enc lenient_column 15 capitals_only "''20232024''"
      overtime_games overtime_team_stats "[]", OF h1 h2 h3 h4]
  show ?thesis by blast
qed

lemma regulation_defeat_rows:
  "team_final_games 15 ''20232024'' regulation_defeat_games regulation_defeat_stats
   = [(regulation_defeat_stats ! 0, regulation_defeat_games ! 0)]"
  by (simp add: team_final_games_def regulation_defeat_games_def regulation_defeat_stats_def
      mk_game_def)

lemma regulation_defeat_counts:
  "count_where own_win
     (team_final_games 15 ''20232024'' regulation_defeat_games regulation_defeat_stats) = 0"
  "count_where loss_condition_c
     (team_final_games 15 ''20232024'' regulation_defeat_games regulation_defeat_stats) = 1"
  "count_where overtime_loss_condition_c
     (team_final_games 15 ''20232024'' regulation_defeat_games regulation_defeat_stats) = 1"
  "goals_for_of
     (team_final_games 15 ''20232024'' regulation_defeat_games regulation_defeat_stats) = 2"
  "goals_against_of
     (team_final_games 15 ''20232024'' regulation_defeat_games regulation_defeat_stats) = 3"
  "length (team_final_games 15 ''20232024'' regulation_defeat_games regulation_defeat_stats)
   = 1"
  unfolding regulation_defeat_rows
  by (simp_all add: count_where_def own_win_def loss_condition_c_def
      overtime_loss_condition_c_def goals_for_of_def goals_against_of_def
      regulation_defeat_games_def regulation_defeat_stats_def mk_game_def)

text \<open>
  Two remarks on \<^verbatim>\<open>dataBackfillService.ts\<close>, outside the amended claim. First, since
  \<^verbatim>\<open>AND\<close> binds tighter than \<^verbatim>\<open>OR\<close>, a home defeat satisfies both the loss and the
  overtime-loss condition whatever the period: a single home defeat in regulation
  (period 3) is written as one loss and one overtime loss, with one point. Second, when
  the driver hands the aggregates over as decimal strings,
  \<^verbatim>\<open>(record.wins * 2) + record.overtime_losses\<close> concatenates: on the two games of team
  15 above, one win and one overtime loss give the points ``21'', which the store reads as
  21; with numbers they give 3.
\<close>

lemma dataBackfill_team_season_remarks:
  "map (\<lambda>r. (tss_games_played r, tss_wins r, tss_losses r, tss_overtime_losses r, tss_points r))
     (snd (calculateTeamSeasonStats_c JNum number_column ''20232024'' capitals_only
             regulation_defeat_games regulation_defeat_stats []))
   = [(1, 0, 1, Some 1, 1)]"
  "map (\<lambda>r. (tss_games_played r, tss_wins r, tss_losses r, tss_overtime_losses r, tss_points r))
     (snd (calculateTeamSeasonStats_c string_enc lenient_column ''20232024'' capitals_only
             overtime_games overtime_team_stats []))
   = [(2, 1, 1, Some 1, 21)]"
  "map (\<lambda>r. (tss_games_played r, tss_wins r, tss_losses r, tss_overtime_losses r, tss_points r))
     (snd (calculateTeamSeasonStats_c JNum number_column ''20232024'' capitals_only
             overtime_games overtime_team_stats []))
   = [(2, 1, 1, Some 1, 3)]"
proof -
  have ne: "team_final_games 15 ''20232024'' overtime_games overtime_team_stats \<noteq> []"
    unfolding overtime_rows by simp
  have ner: "team_final_games 15 ''20232024'' regulation_defeat_games regulation_defeat_stats
             \<noteq> []"
    unfolding regulation_defeat_rows by simp
  show "map (\<lambda>r. (tss_games_played r, tss_wins r, tss_losses r, tss_overtime_losses r, tss_points r))
     (snd (calculateTeamSeasonStats_c JNum number_column ''20232024'' capitals_only
             regulation_defeat_games regulation_defeat_stats []))
   = [(1, 0, 1, Some 1, 1)]"
    by (simp add: calculateTeamSeasonStats_c_def capitals_only_def mk_team_def
        team_season_step_c_def recordQuery_def Let_def ner enc_sum_def
        regulation_defeat_counts js_gt_zero_def js_add_def js_mul_def js_sub_def
        bind_ints_def insert_on_conflict_def)
  show "map (\<lambda>r. (tss_games_played r, tss_wins r, tss_losses r, tss_overtime_losses r, tss_points r))
     (snd (calculateTeamSeasonStats_c JNum number_column ''20232024'' capitals_only
             overtime_games overtime_team_stats []))
   = [(2, 1, 1, Some 1, 3)]"
    by (simp add: calculateTeamSeasonStats_c_def capitals_only_def mk_team_def
        team_season_step_c_def recordQuery_def Let_def ne enc_sum_def
        overtime_counts js_gt_zero_def js_add_def js_mul_def js_sub_def
        bind_ints_def insert_on_conflict_def)
  have s: "show_int 1 = ''1''" "show_int 2 = ''2''" "show_int 5 = ''5''" "show_int 6 = ''6''"
    by (simp_all add: show_int_def digits_of.simps)
  have n: "string_to_number ''1'' = Some 1" "string_to_number ''2'' = Some 2"
    "string_to_number ''5'' = Some 5" "string_to_number ''6'' = Some 6"
    "string_to_number ''21'' = Some 21"
    by (simp_all add: string_to_number_def is_ws_def digit_of_def)
  show "map (\<lambda>r. (tss_games_played r, tss_wins r, tss_losses r, tss_overtime_losses r, tss_points r))
     (snd (calculateTeamSeasonStats_c string_enc lenient_column ''20232024'' capitals_only
             overtime_games overtime_team_stats []))
   = [(2, 1, 1, Some 1, 21)]"
    by (simp add: calculateTeamSeasonStats_c_def capitals_only_def mk_team_def
        team_season_step_c_def recordQuery_def Let_def ne enc_sum_def overtime_counts
        string_enc_def s n js_gt_zero_def js_add_def js_mul_def js_sub_def bind_ints_def
        insert_on_conflict_def)
qed

subsection \<open>The orchestrators\<close>



lemma run_stage_progress:
  "pr_progress (sv_progress (snd (run_stage sg s))) = pr_progress (sv_progress s) + 1"
  by (simp add: run_stage_def Let_def updateProgress_def push_error_def push_completed_def
      split: option.splits)

lemma run_stage_caught: "\<not> sg_rethrow sg \<Longrightarrow> fst (run_stage sg s) = None"
  by (simp add: run_stage_def Let_def split: option.splits)

lemma run_stages_caught:
  "\<forall>sg \<in> set sgs. \<not> sg_rethrow sg \<Longrightarrow>
   run_stages sgs s = (None, fold (\<lambda>sg s. snd (run_stage sg s)) sgs s)"
proof (induction sgs arbitrary: s)
  case Nil
  then show ?case by (simp add: run_stages_def)
next
  case (Cons sg sgs)
  have "fst (run_stage sg s) = None" using Cons.prems by (simp add: run_stage_caught)
  then have r: "run_stage sg s = (None, snd (run_stage sg s))" by (metis prod.collapse)
  have "run_stages sgs (snd (run_stage sg s))
        = (None, fold (\<lambda>sg s. snd (run_stage sg s)) sgs (snd (run_stage sg s)))"
    using Cons by simp
  then show ?case unfolding run_stages_def by (subst for_each.simps, subst r) simp
qed






lemma season_stages_caught:
  "\<forall>sg \<in> set (season_stages b seasons p). \<not> sg_rethrow sg"
  by (auto simp: season_stages_def backfillAllPlayersForSeason_def
      backfillAllGamesForSeason_def backfillPlayerGameStats_def backfillTeamGameStats_def
      backfillGoalieStats_def calculateSeasonStats_def backfillShotData_def
      backfillAdvancedStats_def)


lemma backfillAllTeams_ok:
  assumes "\<And>st. fst (b_teams_fallback b st) = None"
  shows "fst (backfillAllTeams b s) = None"
    and "pr_progress (sv_progress (snd (backfillAllTeams b s))) = pr_progress (sv_progress s) + 1"
  using assms
  by (simp_all add: backfillAllTeams_def Let_def updateProgress_def push_completed_def
      split: option.splits)


lemma backfillAllTeams_progress:
  "pr_progress (sv_progress (snd (backfillAllTeams b s))) = pr_progress (sv_progress s) + 1"
  by (simp add: backfillAllTeams_def Let_def updateProgress_def push_completed_def
      split: option.splits)

lemma run_stages_progress_mono:
  "n \<le> pr_progress (sv_progress s) \<Longrightarrow>
   n \<le> pr_progress (sv_progress (snd (run_stages sgs s)))"
  unfolding run_stages_def
  by (rule for_each_invariant[where P = "\<lambda>s. n \<le> pr_progress (sv_progress s)"])
     (simp_all add: run_stage_progress)

lemma run_stage_c_progress:
  "pr_progress (sv_progress (snd (run_stage_c sg s))) = pr_progress (sv_progress s) + 1"
  by (simp add: run_stage_c_def Let_def updateProgress_def push_error_def push_completed_def
      populate_def split: option.splits)

lemma run_stages_c_progress_mono:
  "n \<le> pr_progress (sv_progress s) \<Longrightarrow>
   n \<le> pr_progress (sv_progress (snd (for_each run_stage_c sgs s)))"
  by (rule for_each_invariant[where P = "\<lambda>s. n \<le> pr_progress (sv_progress s)"])
     (simp_all add: run_stage_c_progress)

lemma startCompleteBackfill_idle:
  assumes "\<not> sv_isRunning svc"
  shows "\<not> sv_isRunning (iv_service (startCompleteBackfill b seasons p svc))"
    and "pr_progress (sv_progress svc)
         < pr_progress (sv_progress (iv_service (startCompleteBackfill b seasons p svc)))"
proof -
  let ?svc1 = "svc\<lparr> sv_isRunning := True,
                    sv_progress := (sv_progress svc)
                      \<lparr> pr_totalSteps := calculateTotalSteps seasons p \<rparr> \<rparr>"
  let ?r = "case backfillAllTeams b ?svc1 of
              (Some e, s) \<Rightarrow> (Some e, s)
            | (None, s) \<Rightarrow> run_stages (season_stages b seasons p) s"
  have t: "pr_progress (sv_progress (snd (backfillAllTeams b ?svc1)))
           = pr_progress (sv_progress svc) + 1"
    by (simp add: backfillAllTeams_progress)
  have ge: "pr_progress (sv_progress svc) + 1 \<le> pr_progress (sv_progress (snd ?r))"
  proof (cases "backfillAllTeams b ?svc1")
    case (Pair e s)
    then have ps: "pr_progress (sv_progress svc) + 1 \<le> pr_progress (sv_progress s)"
      using t by simp
    show ?thesis
    proof (cases e)
      case None
      then show ?thesis using Pair run_stages_progress_mono[OF ps] by simp
    next
      case (Some a)
      then show ?thesis using Pair ps by simp
    qed
  qed
  show "\<not> sv_isRunning (iv_service (startCompleteBackfill b seasons p svc))"
    using assms by (simp add: startCompleteBackfill_def Let_def split: option.splits)
  show "pr_progress (sv_progress svc)
        < pr_progress (sv_progress (iv_service (startCompleteBackfill b seasons p svc)))"
    using assms ge
    by (simp add: startCompleteBackfill_def Let_def push_error_def split: option.splits)
qed

lemma stages_c_first:
  "\<exists>sg sgs. stages_c b seasons p = sg # sgs"
  by (simp add: stages_c_def)

lemma startCompleteBackfill_c_idle:
  assumes "\<not> sv_isRunning svc"
  shows "\<not> sv_isRunning (ic_service (startCompleteBackfill_c b seasons p svc))"
    and "pr_progress (sv_progress svc)
         < pr_progress (sv_progress (ic_service (startCompleteBackfill_c b seasons p svc)))"
proof -
  let ?svc1 = "svc\<lparr> sv_isRunning := True,
                    sv_progress := (sv_progress svc)
                      \<lparr> pr_totalSteps := calculateTotalSteps_c seasons p \<rparr> \<rparr>"
  let ?r = "for_each run_stage_c (stages_c b seasons p) ?svc1"
  obtain sg sgs where st: "stages_c b seasons p = sg # sgs" using stages_c_first by blast
  have one: "pr_progress (sv_progress svc) + 1
             \<le> pr_progress (sv_progress (snd (run_stage_c sg ?svc1)))"
    by (simp add: run_stage_c_progress)
  have ge: "pr_progress (sv_progress svc) + 1 \<le> pr_progress (sv_progress (snd ?r))"
  proof (cases "run_stage_c sg ?svc1")
    case (Pair e s)
    then have ps: "pr_progress (sv_progress svc) + 1 \<le> pr_progress (sv_progress s)"
      using one by simp
    show ?thesis
    proof (cases e)
      case None
      then show ?thesis using Pair st run_stages_c_progress_mono[OF ps] by simp
    next
      case (Some a)
      then show ?thesis using Pair st ps by simp
    qed
  qed
  show "\<not> sv_isRunning (ic_service (startCompleteBackfill_c b seasons p svc))"
    using assms by (simp add: startCompleteBackfill_c_def Let_def split: option.splits)
  show "pr_progress (sv_progress svc)
        < pr_progress (sv_progress (ic_service (startCompleteBackfill_c b seasons p svc)))"
    using assms ge
    by (simp add: startCompleteBackfill_c_def Let_def push_error_def split: option.splits)
qed





subsection \<open>C4: a stage that throws\<close>




text \<open>
  In \<^verbatim>\<open>dataBackfillService.ts\<close> the stages of the players, the games and the per-game
  player statistics throw again what they caught: a failure of the players ends the
  run, no later stage runs, and no report is printed.
\<close>

lemma dataBackfill_players_failure_ends_the_run:
  "ic_rejected (startCompleteBackfill_c failing_bodies_c [''20232024''] False (new_service_c ()))
   = Some (JsError ''boom'')
   \<and> ic_report (startCompleteBackfill_c failing_bodies_c [''20232024''] False (new_service_c ()))
     = None
   \<and> pr_errors (sv_progress (ic_service
        (startCompleteBackfill_c failing_bodies_c [''20232024''] False (new_service_c ()))))
     = [''Players backfill failed for 20232024: boom'', ''Complete backfill failed: boom'']
   \<and> pr_completed (sv_progress (ic_service
        (startCompleteBackfill_c failing_bodies_c [''20232024''] False (new_service_c ()))))
     = [''All teams with complete data'']"
  by (simp add: startCompleteBackfill_c_def Let_def new_service_c_def
      failing_bodies_c_def succeeds_def throws_boom_def updateProgress_def push_completed_def
      push_error_def run_stage_c_def stages_c_def mk_stage_c_def populate_def
      errorMessage.simps)

subsection \<open>C10: the is-running flag\<close>

text \<open>
  C10. An invocation on an idle instance leaves the is-running flag unset, whatever the
  stages do: whether it returns or is rejected with what the teams stage threw. So the
  guard lets the next invocation on the instance through: it runs its teams stage, which
  counts one more step. An invocation on an instance that is running is rejected with
  ``Backfill already in progress'' and leaves the instance as it was. This holds of both
  services.
\<close>

theorem C10_is_running_flag_is_cleared:
  "(\<not> sv_isRunning svc \<longrightarrow>
      \<not> isBackfillRunning (iv_service (startCompleteBackfill b seasons p svc))
      \<and> pr_progress (sv_progress (iv_service (startCompleteBackfill b seasons p svc)))
        < pr_progress (sv_progress (iv_service (startCompleteBackfill b' seasons' p'
            (iv_service (startCompleteBackfill b seasons p svc))))))
   \<and> (sv_isRunning svc \<longrightarrow>
        startCompleteBackfill b seasons p svc
        = \<lparr> iv_rejected = Some already_running, iv_report = None, iv_service = svc \<rparr>)
   \<and> (\<not> sv_isRunning svc_c \<longrightarrow>
        \<not> isBackfillRunning (ic_service (startCompleteBackfill_c c seasons p svc_c))
        \<and> pr_progress (sv_progress (ic_service (startCompleteBackfill_c c seasons p svc_c)))
          < pr_progress (sv_progress (ic_service (startCompleteBackfill_c c' seasons' p'
              (ic_service (startCompleteBackfill_c c seasons p svc_c))))))
   \<and> (sv_isRunning svc_c \<longrightarrow>
        startCompleteBackfill_c c seasons p svc_c
        = \<lparr> ic_rejected = Some already_running, ic_report = None, ic_service = svc_c \<rparr>)"
proof -
  have 1: "\<not> sv_isRunning (iv_service (startCompleteBackfill b seasons p svc))"
    if "\<not> sv_isRunning svc"
    using that by (rule startCompleteBackfill_idle(1))
  have 2: "\<not> sv_isRunning (ic_service (startCompleteBackfill_c c seasons p svc_c))"
    if "\<not> sv_isRunning svc_c"
    using that by (rule startCompleteBackfill_c_idle(1))
  show ?thesis
    using 1 2 startCompleteBackfill_idle(2)[of "iv_service (startCompleteBackfill b seasons p svc)"]
      startCompleteBackfill_c_idle(2)[of "ic_service (startCompleteBackfill_c c seasons p svc_c)"]
    by (auto simp: isBackfillRunning_def startCompleteBackfill_def startCompleteBackfill_c_def)
qed

theorem C10_is_running_flag_is_cleared_witness:
  "\<not> sv_isRunning (new_service ())
   \<and> iv_rejected (startCompleteBackfill failing_bodies [''20232024''] False (new_service ()))
     = None
   \<and> \<not> isBackfillRunning (iv_service
         (startCompleteBackfill failing_bodies [''20232024''] False (new_service ())))
   \<and> \<not> sv_isRunning (new_service_c ())
   \<and> ic_rejected (startCompleteBackfill_c failing_bodies_c [''20232024''] False
        (new_service_c ())) = Some (JsError ''boom'')
   \<and> \<not> isBackfillRunning (ic_service
         (startCompleteBackfill_c failing_bodies_c [''20232024''] False (new_service_c ())))
   \<and> sv_isRunning ((new_service ())\<lparr> sv_isRunning := True \<rparr>)
   \<and> iv_rejected (startCompleteBackfill failing_bodies [''20232024''] False
        ((new_service ())\<lparr> sv_isRunning := True \<rparr>)) = Some already_running"
proof -
  note inst = C10_is_running_flag_is_cleared[of "new_service ()" failing_bodies
      "[''20232024'']" False failing_bodies "[''20232024'']" False "new_service_c ()"
      failing_bodies_c failing_bodies_c]
  note inst2 = C10_is_running_flag_is_cleared[of "(new_service ())\<lparr> sv_isRunning := True \<rparr>"
      failing_bodies "[''20232024'']" False failing_bodies "[''20232024'']" False
      "new_service_c ()" failing_bodies_c failing_bodies_c]
  have i1: "\<not> sv_isRunning (new_service ())" by (simp add: new_service_def)
  have i2: "\<not> sv_isRunning (new_service_c ())" by (simp add: new_service_c_def)
  have r1: "iv_rejected (startCompleteBackfill failing_bodies [''20232024''] False
              (new_service ())) = None"
    by (simp add: startCompleteBackfill_def Let_def i1
        run_stages_caught[OF season_stages_caught]
        backfillAllTeams_def failing_bodies_def succeeds_def split: prod.splits)
  show ?thesis
    using inst inst2 i1 i2 r1 dataBackfill_players_failure_ends_the_run by simp
qed

subsection \<open>The fallback data\<close>

lemma insertFallbackTeams_empty: "insertFallbackTeams [] = fallback_teams"
  by (simp add: insertFallbackTeams_def fallback_teams_def insert_on_conflict_def mk_team_def)

lemma fallback_teams_length: "length fallback_teams = 32"
  by (simp add: fallback_teams_def)

lemma fallback_teams_ids:
  "map tm_id fallback_teams
   = [1, 2, 3, 4, 5, 6, 7, 8, 9, 10, 12, 13, 14, 15, 16, 17, 18, 19, 20, 21, 22, 23, 24, 25,
      26, 27, 28, 29, 30, 53, 54, 55]"
  by (simp add: fallback_teams_def mk_team_def)

lemma fallback_teams_pairs:
  "map (\<lambda>t. (tm_abbreviation t, tm_id t)) fallback_teams = team_id_mapping"
  by (simp add: fallback_teams_def mk_team_def team_id_mapping_def)

lemma insertFallbackCapitalsPlayers_empty:
  "insertFallbackCapitalsPlayers [] = fallback_capitals_players"
  by (simp add: insertFallbackCapitalsPlayers_def fallback_capitals_players_def
      insert_on_conflict_def mk_player_def)

lemma insertSampleCapitalsGames_empty:
  "insertSampleCapitalsGames season [] = sample_capitals_games season"
  by (simp add: insertSampleCapitalsGames_def sample_capitals_games_def
      insert_on_conflict_def mk_game_def)


lemma fallback_teams_distinct: "distinct (map tm_id fallback_teams)"
  by (simp add: fallback_teams_ids)

lemma fallback_teams_mapping:
  "\<forall>t \<in> set fallback_teams. getTeamIdFromAbbrev (tm_abbreviation t) = tm_id t"
  by (simp add: fallback_teams_def mk_team_def getTeamIdFromAbbrev_def team_id_mapping_def)

lemma fallback_teams_capitals:
  "map tm_abbreviation (filter (\<lambda>t. tm_id t = 15) fallback_teams) = [''WSH'']"
  by (simp add: fallback_teams_def mk_team_def)

subsection \<open>C5: the fallback teams\<close>

lemma insert_on_conflict_prefix:
  assumes g: "\<And>r x. g (upd r x) = g r"
  shows "n \<le> length t \<Longrightarrow>
         n \<le> length (insert_on_conflict key upd x t)
         \<and> map g (take n (insert_on_conflict key upd x t)) = map g (take n t)"
proof (cases "key x \<in> set (map key t)")
  case True
  assume n: "n \<le> length t"
  have "map g (map (\<lambda>old. if key old = key x then upd old x else old) t) = map g t"
    by (induction t) (simp_all add: g)
  then have "map g (take n (map (\<lambda>old. if key old = key x then upd old x else old) t))
             = map g (take n t)"
    by (metis take_map)
  then show ?thesis using True n by (simp add: insert_on_conflict_def)
next
  case False
  assume n: "n \<le> length t"
  then show ?thesis using False by (simp add: insert_on_conflict_def)
qed

lemma fold_upsert_prefix:
  assumes g: "\<And>r x. g (upd r x) = g r"
  shows "n \<le> length t \<Longrightarrow>
         map g (take n (fold (insert_on_conflict key upd) xs t)) = map g (take n t)"
proof (induction xs arbitrary: t)
  case Nil
  then show ?case by simp
next
  case (Cons x xs)
  have s: "n \<le> length (insert_on_conflict key upd x t)
           \<and> map g (take n (insert_on_conflict key upd x t)) = map g (take n t)"
    using insert_on_conflict_prefix[of g upd n t key x, OF g Cons.prems] .
  show ?case using Cons.IH[of "insert_on_conflict key upd x t"] s by simp
qed

lemma insertFallbackTeams_keeps:
  "map (\<lambda>t. (tm_id t, tm_abbreviation t)) (take (length tbl) (insertFallbackTeams tbl))
   = map (\<lambda>t. (tm_id t, tm_abbreviation t)) tbl"
  unfolding insertFallbackTeams_def
  using fold_upsert_prefix[of "\<lambda>t. (tm_id t, tm_abbreviation t)" fallback_update
      "length tbl" tbl tm_id fallback_teams]
  by (simp add: fallback_update_def)

lemma teams_stage_no_usable_rows:
  assumes "no_usable_rows (ev_standings env)"
  shows "fst (backfillAllTeams (production_bodies env) svc) = None"
    and "sv_store (snd (backfillAllTeams (production_bodies env) svc))
         = (sv_store svc)\<lparr> st_teams := insertFallbackTeams (st_teams (sv_store svc)) \<rparr>"
  using assms
  by (cases "ev_standings env" rule: no_usable_rows.cases;
      simp add: backfillAllTeams_def production_bodies_def teams_live_def teams_fallback_def
        Let_def updateProgress_def push_completed_def)+

text \<open>
  C5, as the code has it. When the live fetch of the standings is rejected, its body
  cannot be parsed, or the body has no \<^verbatim>\<open>standings\<close> field, the teams stage of the
  production service completes, and what it has done to the Team table is the upsert of
  the 32 fallback teams: every fallback id has a row, and a table that was empty holds
  exactly the fallback rows. Their ids are distinct and are those that
  \<^verbatim>\<open>getTeamIdFromAbbrev\<close> gives for their abbreviations; the abbreviation of id 15 is
  WSH. The rows that were there before stay where they are, each with its id and its
  abbreviation.
\<close>

theorem C5_fallback_teams:
  assumes "no_usable_rows (ev_standings env)"
  shows "let r = backfillAllTeams (production_bodies env) svc;
             teams = st_teams (sv_store (snd r))
         in fst r = None
          \<and> teams = insertFallbackTeams (st_teams (sv_store svc))
          \<and> tm_id ` set teams = tm_id ` set fallback_teams \<union> tm_id ` set (st_teams (sv_store svc))
          \<and> map (\<lambda>t. (tm_id t, tm_abbreviation t))
                (take (length (st_teams (sv_store svc))) teams)
            = map (\<lambda>t. (tm_id t, tm_abbreviation t)) (st_teams (sv_store svc))
          \<and> (st_teams (sv_store svc) = [] \<longrightarrow> teams = fallback_teams)
          \<and> length fallback_teams = 32
          \<and> distinct (map tm_id fallback_teams)
          \<and> (\<forall>t \<in> set fallback_teams. getTeamIdFromAbbrev (tm_abbreviation t) = tm_id t)
          \<and> map tm_abbreviation (filter (\<lambda>t. tm_id t = 15) fallback_teams) = [''WSH'']"
proof -
  have k: "tm_id ` set (insertFallbackTeams (st_teams (sv_store svc)))
           = tm_id ` set fallback_teams \<union> tm_id ` set (st_teams (sv_store svc))"
    unfolding insertFallbackTeams_def
    by (rule fold_upsert_keys) (simp add: fallback_update_def)
  show ?thesis
    unfolding Let_def teams_stage_no_usable_rows[OF assms]
    using k fallback_teams_mapping
    by (simp add: insertFallbackTeams_empty fallback_teams_length fallback_teams_distinct
        fallback_teams_capitals insertFallbackTeams_keeps)
qed

theorem C5_fallback_teams_witness:
  "no_usable_rows (ev_standings failing_env)
   \<and> fst (backfillAllTeams (production_bodies failing_env) (new_service empty_store)) = None
   \<and> st_teams (sv_store (snd (backfillAllTeams (production_bodies failing_env)
        (new_service empty_store)))) = fallback_teams"
proof -
  have h: "no_usable_rows (ev_standings failing_env)" by (simp add: failing_env_def)
  have e: "st_teams (sv_store (new_service empty_store)) = []"
    by (simp add: new_service_def empty_store_def)
  show ?thesis
    using C5_fallback_teams[OF h, of "new_service empty_store"] h e
    by (simp add: Let_def insertFallbackTeams_empty)
qed

text \<open>
  C5 does not hold on a table that has rows: the standings of an earlier run held a team
  that \<^verbatim>\<open>getTeamIdFromAbbrev\<close> does not know, so \<^verbatim>\<open>insertTeam\<close> wrote it with the
  id 999; when the fetch of the next run is rejected, the Team table holds that row and
  the 32 fallback rows.
\<close>

theorem C5_rows_of_an_earlier_run_stay:
  "no_usable_rows (ev_standings failing_env)
   \<and> map (\<lambda>t. (tm_id t, tm_abbreviation t))
       (st_teams (sv_store (snd (backfillAllTeams (production_bodies failing_env)
          (snd (backfillAllTeams (production_bodies utah_env) (new_service empty_store)))))))
     = (999, ''UTA'') # map (\<lambda>t. (tm_id t, tm_abbreviation t)) fallback_teams
   \<and> length (st_teams (sv_store (snd (backfillAllTeams (production_bodies failing_env)
          (snd (backfillAllTeams (production_bodies utah_env) (new_service empty_store)))))))
     = 33"
proof -
  have h: "no_usable_rows (ev_standings failing_env)" by (simp add: failing_env_def)
  have first: "st_teams (sv_store (snd (backfillAllTeams (production_bodies utah_env)
                  (new_service empty_store))))
               = [mk_team 999 ''Utah Hockey Club'' ''UTA'' ''Utah'' ''Central'' ''Western'']"
    by (simp add: backfillAllTeams_def production_bodies_def teams_live_def utah_env_def
        failing_env_def Let_def updateProgress_def push_completed_def new_service_def
        empty_store_def insertTeam_def insert_on_conflict_def team_of_standing_def
        getTeamIdFromAbbrev_def team_id_mapping_def mk_team_def)
  have second: "insertFallbackTeams
                  [mk_team 999 ''Utah Hockey Club'' ''UTA'' ''Utah'' ''Central'' ''Western'']
                = mk_team 999 ''Utah Hockey Club'' ''UTA'' ''Utah'' ''Central'' ''Western''
                  # fallback_teams"
    by (simp add: insertFallbackTeams_def fallback_teams_def insert_on_conflict_def
        mk_team_def)
  have ids: "tm_id (mk_team 999 ''Utah Hockey Club'' ''UTA'' ''Utah'' ''Central'' ''Western'')
             = 999"
    "tm_abbreviation (mk_team 999 ''Utah Hockey Club'' ''UTA'' ''Utah'' ''Central'' ''Western'')
     = ''UTA''"
    by (simp_all add: mk_team_def)
  show ?thesis
    unfolding teams_stage_no_usable_rows(2)[OF h]
    by (simp add: h first second fallback_teams_length ids)
qed

text \<open>
  A body whose \<^verbatim>\<open>standings\<close> field is the empty array is taken as it is: the loop
  inserts nothing and the fallback is not used.
\<close>

lemma empty_standings_are_taken:
  "st_teams (sv_store (snd (backfillAllTeams
      (production_bodies (failing_env\<lparr> ev_standings := Response True (Inr (Some [])) \<rparr>))
      (new_service empty_store)))) = []"
  by (simp add: backfillAllTeams_def production_bodies_def teams_live_def
      failing_env_def Let_def updateProgress_def push_completed_def new_service_def
      empty_store_def)


subsection \<open>C9: the scenario without a live fetch\<close>

lemma sample_capitals_games_length: "length (sample_capitals_games season) = 5"
  by (simp add: sample_capitals_games_def)

lemma fallback_capitals_players_length: "length fallback_capitals_players = 10"
  by (simp add: fallback_capitals_players_def)

lemma sample_capitals_games_first:
  "filter (\<lambda>g. gm_id g = 2024020500) (sample_capitals_games season)
   = [mk_game 2024020500 season 15 3 4 2 ''2024-12-20'' ''Capital One Arena'']"
  by (simp add: sample_capitals_games_def mk_game_def)

text \<open>
  C9, as the code has it: the scenario is that of \<^verbatim>\<open>startTestBackfill\<close>, which
  fetches nothing and has no playoffs argument. On an idle instance whose Team, Player
  and Game tables are empty it returns and leaves the 32 fallback teams, the ten fallback
  players and the five sample games of the first season; the game 2024020500 has the home
  team 15, the away team 3 and the score 4 to 2; and the report prints these counts.
\<close>

theorem C9_test_backfill_scenario:
  assumes "\<not> sv_isRunning svc"
    and "st_teams (sv_store svc) = []"
    and "st_players (sv_store svc) = []"
    and "st_games (sv_store svc) = []"
  shows "let run = startTestBackfill season more_seasons svc;
             st = sv_store (tv_service run)
         in tv_rejected run = None
          \<and> st_teams st = fallback_teams \<and> length (st_teams st) = 32
          \<and> st_players st = fallback_capitals_players \<and> length (st_players st) = 10
          \<and> st_games st = sample_capitals_games season \<and> length (st_games st) = 5
          \<and> map (\<lambda>g. (gm_home_team_id g, gm_away_team_id g, gm_home_score g, gm_away_score g))
                (filter (\<lambda>g. gm_id g = 2024020500) (st_games st))
            = [(Some 15, Some 3, 4, 2)]
          \<and> map_option (take 3) (tv_report run)
            = Some [(''teams'', 32), (''players'', 10), (''games'', 5)]
          \<and> \<not> sv_isRunning (tv_service run)"
  using assms
  by (simp add: startTestBackfill_def Let_def generateTestBackfillReport_def
      insertFallbackTeams_empty insertFallbackCapitalsPlayers_empty
      insertSampleCapitalsGames_empty fallback_teams_length
      fallback_capitals_players_length sample_capitals_games_length
      sample_capitals_games_first mk_game_def)

theorem C9_test_backfill_scenario_witness:
  "\<not> sv_isRunning (new_service empty_store)
   \<and> st_teams (sv_store (new_service empty_store)) = []
   \<and> st_players (sv_store (new_service empty_store)) = []
   \<and> st_games (sv_store (new_service empty_store)) = []
   \<and> length (st_teams (sv_store (tv_service
        (startTestBackfill ''20232024'' [] (new_service empty_store))))) = 32
   \<and> length (st_players (sv_store (tv_service
        (startTestBackfill ''20232024'' [] (new_service empty_store))))) = 10
   \<and> length (st_games (sv_store (tv_service
        (startTestBackfill ''20232024'' [] (new_service empty_store))))) = 5"
proof -
  have h: "\<not> sv_isRunning (new_service empty_store)"
    "st_teams (sv_store (new_service empty_store)) = []"
    "st_players (sv_store (new_service empty_store)) = []"
    "st_games (sv_store (new_service empty_store)) = []"
    by (simp_all add: new_service_def empty_store_def)
  show ?thesis
    using C9_test_backfill_scenario[OF h, of "''20232024''" "[]"] h
    by (simp add: Let_def fallback_teams_length fallback_capitals_players_length
        sample_capitals_games_length)
qed

lemma team_season_step_no_games:
  "team_season_step string_enc int_column season [] tgs teamId tbl = (None, tbl)"
proof -
  have r: "team_final_games teamId season [] tgs = []"
    by (simp add: team_final_games_def)
  have z: "parseInt_of (string_enc 0) = JNum 0"
    unfolding parseInt_of_def string_enc_def by (simp add: parseInt_show_int)
  show ?thesis
    unfolding team_season_step_def statsQuery_def Let_def r
    by (simp add: z js_gt_zero_def)
qed

lemma calculateTeamSeasonStats_no_games:
  "calculateTeamSeasonStats string_enc int_column season teams [] tgs tss = (None, tss)"
  unfolding calculateTeamSeasonStats_def
  by (induction teams) (simp_all add: team_season_step_no_games)

lemma stages_without_games:
  assumes "st_games st = []" and "st_player_game_stats st = []"
  shows "player_game_stats_body failing_env season st = (None, st)"
    and "team_game_stats_body failing_env season st = (None, st)"
    and "goalie_stats_body failing_env season st = (None, st)"
    and "season_stats_body failing_env season st = (None, st)"
    and "shot_data_body failing_env season st = (None, st)"
    and "advanced_stats_body failing_env season st = (None, st)"
    and "games_body failing_env season False st = (None, st)"
    and "players_body failing_env season st = (Some fetch_failed, st)"
  using assms
  by (simp_all add: player_game_stats_body_def team_game_stats_body_def goalie_stats_body_def
      season_stats_body_def shot_data_body_def advanced_stats_body_def games_body_def
      players_body_def insert_summary_def
      failing_env_def final_games_def capitals_final_games_def fetched_bodies_def
      List.map_filter_simps backfillPlayerGameStats_loop_def Let_def
      calculateSeasonStats_players_def season_rows_def player_groups_def
      calculateTeamSeasonStats_no_games)

text \<open>
  C9 does not hold of \<^verbatim>\<open>startCompleteBackfill\<close> of the production service: with the
  season 20232024, without playoffs, on an empty store and with every fetch rejected, the
  run returns with the 32 fallback teams, no player and no game. Only the teams have a
  fallback there; the players stage records its error and the games stage skips the game
  type whose fetch failed.
\<close>

theorem C9_complete_backfill_has_no_fallback_roster:
  "iv_rejected (startCompleteBackfill (production_bodies failing_env) [''20232024''] False
      (new_service empty_store)) = None
   \<and> length (st_teams (sv_store (iv_service
        (startCompleteBackfill (production_bodies failing_env) [''20232024''] False
           (new_service empty_store))))) = 32
   \<and> st_players (sv_store (iv_service
        (startCompleteBackfill (production_bodies failing_env) [''20232024''] False
           (new_service empty_store)))) = []
   \<and> st_games (sv_store (iv_service
        (startCompleteBackfill (production_bodies failing_env) [''20232024''] False
           (new_service empty_store)))) = []
   \<and> pr_errors (sv_progress (iv_service
        (startCompleteBackfill (production_bodies failing_env) [''20232024''] False
           (new_service empty_store)))) = [''Players for 20232024: fetch failed'']"
proof -
  let ?st = "empty_store\<lparr> st_teams := fallback_teams \<rparr>"
  have g: "st_games ?st = []" "st_player_game_stats ?st = []"
    by (simp_all add: empty_store_def)
  note b = stages_without_games[OF g]
  have t: "teams_live failing_env empty_store = (Some fetch_failed, empty_store)"
    by (simp add: teams_live_def failing_env_def)
  have f: "teams_fallback empty_store = (None, ?st)"
    by (simp add: teams_fallback_def empty_store_def insertFallbackTeams_empty)
  have e: "st_players empty_store = []" "st_games empty_store = []"
    by (simp_all add: empty_store_def)
  show ?thesis
    by (simp add: startCompleteBackfill_def backfillAllTeams_def Let_def new_service_def
        production_bodies_def t f b e updateProgress_def push_completed_def
        push_error_def run_stages_def run_stage_def season_stages_def
        backfillAllPlayersForSeason_def backfillAllGamesForSeason_def
        backfillPlayerGameStats_def backfillTeamGameStats_def backfillGoalieStats_def
        calculateSeasonStats_def backfillShotData_def backfillAdvancedStats_def
        generateFinalReport_def fetch_failed_def fallback_teams_length)
qed

end
